(* ===== verification/Prelude.thy ===== *)
theory Prelude
  imports Main "HOL-Library.Word" "HOL-Library.AList" "HOL-Library.Multiset"
begin

text \<open>
  Shared vocabulary of the EuclidFi model: the machine integer types of the
  contract (\<open>u8\<close>, \<open>u64\<close>, \<open>Uint128\<close>), the error type that stands for
  every \<open>Err\<close> and every panic of \<^verbatim>\<open>src/contracts/euclidfi/src/contract.rs\<close>,
  the \<open>?\<close>-operator as \<open>rbind\<close>, the panicking arithmetic of
  \<open>cosmwasm_std::Uint128\<close> (\<open>+\<close>, \<open>-\<close>, \<open>*\<close>, \<open>multiply_ratio\<close>), Rust's
  \<open>saturating_sub\<close>, \<open>Iterator::position\<close> and \<open>Vec::remove\<close>, a
  \<open>HashMap\<close> as an association list, and decimal printing of integers.
  The lemmas here are the ones every component proof uses.
\<close>

named_theorems arith_res "facts about the checked machine arithmetic"

subsection \<open>Machine integer types\<close>

type_synonym u8 = "8 word"
type_synonym u64 = "64 word"
type_synonym uint128 = "128 word"

subsection \<open>Errors and the question-mark operator\<close>

text \<open>
  \<open>Unauthorized\<close> is \<open>ContractError::Unauthorized\<close>; \<open>NotFound\<close> is the
  \<open>StdError::NotFound\<close> of a storage load of an absent key; \<open>GenericErr\<close> is
  \<open>StdError::generic_err\<close> with its message; \<open>Panic\<close> is a Rust panic (an
  arithmetic overflow or a zero divisor), which aborts the transaction like an error.
\<close>

datatype contract_error =
    Unauthorized
  | NotFound string
  | GenericErr string
  | Panic string

type_synonym 'a result = "contract_error + 'a"

fun rbind :: "'a result \<Rightarrow> ('a \<Rightarrow> 'b result) \<Rightarrow> 'b result" where
  "rbind (Inl e) f = Inl e"
| "rbind (Inr x) f = f x"

lemma rbind_eq_Inr [simp]:
  "rbind m f = Inr y \<longleftrightarrow> (\<exists>x. m = Inr x \<and> f x = Inr y)"
  by (cases m) auto

lemma rbind_eq_Inl:
  "rbind m f = Inl e \<longleftrightarrow> m = Inl e \<or> (\<exists>x. m = Inr x \<and> f x = Inl e)"
  by (cases m) auto

lemma rbind_Inr_cong [simp]: "rbind (Inr x) f = f x"
  by simp

subsection \<open>Checked arithmetic (panicking operators of \<open>Uint128\<close> and of Rust)\<close>

definition word_add_checked :: "'a::len word \<Rightarrow> 'a word \<Rightarrow> 'a word result" where
  "word_add_checked a b =
     (if unat a + unat b < 2 ^ LENGTH('a) then Inr (a + b)
      else Inl (Panic ''attempt to add with overflow''))"

definition word_sub_checked :: "'a::len word \<Rightarrow> 'a word \<Rightarrow> 'a word result" where
  "word_sub_checked a b =
     (if b \<le> a then Inr (a - b) else Inl (Panic ''attempt to subtract with overflow''))"

definition word_mul_checked :: "'a::len word \<Rightarrow> 'a word \<Rightarrow> 'a word result" where
  "word_mul_checked a b =
     (if unat a * unat b < 2 ^ LENGTH('a) then Inr (a * b)
      else Inl (Panic ''attempt to multiply with overflow''))"

text \<open>
  \<open>Uint128::multiply_ratio(num, den)\<close> computes \<open>self * num / den\<close> with a 256-bit
  intermediate product, truncating, and panics when \<open>den = 0\<close> or when the quotient
  does not fit in 128 bits.
\<close>

definition multiply_ratio :: "uint128 \<Rightarrow> uint128 \<Rightarrow> uint128 \<Rightarrow> uint128 result" where
  "multiply_ratio x num den =
     (if den = 0 then Inl (Panic ''Denominator must not be zero'')
      else (let r = unat x * unat num div unat den in
            if r < 2 ^ 128 then Inr (of_nat r) else Inl (Panic ''Multiplication overflow'')))"

definition saturating_sub :: "'a::len word \<Rightarrow> 'a word \<Rightarrow> 'a word" where
  "saturating_sub a b = (if a < b then 0 else a - b)"

lemma unat_u128_lt: "unat (x::uint128) < 2 ^ 128"
proof -
  have "unat x < 2 ^ LENGTH(128)" by (rule unsigned_less)
  then show ?thesis by simp
qed

lemma unat_add_u128 [arith_res]:
  "unat a + unat b < 2 ^ 128 \<Longrightarrow> unat (a + b) = unat a + unat b" for a b :: uint128
  using unat_add_lem [of a b] by simp

lemma word_add_checked_Inr [arith_res]:
  "word_add_checked a b = Inr c \<longleftrightarrow> unat a + unat b < 2 ^ LENGTH('a) \<and> c = a + b"
  for a :: "'a::len word"
  by (auto simp: word_add_checked_def)

lemma word_add_checked_unat [arith_res]:
  "word_add_checked a b = Inr c \<Longrightarrow> unat c = unat a + unat b"
  for a :: "'a::len word"
  by (auto simp: word_add_checked_def split: if_splits dest: unat_add_lem [THEN iffD1])

lemma word_sub_checked_Inr [arith_res]:
  "word_sub_checked a b = Inr c \<longleftrightarrow> b \<le> a \<and> c = a - b"
  by (auto simp: word_sub_checked_def)

lemma word_sub_checked_unat [arith_res]:
  "word_sub_checked a b = Inr c \<Longrightarrow> unat c = unat a - unat b"
  by (auto simp: word_sub_checked_def split: if_splits intro: unat_sub)

lemma word_mul_checked_unat [arith_res]:
  "word_mul_checked a b = Inr c \<Longrightarrow> unat c = unat a * unat b"
  for a :: "'a::len word"
  by (auto simp: word_mul_checked_def split: if_splits dest: unat_mult_lem [THEN iffD1])

lemma word_mul_checked_cases [arith_res]:
  "word_mul_checked a b =
     (if unat a * unat b < 2 ^ LENGTH('a) then Inr (a * b)
      else Inl (Panic ''attempt to multiply with overflow''))"
  for a :: "'a::len word"
  by (simp add: word_mul_checked_def)

lemma multiply_ratio_Inr [arith_res]:
  "multiply_ratio x num den = Inr r \<longleftrightarrow>
     den \<noteq> 0 \<and> unat x * unat num div unat den < 2 ^ 128 \<and>
     r = of_nat (unat x * unat num div unat den)"
  by (auto simp: multiply_ratio_def Let_def)

lemma multiply_ratio_unat [arith_res]:
  "multiply_ratio x num den = Inr r \<Longrightarrow> unat r = unat x * unat num div unat den"
  by (auto simp: multiply_ratio_Inr unat_of_nat)

text \<open>With a numerator no larger than the denominator the ratio neither panics nor grows.\<close>

lemma multiply_ratio_le:
  assumes "num \<le> den" and "den \<noteq> 0"
  shows "\<exists>r. multiply_ratio x num den = Inr r \<and> unat r \<le> unat x"
proof -
  have den: "0 < unat den" using assms(2) by (simp add: unat_gt_0)
  have "unat num \<le> unat den" using assms(1) by (simp add: word_le_nat_alt)
  then have "unat x * unat num \<le> unat x * unat den" by simp
  then have le: "unat x * unat num div unat den \<le> unat x"
    using den by (metis div_le_mono nonzero_mult_div_cancel_right not_gr0)
  also have "unat x < 2 ^ 128" by (rule unat_u128_lt)
  finally have "unat x * unat num div unat den < 2 ^ 128" .
  with le assms(2) show ?thesis by (simp add: multiply_ratio_Inr unat_of_nat)
qed

text \<open>\<open>w as u128\<close> for a \<open>u8\<close> or \<open>u64\<close> keeps its value.\<close>

lemma unat_ucast_u8 [simp]: "unat (ucast (w::u8) :: uint128) = unat w"
  by transfer simp

lemma unat_ucast_u64 [simp]: "unat (ucast (w::u64) :: uint128) = unat w"
  by transfer simp

lemma unat_saturating_sub [arith_res]: "unat (saturating_sub a b) = unat a - unat b"
proof (cases "a < b")
  case True
  then show ?thesis by (simp add: saturating_sub_def word_less_nat_alt)
next
  case False
  then show ?thesis by (simp add: saturating_sub_def unat_sub not_less)
qed

subsection \<open>\<open>Iterator::sum\<close> over \<open>u8\<close>\<close>

text \<open>
  \<open>iter().map(..).sum::<u8>()\<close> adds from the left with the overflow-checked
  \<open>+\<close> of a build with \<open>overflow-checks = true\<close> (the CosmWasm release profile), so it
  panics at the first partial sum that passes 255.
\<close>

fun u8_sum_from :: "u8 \<Rightarrow> u8 list \<Rightarrow> u8 result" where
  "u8_sum_from acc [] = Inr acc"
| "u8_sum_from acc (w # ws) = rbind (word_add_checked acc w) (\<lambda>acc'. u8_sum_from acc' ws)"

definition u8_sum :: "u8 list \<Rightarrow> u8 result" where
  "u8_sum ws = u8_sum_from 0 ws"

lemma u8_sum_from_eq:
  "u8_sum_from acc ws =
     (if unat acc + sum_list (map unat ws) < 256
      then Inr (acc + of_nat (sum_list (map unat ws)))
      else Inl (Panic ''attempt to add with overflow''))"
proof (induction ws arbitrary: acc)
  case Nil
  have "unat acc < 256" using unsigned_less [of acc] by simp
  then show ?case by simp
next
  case (Cons w ws)
  show ?case
  proof (cases "unat acc + unat w < 256")
    case True
    then have "unat (acc + w) = unat acc + unat w"
      using unat_add_lem [of acc w] by simp
    with True Cons.IH [of "acc + w"] show ?thesis
      by (simp add: word_add_checked_def add.assoc)
  next
    case False
    then show ?thesis by (simp add: word_add_checked_def)
  qed
qed

lemma u8_sum_eq:
  "u8_sum ws =
     (if sum_list (map unat ws) < 256 then Inr (of_nat (sum_list (map unat ws)))
      else Inl (Panic ''attempt to add with overflow''))"
  by (simp add: u8_sum_def u8_sum_from_eq)

lemma u8_sum_Inr_unat [arith_res]:
  "u8_sum ws = Inr t \<Longrightarrow> unat t = sum_list (map unat ws)"
  by (auto simp: u8_sum_eq unat_of_nat split: if_splits)

subsection \<open>\<open>Iterator::position\<close> and \<open>Vec::remove\<close>\<close>

fun position_of :: "('a \<Rightarrow> bool) \<Rightarrow> 'a list \<Rightarrow> nat option" where
  "position_of P [] = None"
| "position_of P (x # xs) = (if P x then Some 0 else map_option Suc (position_of P xs))"

lemma position_of_Some:
  "position_of P xs = Some i \<Longrightarrow> i < length xs \<and> P (xs ! i) \<and> (\<forall>j<i. \<not> P (xs ! j))"
proof (induction xs arbitrary: i)
  case Nil
  then show ?case by simp
next
  case (Cons x xs)
  then show ?case
    by (cases i) (auto simp: less_Suc_eq_0_disj split: if_splits)
qed

lemma position_of_None: "position_of P xs = None \<longleftrightarrow> (\<forall>x\<in>set xs. \<not> P x)"
  by (induction xs) auto

lemma position_of_append_None:
  "\<forall>x\<in>set xs. \<not> P x \<Longrightarrow> position_of P (xs @ [y]) = (if P y then Some (length xs) else None)"
  by (induction xs) auto

definition vec_remove :: "nat \<Rightarrow> 'a list \<Rightarrow> 'a list" where
  "vec_remove i xs = take i xs @ drop (Suc i) xs"

lemma length_vec_remove [simp]: "i < length xs \<Longrightarrow> length (vec_remove i xs) = length xs - 1"
  by (simp add: vec_remove_def)

lemma vec_remove_update [simp]: "vec_remove i (xs[i := y]) = vec_remove i xs"
  by (simp add: vec_remove_def)

lemma set_vec_remove: "set (vec_remove i xs) \<subseteq> set xs"
  by (auto simp: vec_remove_def dest: in_set_takeD in_set_dropD)

lemma list_all_update:
  "list_all P xs \<Longrightarrow> P x \<Longrightarrow> list_all P (xs[i := x])"
  by (auto simp: list_all_iff dest: set_update_subset_insert [THEN subsetD])

lemma list_all_vec_remove: "list_all P xs \<Longrightarrow> list_all P (vec_remove i xs)"
  using set_vec_remove by (fastforce simp: list_all_iff)

lemma position_of_update:
  "P y = P (xs ! i) \<Longrightarrow> position_of P (xs[i := y]) = position_of P xs"
proof (induction xs arbitrary: i)
  case Nil
  then show ?case by simp
next
  case (Cons x xs)
  then show ?case by (cases i) auto
qed

lemma sum_list_vec_remove:
  "i < length xs \<Longrightarrow> sum_list (map f (vec_remove i xs)) = sum_list (map f xs) - f (xs ! i)"
  for f :: "'a \<Rightarrow> nat"
proof -
  assume i: "i < length xs"
  then have "xs = take i xs @ xs ! i # drop (Suc i) xs"
    by (simp add: id_take_nth_drop)
  then have "sum_list (map f xs) = sum_list (map f (take i xs)) + f (xs ! i)
                                 + sum_list (map f (drop (Suc i) xs))"
    by (metis (no_types) add.assoc list.map(2) map_append sum_list.Cons sum_list_append)
  then show ?thesis by (simp add: vec_remove_def)
qed

lemma sum_list_list_update:
  "i < length xs \<Longrightarrow>
   sum_list (map f (xs[i := y])) + f (xs ! i) = sum_list (map f xs) + f y"
  for f :: "'a \<Rightarrow> nat"
proof (induction xs arbitrary: i)
  case Nil
  then show ?case by simp
next
  case (Cons x xs)
  then show ?case by (cases i) auto
qed

lemma sum_list_update_same:
  "i < length xs \<Longrightarrow> f y = f (xs ! i) \<Longrightarrow> sum_list (map f (xs[i := y])) = sum_list (map f xs)"
  for f :: "'a \<Rightarrow> nat"
  using sum_list_list_update [of i xs f y] by simp

subsection \<open>\<open>HashMap<String, V>\<close> as an association list\<close>

text \<open>
  A \<open>HashMap\<close> is an association list with distinct keys; \<open>insert\<close> is
  \<open>AList.update\<close> (it overwrites the value of a present key) and iteration visits the
  list in order. The order a real \<open>HashMap\<close> iterates in is unspecified; the model
  fixes the insertion order, and the lemmas about iteration are stated so that they do
  not depend on it (sums, multisets, \<open>map_of\<close>).
\<close>

type_synonym 'v hashmap = "(string \<times> 'v) list"

definition hashmap_insert :: "string \<Rightarrow> 'v \<Rightarrow> 'v hashmap \<Rightarrow> 'v hashmap" where
  "hashmap_insert k v m = AList.update k v m"

lemma map_of_hashmap_insert [simp]: "map_of (hashmap_insert k v m) = (map_of m)(k \<mapsto> v)"
  by (simp add: hashmap_insert_def update_conv')

lemma distinct_hashmap_insert:
  "distinct (map fst m) \<Longrightarrow> distinct (map fst (hashmap_insert k v m))"
  by (simp add: hashmap_insert_def distinct_update)

lemma hashmap_insert_fresh:
  "k \<notin> fst ` set m \<Longrightarrow> hashmap_insert k v m = m @ [(k, v)]"
  by (induction m) (auto simp: hashmap_insert_def)

lemma map_of_fold_insert:
  "map_of (fold (\<lambda>(k, v) m. hashmap_insert k v m) xs acc) = map_of acc ++ map_of (rev xs)"
  by (induction xs arbitrary: acc) (auto simp: map_add_upd [symmetric])

lemma map_of_rev_distinct:
  assumes "distinct (map fst xs)"
  shows "map_of (rev xs) = map_of xs"
proof (rule ext)
  fix k
  have d: "distinct (map fst (rev xs))" using assms by (simp add: rev_map [symmetric])
  show "map_of (rev xs) k = map_of xs k"
  proof (cases "map_of xs k")
    case None
    then have "k \<notin> fst ` set (rev xs)" by (simp add: map_of_eq_None_iff)
    then have "map_of (rev xs) k = None" by (metis map_of_eq_None_iff)
    then show ?thesis using None by simp
  next
    case (Some v)
    then have "(k, v) \<in> set (rev xs)" by (simp add: map_of_SomeD)
    then show ?thesis using d Some by (simp add: map_of_is_SomeI)
  qed
qed

lemma distinct_fold_insert:
  "distinct (map fst acc) \<Longrightarrow> distinct (map fst (fold (\<lambda>(k, v) m. hashmap_insert k v m) xs acc))"
  by (induction xs arbitrary: acc) (auto simp: distinct_hashmap_insert)

lemma sum_list_keyed:
  "distinct (map fst xs) \<Longrightarrow>
   sum_list (map (\<lambda>(k', v). if k' = k then f k' v else 0) xs) =
     (case map_of xs k of None \<Rightarrow> 0 | Some v \<Rightarrow> f k v)"
  for f :: "'k \<Rightarrow> 'v \<Rightarrow> int"
  by (induction xs) (auto simp: map_of_eq_None_iff [THEN iffD2] split: option.splits)

subsection \<open>Decimal printing (\<open>to_string\<close>)\<close>

definition digit_char :: "nat \<Rightarrow> char" where
  "digit_char d = ''0123456789'' ! d"

fun dec_string :: "nat \<Rightarrow> string" where
  "dec_string n =
     (if n < 10 then [digit_char n] else dec_string (n div 10) @ [digit_char (n mod 10)])"

declare dec_string.simps [simp del]

definition u128_to_string :: "uint128 \<Rightarrow> string" where
  "u128_to_string x = dec_string (unat x)"

definition bool_to_string :: "bool \<Rightarrow> string" where
  "bool_to_string b = (if b then ''true'' else ''false'')"

text \<open>Summing a function of the values of a finite map across one update.\<close>

lemma sum_map_update:
  fixes f :: "'v \<Rightarrow> nat" and m :: "'k \<rightharpoonup> 'v"
  assumes "finite (dom m)"
  shows "(\<Sum>j\<in>dom (m(k \<mapsto> v)). f (the ((m(k \<mapsto> v)) j))) + (case m k of None \<Rightarrow> 0 | Some v0 \<Rightarrow> f v0)
         = (\<Sum>j\<in>dom m. f (the (m j))) + f v"
proof -
  have eq: "(\<Sum>j\<in>dom m - {k}. f (the ((m(k \<mapsto> v)) j))) = (\<Sum>j\<in>dom m - {k}. f (the (m j)))"
    by (rule sum.cong) auto
  have ins: "(\<Sum>j\<in>dom (m(k \<mapsto> v)). f (the ((m(k \<mapsto> v)) j))) = f v + (\<Sum>j\<in>dom m - {k}. f (the (m j)))"
    using assms by (simp add: sum.insert_remove eq)
  show ?thesis
  proof (cases "m k")
    case None
    then have "dom m - {k} = dom m" by auto
    then show ?thesis using ins None by simp
  next
    case (Some v0)
    then have "(\<Sum>j\<in>dom m. f (the (m j))) = f v0 + (\<Sum>j\<in>dom m - {k}. f (the (m j)))"
      using assms by (simp add: sum.remove [of "dom m" k] domI)
    then show ?thesis using ins Some by simp
  qed
qed

end
