(* ===== verification/Tokens.thy ===== *)
theory Tokens
  imports Prelude
begin

text \<open>
  The token weight model of \<^verbatim>\<open>contract.rs\<close> (lines 47--67): the chains a token
  can live on, a token, and a token with its integer weight. A basket's weights are
  meant to add up to 100; \<open>total_weight\<close> is the \<open>u8\<close> sum the contract computes
  (in \<open>execute_update_basket\<close> and in \<open>calculate_token_amounts\<close>), which panics
  when a partial sum passes 255.
\<close>

datatype chain_type = Cosmos | Ethereum | Polygon | Binance

record token =
  address :: string
  chain :: chain_type
  symbol :: string
  decimals :: u8

record token_weight =
  token :: token
  weight :: u8

definition total_weight :: "token_weight list \<Rightarrow> u8 result" where
  "total_weight tokens = u8_sum (map weight tokens)"

definition weights_valid :: "token_weight list \<Rightarrow> bool" where
  "weights_valid tokens \<longleftrightarrow> total_weight tokens = Inr 100"

definition find_token :: "string \<Rightarrow> token_weight list \<Rightarrow> token_weight option" where
  "find_token sy tokens = find (\<lambda>t. symbol (token t) = sy) tokens"

definition token_symbols :: "token_weight list \<Rightarrow> string list" where
  "token_symbols tokens = map (\<lambda>t. symbol (token t)) tokens"

lemma total_weight_eq:
  "total_weight ts =
     (if sum_list (map (unat \<circ> weight) ts) < 256
      then Inr (of_nat (sum_list (map (unat \<circ> weight) ts)))
      else Inl (Panic ''attempt to add with overflow''))"
  by (simp add: total_weight_def u8_sum_eq)

lemma total_weight_unat:
  "total_weight ts = Inr tw \<Longrightarrow> unat tw = sum_list (map (unat \<circ> weight) ts)"
  using u8_sum_Inr_unat by (fastforce simp: total_weight_def)

lemma total_weight_ge:
  "total_weight ts = Inr tw \<Longrightarrow> t \<in> set ts \<Longrightarrow> weight t \<le> tw"
proof -
  assume tw: "total_weight ts = Inr tw" and t: "t \<in> set ts"
  have "unat (weight t) \<le> sum_list (map (unat \<circ> weight) ts)"
    using t by (simp add: member_le_sum_list)
  with total_weight_unat [OF tw] show ?thesis by (simp add: word_le_nat_alt)
qed

lemma weights_valid_iff: "weights_valid ts \<longleftrightarrow> sum_list (map (unat \<circ> weight) ts) = 100"
proof
  assume "weights_valid ts"
  then have lt: "sum_list (map (unat \<circ> weight) ts) < 256"
    and eq: "word_of_nat (sum_list (map (unat \<circ> weight) ts)) = (100::u8)"
    by (auto simp: weights_valid_def total_weight_eq split: if_splits)
  from of_nat_inverse [OF eq] lt show "sum_list (map (unat \<circ> weight) ts) = 100"
    by simp
next
  assume "sum_list (map (unat \<circ> weight) ts) = 100"
  then show "weights_valid ts" by (simp add: weights_valid_def total_weight_eq)
qed

lemma total_weight_perm:
  "mset ts = mset ts' \<Longrightarrow> total_weight ts = total_weight ts'"
  by (simp add: total_weight_eq) (metis mset_map sum_mset_sum_list)

lemma find_token_Some: "find_token sy ts = Some t \<Longrightarrow> t \<in> set ts \<and> symbol (token t) = sy"
  by (auto simp: find_token_def find_Some_iff)

lemma total_weight_100:
  "total_weight ts = Inr tw \<Longrightarrow> tw = 100 \<longleftrightarrow> sum_list (map (unat \<circ> weight) ts) = 100"
  using total_weight_unat [of ts tw] by (simp add: word_unat_eq_iff)

end
