(* ===== verification/Store.thy ===== *)
theory Store
  imports Tokens
begin

text \<open>
  The contract's persistent state and its output, from \<^verbatim>\<open>contract.rs\<close>
  lines 21--109: the \<open>Config\<close> item, the \<open>BasketConfig\<close>, \<open>UserPortfolio\<close>,
  \<open>InvestmentPosition\<close> and \<open>InvestmentHistory\<close> structs, and the four storage
  collections \<open>CONFIG\<close>, \<open>BASKETS\<close>, \<open>PORTFOLIOS\<close>, \<open>PRICE_FEEDS\<close> as one
  record \<open>store\<close>. \<open>Item::load\<close> and \<open>Map::load\<close> of an absent key fail
  with \<open>NotFound\<close>. The price feeds are written by the oracle outside the contract;
  \<open>get_token_prices\<close> reads them in ascending key order into a \<open>HashMap\<close>.
  A \<open>Response\<close> carries the \<open>CosmosMsg\<close>s the host executes after the call and
  the attributes it logs.
\<close>

record config =
  admin :: string
  reward_token :: string
  reward_rate :: uint128
  min_lock_period :: u64
  compound_frequency :: u64
  total_value_locked :: uint128
  total_users :: u64

record basket_config =
  name :: string
  tokens :: "token_weight list"
  min_investment :: uint128
  basket_tvl :: uint128
  active :: bool

datatype investment_action = Deposit | Withdraw | Rebalance | Reinvest

record investment_position =
  user :: string
  basket_name :: string
  initial_investment :: uint128
  current_value :: uint128
  token_amounts :: "uint128 hashmap"
  entry_price :: "uint128 hashmap"
  last_updated :: u64
  pnl :: int
  performance :: int
  auto_compound :: bool

record investment_history =
  timestamp :: u64
  action :: investment_action
  amount :: uint128
  history_basket :: string
  token_prices :: "uint128 hashmap"

record user_portfolio =
  total_invested :: uint128
  total_current_value :: uint128
  total_pnl :: int
  positions :: "investment_position list"
  investment_history :: "investment_history list"
  rewards_earned :: uint128
  last_claim :: u64

record store =
  config_item :: "config option"
  baskets :: "string \<rightharpoonup> basket_config"
  portfolios :: "string \<rightharpoonup> user_portfolio"
  price_feeds :: "uint128 hashmap"

subsection \<open>Messages and responses\<close>

record coin =
  denom :: string
  coin_amount :: uint128

text \<open>
  The two \<open>CosmosMsg\<close> forms the contract emits: \<open>BankMsg::Send\<close> and
  \<open>WasmMsg::Execute\<close> (its \<open>msg\<close> is the JSON encoding of the string given).
  \<open>RebalanceTransfer\<close> stands for the transfer a rebalance asks for (a signed
  amount of one token), whose message form the repository leaves open.
\<close>

datatype cosmos_msg =
    BankSend string "coin list"
  | WasmExecute string string "coin list"
  | RebalanceTransfer string int

record response =
  messages :: "cosmos_msg list"
  attributes :: "(string \<times> string) list"

definition response_new :: response where
  "response_new = \<lparr>messages = [], attributes = []\<rparr>"

definition add_attribute :: "string \<Rightarrow> string \<Rightarrow> response \<Rightarrow> response" where
  "add_attribute k v r = r\<lparr>attributes := attributes r @ [(k, v)]\<rparr>"

definition add_messages :: "cosmos_msg list \<Rightarrow> response \<Rightarrow> response" where
  "add_messages ms r = r\<lparr>messages := messages r @ ms\<rparr>"

subsection \<open>Storage access\<close>

definition load_config :: "store \<Rightarrow> config result" where
  "load_config s = (case config_item s of None \<Rightarrow> Inl (NotFound ''config'') | Some c \<Rightarrow> Inr c)"

definition load_basket :: "store \<Rightarrow> string \<Rightarrow> basket_config result" where
  "load_basket s k = (case baskets s k of None \<Rightarrow> Inl (NotFound ''basket_config'') | Some b \<Rightarrow> Inr b)"

definition load_portfolio :: "store \<Rightarrow> string \<Rightarrow> user_portfolio result" where
  "load_portfolio s k =
     (case portfolios s k of None \<Rightarrow> Inl (NotFound ''user_portfolio'') | Some p \<Rightarrow> Inr p)"

definition save_config :: "config \<Rightarrow> store \<Rightarrow> store" where
  "save_config c s = s\<lparr>config_item := Some c\<rparr>"

definition save_basket :: "string \<Rightarrow> basket_config \<Rightarrow> store \<Rightarrow> store" where
  "save_basket k b s = s\<lparr>baskets := (baskets s)(k \<mapsto> b)\<rparr>"

definition save_portfolio :: "string \<Rightarrow> user_portfolio \<Rightarrow> store \<Rightarrow> store" where
  "save_portfolio k p s = s\<lparr>portfolios := (portfolios s)(k \<mapsto> p)\<rparr>"

definition get_token_prices :: "store \<Rightarrow> uint128 hashmap" where
  "get_token_prices s = fold (\<lambda>(token, price) prices. hashmap_insert token price prices) (price_feeds s) []"

lemmas store_access_defs = load_config_def load_basket_def load_portfolio_def
  save_config_def save_basket_def save_portfolio_def

lemma load_config_Inr [simp]: "load_config s = Inr c \<longleftrightarrow> config_item s = Some c"
  by (simp add: load_config_def split: option.splits)

lemma load_basket_Inr [simp]: "load_basket s k = Inr b \<longleftrightarrow> baskets s k = Some b"
  by (simp add: load_basket_def split: option.splits)

lemma load_portfolio_Inr [simp]: "load_portfolio s k = Inr p \<longleftrightarrow> portfolios s k = Some p"
  by (simp add: load_portfolio_def split: option.splits)

lemma save_portfolio_frame [simp]:
  "baskets (save_portfolio u p s) = baskets s" "config_item (save_portfolio u p s) = config_item s"
  by (simp_all add: save_portfolio_def)

end
