(* ===== verification/Baskets.thy ===== *)
theory Baskets
  imports Store
begin

text \<open>
  The basket registry: \<open>execute_create_basket\<close> (\<^verbatim>\<open>contract.rs\<close> lines
  195--221) and \<open>execute_update_basket\<close> (224--256). Both are admin-only. Creation
  stores a fresh basket with zero TVL under the given name, without checking the weights
  and overwriting any basket of that name. Update loads the basket, requires the weights
  to add up to exactly 100 (reporting a failure as \<open>Unauthorized\<close>, as the source
  does), and replaces the token list, optionally the minimum, and the active flag.
\<close>

definition execute_create_basket ::
  "store \<Rightarrow> string \<Rightarrow> string \<Rightarrow> token_weight list \<Rightarrow> uint128 \<Rightarrow> (store \<times> response) result" where
  "execute_create_basket s sender bname new_tokens min_inv =
     rbind (load_config s) (\<lambda>config.
     if sender \<noteq> admin config then Inl Unauthorized
     else
       (let basket = \<lparr>name = bname, tokens = new_tokens, min_investment = min_inv,
                      basket_tvl = 0, active = True\<rparr> in
        Inr (save_basket bname basket s,
             add_attribute ''name'' bname (add_attribute ''action'' ''create_basket'' response_new))))"

definition execute_update_basket ::
  "store \<Rightarrow> string \<Rightarrow> string \<Rightarrow> token_weight list \<Rightarrow> uint128 option \<Rightarrow> bool \<Rightarrow> (store \<times> response) result" where
  "execute_update_basket s sender bname new_tokens min_inv act =
     rbind (load_config s) (\<lambda>config.
     if sender \<noteq> admin config then Inl Unauthorized
     else
       rbind (load_basket s bname) (\<lambda>basket.
       rbind (total_weight new_tokens) (\<lambda>tw.
       if tw \<noteq> 100 then Inl Unauthorized
       else
         (let basket' = basket\<lparr>tokens := new_tokens,
                              min_investment := (case min_inv of None \<Rightarrow> min_investment basket | Some m \<Rightarrow> m),
                              active := act\<rparr> in
          Inr (save_basket bname basket' s,
               add_attribute ''name'' bname (add_attribute ''action'' ''update_basket'' response_new))))))"

lemma create_basket_config:
  "execute_create_basket s sender bname ts m = Inr (s', r) \<Longrightarrow> config_item s' = config_item s"
  by (auto simp: execute_create_basket_def Let_def store_access_defs split: if_splits)

lemma update_basket_config:
  "execute_update_basket s sender bname ts m act = Inr (s', r) \<Longrightarrow> config_item s' = config_item s"
  by (auto simp: execute_update_basket_def Let_def store_access_defs split: if_splits)

lemma create_basket_InrE:
  assumes "execute_create_basket s sender bname ts mi = Inr (s', r)"
  obtains c where "config_item s = Some c" "sender = admin c"
    "s' = save_basket bname \<lparr>name = bname, tokens = ts, min_investment = mi, basket_tvl = 0, active = True\<rparr> s"
  using assms by (auto simp: execute_create_basket_def Let_def split: if_splits intro: that)

lemma update_basket_InrE:
  assumes "execute_update_basket s sender bname ts mi act = Inr (s', r)"
  obtains c b where "config_item s = Some c" "sender = admin c" "baskets s bname = Some b"
    "total_weight ts = Inr 100"
    "s' = save_basket bname (b\<lparr>tokens := ts, min_investment := (case mi of None \<Rightarrow> min_investment b | Some v \<Rightarrow> v),
                               active := act\<rparr>) s"
  using assms by (auto simp: execute_update_basket_def Let_def split: if_splits intro: that)

text \<open>
  Claim C23 (functional). For the admin and an existing basket, an update stores the
  new token list, the new minimum if one is given and the new active flag exactly when
  the weights add up to 100; otherwise it fails with \<open>Unauthorized\<close>, or panics
  when the \<open>u8\<close> weight sum overflows.
\<close>

theorem update_basket_result:
  assumes "config_item s = Some c" and "sender = admin c" and "baskets s bname = Some b"
  shows "execute_update_basket s sender bname ts m act =
    (if sum_list (map (unat \<circ> weight) ts) = 100
     then Inr (s\<lparr>baskets := (baskets s)(bname \<mapsto> b\<lparr>tokens := ts,
                   min_investment := (case m of None \<Rightarrow> min_investment b | Some v \<Rightarrow> v),
                   active := act\<rparr>)\<rparr>,
               add_attribute ''name'' bname (add_attribute ''action'' ''update_basket'' response_new))
     else if sum_list (map (unat \<circ> weight) ts) < 256 then Inl Unauthorized
     else Inl (Panic ''attempt to add with overflow''))"
proof (cases "total_weight ts")
  case (Inl e)
  then show ?thesis using assms by (auto simp: execute_update_basket_def store_access_defs total_weight_eq split: if_splits)
next
  case (Inr tw)
  have "sum_list (map (unat \<circ> weight) ts) < 256" using Inr by (simp add: total_weight_eq split: if_splits)
  then show ?thesis using assms Inr total_weight_100 [OF Inr]
    by (simp add: execute_update_basket_def store_access_defs)
qed

end
