(* ===== verification/GlobalConfig.thy ===== *)
theory GlobalConfig
  imports Store
begin

text \<open>
  The global configuration: \<open>instantiate\<close> (\<^verbatim>\<open>contract.rs\<close> lines 112--134)
  stores the \<open>Config\<close> built from the \<open>InstantiateMsg\<close> (\<^verbatim>\<open>msg.rs\<close> lines
  13--20) with zero TVL and zero users; \<open>execute_update_config\<close> (544--569) lets the
  admin replace the reward rate, the lock period and the compound frequency, each only
  when given.
\<close>

record instantiate_msg =
  msg_admin :: string
  msg_reward_token :: string
  msg_reward_rate :: uint128
  msg_min_lock_period :: u64
  msg_compound_frequency :: u64

definition instantiate :: "store \<Rightarrow> string \<Rightarrow> instantiate_msg \<Rightarrow> (store \<times> response) result" where
  "instantiate s sender msg =
     (let config = \<lparr>admin = msg_admin msg, reward_token = msg_reward_token msg,
                    reward_rate = msg_reward_rate msg, min_lock_period = msg_min_lock_period msg,
                    compound_frequency = msg_compound_frequency msg,
                    total_value_locked = 0, total_users = 0\<rparr> in
      Inr (save_config config s,
           add_attribute ''admin'' sender (add_attribute ''method'' ''instantiate'' response_new)))"

definition execute_update_config ::
  "store \<Rightarrow> string \<Rightarrow> uint128 option \<Rightarrow> u64 option \<Rightarrow> u64 option \<Rightarrow> (store \<times> response) result" where
  "execute_update_config s sender rate period frequency =
     rbind (load_config s) (\<lambda>config.
     if sender \<noteq> admin config then Inl (GenericErr ''Unauthorized'')
     else
       (let c1 = (case rate of None \<Rightarrow> config | Some r \<Rightarrow> config\<lparr>reward_rate := r\<rparr>);
            c2 = (case period of None \<Rightarrow> c1 | Some p \<Rightarrow> c1\<lparr>min_lock_period := p\<rparr>);
            c3 = (case frequency of None \<Rightarrow> c2 | Some f \<Rightarrow> c2\<lparr>compound_frequency := f\<rparr>) in
        Inr (save_config c3 s, add_attribute ''action'' ''update_config'' response_new)))"

lemma update_config_InrE:
  assumes "execute_update_config s sender rt p f = Inr (s', r)"
  obtains c where "config_item s = Some c" "sender = admin c"
    "s' = save_config (c\<lparr>reward_rate := (case rt of None \<Rightarrow> reward_rate c | Some v \<Rightarrow> v),
                          min_lock_period := (case p of None \<Rightarrow> min_lock_period c | Some v \<Rightarrow> v),
                          compound_frequency := (case f of None \<Rightarrow> compound_frequency c | Some v \<Rightarrow> v)\<rparr>) s"
  using assms by (auto simp: execute_update_config_def Let_def split: if_splits option.splits intro!: that)

end
