(* ===== verification/Allocation.thy ===== *)
theory Allocation
  imports Tokens
begin

text \<open>
  The allocation engine: \<open>calculate_token_amounts\<close> of \<^verbatim>\<open>contract.rs\<close>
  (lines 571--585) splits a deposited amount over a basket's tokens in proportion to
  their weights, \<open>amount.multiply_ratio(weight, total_weight)\<close> per token, truncating,
  and inserts the share into a \<open>HashMap\<close> under the token's symbol. The \<open>for\<close>
  loop is \<open>token_amounts_loop\<close>. The prices are passed in but never read.

  The lemmas give the loop's closed form (\<open>allocation_spec\<close>, the reference
  definition of the split), its error cases, the bounds on the truncation loss, and
  independence of the order of the weight list.
\<close>

fun token_amounts_loop ::
  "token_weight list \<Rightarrow> uint128 \<Rightarrow> u8 \<Rightarrow> uint128 hashmap \<Rightarrow> uint128 hashmap result" where
  "token_amounts_loop [] amount tw amounts = Inr amounts"
| "token_amounts_loop (t # ts) amount tw amounts =
     rbind (multiply_ratio amount (ucast (weight t)) (ucast tw)) (\<lambda>token_amount.
       token_amounts_loop ts amount tw (hashmap_insert (symbol (token t)) token_amount amounts))"

definition calculate_token_amounts ::
  "token_weight list \<Rightarrow> uint128 \<Rightarrow> uint128 hashmap \<Rightarrow> uint128 hashmap result" where
  "calculate_token_amounts tokens amount prices =
     rbind (total_weight tokens) (\<lambda>total_weight. token_amounts_loop tokens amount total_weight [])"

subsection \<open>Reference definition of the split\<close>

definition weight_share :: "uint128 \<Rightarrow> u8 \<Rightarrow> u8 \<Rightarrow> nat" where
  "weight_share amount w tw = unat amount * unat w div unat tw"

definition allocation_spec :: "token_weight list \<Rightarrow> uint128 \<Rightarrow> u8 \<Rightarrow> uint128 hashmap" where
  "allocation_spec ts amount tw =
     map (\<lambda>t. (symbol (token t), of_nat (weight_share amount (weight t) tw))) ts"

lemma weight_share_le: "w \<le> tw \<Longrightarrow> tw \<noteq> 0 \<Longrightarrow> weight_share amount w tw \<le> unat amount"
proof -
  assume "w \<le> tw" "tw \<noteq> 0"
  then have "ucast w \<le> (ucast tw :: uint128)" and "(ucast tw :: uint128) \<noteq> 0"
    by (simp_all add: word_le_nat_alt unat_gt_0 [symmetric])
  from multiply_ratio_le [OF this, of amount] show ?thesis
    by (auto simp: weight_share_def dest: multiply_ratio_unat)
qed

lemma multiply_ratio_share:
  "w \<le> tw \<Longrightarrow> tw \<noteq> 0 \<Longrightarrow>
   multiply_ratio amount (ucast w) (ucast tw) = Inr (of_nat (weight_share amount w tw))"
proof -
  assume le: "w \<le> tw" and nz: "tw \<noteq> 0"
  then have "weight_share amount w tw < 2 ^ 128"
    using weight_share_le [OF le nz, of amount] unat_u128_lt [of amount] by linarith
  moreover have "(ucast tw :: uint128) \<noteq> 0"
    using nz by (simp add: unat_gt_0 [symmetric])
  ultimately show ?thesis by (simp add: multiply_ratio_Inr weight_share_def)
qed

lemma token_amounts_loop_eq:
  "tw \<noteq> 0 \<Longrightarrow> \<forall>t\<in>set ts. weight t \<le> tw \<Longrightarrow>
   token_amounts_loop ts amount tw acc =
     Inr (fold (\<lambda>t m. hashmap_insert (symbol (token t)) (of_nat (weight_share amount (weight t) tw)) m) ts acc)"
  by (induction ts arbitrary: acc) (simp_all add: multiply_ratio_share)

lemma token_amounts_loop_distinct:
  "token_amounts_loop ts amount tw acc = Inr m \<Longrightarrow> distinct (map fst acc) \<Longrightarrow> distinct (map fst m)"
  by (induction ts arbitrary: acc) (auto simp: distinct_hashmap_insert)

lemma calculate_token_amounts_distinct:
  "calculate_token_amounts ts amount prices = Inr m \<Longrightarrow> distinct (map fst m)"
  by (auto simp: calculate_token_amounts_def dest: token_amounts_loop_distinct)

lemma token_amounts_loop_zero:
  "ts \<noteq> [] \<Longrightarrow> token_amounts_loop ts amount 0 acc = Inl (Panic ''Denominator must not be zero'')"
  by (cases ts) (simp_all add: multiply_ratio_def)

lemma fold_insert_fresh:
  "distinct (token_symbols ts) \<Longrightarrow> set (token_symbols ts) \<inter> fst ` set acc = {} \<Longrightarrow>
   fold (\<lambda>t m. hashmap_insert (symbol (token t)) (f t) m) ts acc =
     acc @ map (\<lambda>t. (symbol (token t), f t)) ts"
proof (induction ts arbitrary: acc)
  case Nil
  then show ?case by simp
next
  case (Cons t ts)
  then have "hashmap_insert (symbol (token t)) (f t) acc = acc @ [(symbol (token t), f t)]"
    by (intro hashmap_insert_fresh) (auto simp: token_symbols_def)
  with Cons show ?case by (auto simp: token_symbols_def)
qed

lemma map_fst_allocation_spec [simp]:
  "map fst (allocation_spec ts amount tw) = token_symbols ts"
  by (simp add: allocation_spec_def token_symbols_def)

lemma unat_weight_share:
  "w \<le> tw \<Longrightarrow> tw \<noteq> 0 \<Longrightarrow> unat (of_nat (weight_share amount w tw) :: uint128) = weight_share amount w tw"
proof -
  assume "w \<le> tw" "tw \<noteq> 0"
  then have "weight_share amount w tw < 2 ^ 128"
    using weight_share_le unat_u128_lt [of amount] by (meson le_less_trans)
  then show ?thesis by (simp add: unat_of_nat)
qed

lemma unat_allocation_spec:
  "\<forall>t\<in>set ts. weight t \<le> tw \<Longrightarrow> tw \<noteq> 0 \<Longrightarrow>
   map (unat \<circ> snd) (allocation_spec ts amount tw) =
     map (\<lambda>w. unat amount * w div unat tw) (map (unat \<circ> weight) ts)"
  by (auto simp: allocation_spec_def unat_weight_share intro!: map_cong)
     (simp add: weight_share_def)

subsection \<open>Truncation bounds, on natural numbers\<close>

lemma sum_div_upper:
  "W * sum_list (map (\<lambda>w. a * w div W) ws) \<le> a * sum_list ws"
  for ws :: "nat list"
  by (induction ws) (auto simp: distrib_left intro: add_mono)

lemma sum_div_lower:
  "0 < W \<Longrightarrow> a * sum_list ws + length ws \<le> W * (sum_list (map (\<lambda>w. a * w div W) ws) + length ws)"
  for ws :: "nat list"
proof (induction ws)
  case Nil
  then show ?case by simp
next
  case (Cons w ws)
  have "a * w mod W < W" using Cons.prems by simp
  moreover have "W * (a * w div W) + a * w mod W = a * w" by (rule mult_div_mod_eq)
  ultimately have "a * w < W * (a * w div W) + W" by linarith
  with Cons show ?case by (simp add: algebra_simps)
qed

subsection \<open>The split: closed form, errors, bounds, order\<close>

lemma calculate_token_amounts_closed:
  assumes "distinct (token_symbols ts)" and "total_weight ts = Inr tw" and "tw \<noteq> 0"
  shows "calculate_token_amounts ts amount prices = Inr (allocation_spec ts amount tw)"
proof -
  have "\<forall>t\<in>set ts. weight t \<le> tw" using total_weight_ge assms(2) by blast
  with assms fold_insert_fresh [of ts "[]"] show ?thesis
    by (simp add: calculate_token_amounts_def token_amounts_loop_eq allocation_spec_def)
qed

lemma total_weight_zero_iff:
  "total_weight ts = Inr tw \<Longrightarrow> tw = 0 \<longleftrightarrow> sum_list (map (unat \<circ> weight) ts) = 0"
  by (metis total_weight_unat unat_eq_zero)

lemma calculate_token_amounts_Inr_cases:
  assumes "calculate_token_amounts ts amount prices = Inr m"
  obtains (empty) "ts = []" "m = []"
    | (split) tw where "total_weight ts = Inr tw" "tw \<noteq> 0" "\<forall>t\<in>set ts. weight t \<le> tw"
        "m = fold (\<lambda>t m. hashmap_insert (symbol (token t)) (of_nat (weight_share amount (weight t) tw)) m) ts []"
proof (cases "ts = []")
  case True
  with assms show ?thesis
    by (auto simp: calculate_token_amounts_def total_weight_eq intro: empty)
next
  case False
  from assms obtain tw where tw: "total_weight ts = Inr tw"
    and loop: "token_amounts_loop ts amount tw [] = Inr m"
    by (auto simp: calculate_token_amounts_def)
  have le: "\<forall>t\<in>set ts. weight t \<le> tw" using total_weight_ge tw by blast
  have "tw \<noteq> 0" using loop token_amounts_loop_zero [OF False] by auto
  with tw le loop show ?thesis
    by (auto simp: token_amounts_loop_eq intro: split)
qed

text \<open>
  Claim C1 (functional, error). \<open>calculate_token_amounts\<close> panics with an
  \<open>u8\<close> overflow exactly when the weights add up to 256 or more, panics with a zero
  divisor exactly when the token list is non-empty and its weights add up to 0, and
  otherwise inserts, token by token, the truncated share
  \<open>amount * weight div total_weight\<close> under the token's symbol.
\<close>

theorem calculate_token_amounts_result:
  "calculate_token_amounts ts amount prices =
     (let W = sum_list (map (unat \<circ> weight) ts) in
      if 256 \<le> W then Inl (Panic ''attempt to add with overflow'')
      else if ts \<noteq> [] \<and> W = 0 then Inl (Panic ''Denominator must not be zero'')
      else Inr (fold (\<lambda>t m. hashmap_insert (symbol (token t))
                                (of_nat (unat amount * unat (weight t) div W)) m) ts []))"
proof -
  define W where "W = sum_list (map (unat \<circ> weight) ts)"
  show ?thesis
  proof (cases "256 \<le> W")
    case True
    then show ?thesis by (simp add: W_def calculate_token_amounts_def total_weight_eq)
  next
    case False
    then have tw: "total_weight ts = Inr (of_nat W)" and uw: "unat (of_nat W :: u8) = W"
      by (simp_all add: W_def total_weight_eq unat_of_nat)
    have le: "\<forall>t\<in>set ts. weight t \<le> of_nat W" using total_weight_ge tw by blast
    show ?thesis
    proof (cases "ts = []")
      case True
      then show ?thesis by (simp add: calculate_token_amounts_def total_weight_eq)
    next
      case ne: False
      show ?thesis
      proof (cases "W = 0")
        case True
        with tw ne show ?thesis
          by (simp add: W_def [symmetric] calculate_token_amounts_def token_amounts_loop_zero)
      next
        case nz: False
        then have "(of_nat W :: u8) \<noteq> 0" using uw by auto
        with tw le nz False show ?thesis
          by (simp add: W_def [symmetric] calculate_token_amounts_def token_amounts_loop_eq
                        weight_share_def uw)
      qed
    qed
  qed
qed

text \<open>
  Claim C2 (bounds). For a basket whose symbols are distinct, a successful split gives
  every token at most the deposited amount, the shares add up to at most the amount,
  and the truncation loses fewer units than there are tokens:
  \<open>amount < sum + length tokens\<close>, i.e. at most \<open>n - 1\<close> units are lost.
\<close>

theorem allocation_bounds:
  assumes "distinct (token_symbols ts)"
    and "calculate_token_amounts ts amount prices = Inr m"
  shows "(\<forall>v\<in>snd ` set m. v \<le> amount)
         \<and> sum_list (map (unat \<circ> snd) m) \<le> unat amount
         \<and> (ts \<noteq> [] \<longrightarrow> unat amount < sum_list (map (unat \<circ> snd) m) + length ts)"
  using assms(2)
proof (cases rule: calculate_token_amounts_Inr_cases)
  case empty
  then show ?thesis by simp
next
  case (split tw)
  have m: "m = allocation_spec ts amount tw"
    using split fold_insert_fresh [OF assms(1), of "[]"] by (simp add: allocation_spec_def)
  have W: "unat tw = sum_list (map (unat \<circ> weight) ts)"
    using split(1) by (rule total_weight_unat)
  have pos: "0 < unat tw" using split(2) by (simp add: unat_gt_0)
  have sums: "sum_list (map (unat \<circ> snd) m) =
              sum_list (map (\<lambda>w. unat amount * w div unat tw) (map (unat \<circ> weight) ts))"
    using unat_allocation_spec [OF split(3,2)] m by simp
  have each: "\<forall>v\<in>snd ` set m. v \<le> amount"
  proof
    fix v
    assume "v \<in> snd ` set m"
    then obtain t where t: "t \<in> set ts" and v: "v = of_nat (weight_share amount (weight t) tw)"
      unfolding m allocation_spec_def by auto
    have "weight t \<le> tw" using split(3) t by blast
    with split(2) show "v \<le> amount"
      using weight_share_le unat_weight_share by (simp add: v word_le_nat_alt)
  qed
  have up: "unat tw * sum_list (map (unat \<circ> snd) m) \<le> unat amount * unat tw"
  proof -
    have "unat tw * sum_list (map (\<lambda>w. unat amount * w div unat tw) (map (unat \<circ> weight) ts))
          \<le> unat amount * sum_list (map (unat \<circ> weight) ts)"
      by (rule sum_div_upper)
    then show ?thesis by (simp only: sums [symmetric] W [symmetric])
  qed
  have lo: "unat amount * unat tw + length ts \<le> unat tw * (sum_list (map (unat \<circ> snd) m) + length ts)"
  proof -
    have "unat amount * sum_list (map (unat \<circ> weight) ts) + length (map (unat \<circ> weight) ts)
          \<le> unat tw * (sum_list (map (\<lambda>w. unat amount * w div unat tw) (map (unat \<circ> weight) ts))
                       + length (map (unat \<circ> weight) ts))"
      using pos by (rule sum_div_lower)
    then show ?thesis by (simp only: sums [symmetric] W [symmetric] length_map)
  qed
  have "sum_list (map (unat \<circ> snd) m) \<le> unat amount"
    using up pos by (simp add: mult.commute)
  moreover have "ts \<noteq> [] \<longrightarrow> unat amount < sum_list (map (unat \<circ> snd) m) + length ts"
  proof
    assume "ts \<noteq> []"
    then have "0 < length ts" by simp
    with lo have "unat amount * unat tw < unat tw * (sum_list (map (unat \<circ> snd) m) + length ts)"
      by linarith
    then have "unat tw * unat amount < unat tw * (sum_list (map (unat \<circ> snd) m) + length ts)"
      by (simp only: mult.commute)
    then show "unat amount < sum_list (map (unat \<circ> snd) m) + length ts"
      using mult_less_cancel1 by blast
  qed
  ultimately show ?thesis using each by blast
qed

lemma distinct_token_symbols_perm:
  "mset ts' = mset ts \<Longrightarrow> distinct (token_symbols ts') = distinct (token_symbols ts)"
  by (rule mset_eq_imp_distinct_iff) (simp add: token_symbols_def mset_map)

lemma mset_allocation_spec_perm:
  "mset ts' = mset ts \<Longrightarrow> mset (allocation_spec ts' amount tw) = mset (allocation_spec ts amount tw)"
  by (simp add: allocation_spec_def mset_map)

text \<open>
  Claim C3 (equivalence). For a basket with distinct symbols, the split does not depend
  on the order of the weight list (nor on the prices): any permutation of the list
  succeeds as well and yields the same entries, the same map from symbols to amounts,
  listed in another order.
\<close>

theorem allocation_order_independent:
  assumes "mset ts' = mset ts" and "distinct (token_symbols ts)"
    and "calculate_token_amounts ts amount prices = Inr m"
  shows "\<exists>m'. calculate_token_amounts ts' amount prices' = Inr m'
              \<and> mset m' = mset m \<and> map_of m' = map_of m"
  using assms(3)
proof (cases rule: calculate_token_amounts_Inr_cases)
  case empty
  with assms(1) show ?thesis by (simp add: calculate_token_amounts_def total_weight_eq)
next
  case (split tw)
  have d': "distinct (token_symbols ts')"
    using distinct_token_symbols_perm [OF assms(1)] assms(2) by simp
  have tw': "total_weight ts' = Inr tw"
    using total_weight_perm [OF assms(1)] split(1) by simp
  have m: "m = allocation_spec ts amount tw"
    using calculate_token_amounts_closed [OF assms(2) split(1,2)] assms(3) by simp
  have m': "calculate_token_amounts ts' amount prices' = Inr (allocation_spec ts' amount tw)"
    using calculate_token_amounts_closed [OF d' tw' split(2)] .
  have ms: "mset (allocation_spec ts' amount tw) = mset m"
    using mset_allocation_spec_perm [OF assms(1)] m by simp
  then have "set (allocation_spec ts' amount tw) = set m" by (rule mset_eq_setD)
  then have "map_of (allocation_spec ts' amount tw) = map_of m"
    using d' assms(2) by (simp add: m map_of_inject_set)
  with m' ms show ?thesis by blast
qed

end
