(* ===== verification/Ledger.thy ===== *)
theory Ledger
  imports Allocation Store
begin

text \<open>
  The portfolio ledger: the user-facing handlers of \<^verbatim>\<open>contract.rs\<close> that create,
  shrink, retarget and flag positions. \<open>execute_invest\<close> (lines 302--372),
  \<open>execute_withdraw\<close> (374--418) with \<open>generate_withdraw_messages\<close> (421--462),
  \<open>execute_set_auto_compound\<close> (489--508) and \<open>execute_rebalance\<close> (511--542).
  Each takes the store, the block time \<open>now\<close> and the sender, performs the source's
  loads, checks and saves in the source's order, and returns the new store and the
  response, or the first error. Parameters that share a name with a record field carry
  a short name (\<open>bname\<close> for \<open>basket_name\<close>, \<open>amt\<close> for \<open>amount\<close>).
\<close>

definition empty_portfolio :: "u64 \<Rightarrow> user_portfolio" where
  "empty_portfolio now =
     \<lparr>total_invested = 0, total_current_value = 0, total_pnl = 0, positions = [],
      investment_history = [], rewards_earned = 0, last_claim = now\<rparr>"

definition new_position ::
  "string \<Rightarrow> string \<Rightarrow> uint128 \<Rightarrow> uint128 hashmap \<Rightarrow> uint128 hashmap \<Rightarrow> u64 \<Rightarrow> bool \<Rightarrow> investment_position" where
  "new_position sender bname amt amounts prices now auto =
     \<lparr>user = sender, basket_name = bname, initial_investment = amt, current_value = amt,
      token_amounts = amounts, entry_price = prices, last_updated = now, pnl = 0,
      performance = 0, auto_compound = auto\<rparr>"

definition history_entry ::
  "u64 \<Rightarrow> investment_action \<Rightarrow> uint128 \<Rightarrow> string \<Rightarrow> uint128 hashmap \<Rightarrow> investment_history" where
  "history_entry now act amt bname prices =
     \<lparr>timestamp = now, action = act, amount = amt, history_basket = bname, token_prices = prices\<rparr>"

definition execute_invest ::
  "store \<Rightarrow> u64 \<Rightarrow> string \<Rightarrow> string \<Rightarrow> uint128 \<Rightarrow> bool \<Rightarrow> (store \<times> response) result" where
  "execute_invest s now sender bname amt auto =
     rbind (load_basket s bname) (\<lambda>basket.
     if \<not> active basket then Inl (GenericErr ''Basket is not active'')
     else if amt < min_investment basket then Inl (GenericErr ''Investment below minimum'')
     else
       (let portfolio = (case portfolios s sender of None \<Rightarrow> empty_portfolio now | Some p \<Rightarrow> p);
            prices = get_token_prices s in
        rbind (calculate_token_amounts (tokens basket) amt prices) (\<lambda>amounts.
        let position = new_position sender bname amt amounts prices now auto in
        rbind (word_add_checked (total_invested portfolio) amt) (\<lambda>invested.
        rbind (word_add_checked (total_current_value portfolio) amt) (\<lambda>current.
        let portfolio' = portfolio\<lparr>positions := positions portfolio @ [position],
                                   total_invested := invested,
                                   total_current_value := current,
                                   investment_history := investment_history portfolio @
                                     [history_entry now Deposit amt bname prices]\<rparr>;
            s1 = save_portfolio sender portfolio' s in
        rbind (load_basket s1 bname) (\<lambda>basket1.
        rbind (word_add_checked (basket_tvl basket1) amt) (\<lambda>btvl.
        let s2 = save_basket bname (basket1\<lparr>basket_tvl := btvl\<rparr>) s1 in
        rbind (load_config s2) (\<lambda>config.
        rbind (word_add_checked (total_value_locked config) amt) (\<lambda>gtvl.
        let s3 = save_config (config\<lparr>total_value_locked := gtvl\<rparr>) s2 in
        Inr (s3, add_attribute ''amount'' (u128_to_string amt)
                   (add_attribute ''basket'' bname
                     (add_attribute ''action'' ''invest'' response_new))))))))))))"

subsection \<open>Invest: behaviour\<close>

definition portfolio_or_new :: "store \<Rightarrow> string \<Rightarrow> u64 \<Rightarrow> user_portfolio" where
  "portfolio_or_new s sender now =
     (case portfolios s sender of None \<Rightarrow> empty_portfolio now | Some p \<Rightarrow> p)"

lemma execute_invest_InrE:
  assumes "execute_invest s now sender bname amt auto = Inr (s', r)"
  obtains b c amounts where "baskets s bname = Some b" "active b" "min_investment b \<le> amt"
    "calculate_token_amounts (tokens b) amt (get_token_prices s) = Inr amounts"
    "config_item s = Some c"
    "unat (total_invested (portfolio_or_new s sender now)) + unat amt < 2 ^ 128"
    "unat (total_current_value (portfolio_or_new s sender now)) + unat amt < 2 ^ 128"
    "unat (basket_tvl b) + unat amt < 2 ^ 128"
    "unat (total_value_locked c) + unat amt < 2 ^ 128"
    "s' = s\<lparr>portfolios := (portfolios s)(sender \<mapsto>
             (portfolio_or_new s sender now)\<lparr>
                positions := positions (portfolio_or_new s sender now) @
                  [new_position sender bname amt amounts (get_token_prices s) now auto],
                total_invested := total_invested (portfolio_or_new s sender now) + amt,
                total_current_value := total_current_value (portfolio_or_new s sender now) + amt,
                investment_history := investment_history (portfolio_or_new s sender now) @
                  [history_entry now Deposit amt bname (get_token_prices s)]\<rparr>),
            baskets := (baskets s)(bname \<mapsto> b\<lparr>basket_tvl := basket_tvl b + amt\<rparr>),
            config_item := Some (c\<lparr>total_value_locked := total_value_locked c + amt\<rparr>)\<rparr>"
  using assms
  by (auto simp: execute_invest_def portfolio_or_new_def Let_def store_access_defs
                 word_add_checked_Inr not_less split: option.splits if_splits)

text \<open>
  Claim C4 (functional). An investment commits exactly when the basket exists, is
  active, the amount reaches its minimum, the split succeeds, the configuration is
  stored, and none of the four \<open>Uint128\<close> additions overflows; the new store then
  differs from the old one only in the sender's portfolio (a new position holding the
  split at the current prices is appended, both totals grow by the amount, a
  \<open>Deposit\<close> entry is logged; a first investment starts from an empty portfolio whose
  last claim is now), the basket's TVL and the global TVL, both grown by the amount.
\<close>

theorem execute_invest_characterisation:
  "(\<exists>r. execute_invest s now sender bname amt auto = Inr (s', r)) \<longleftrightarrow>
   (\<exists>b c amounts.
      baskets s bname = Some b \<and> active b \<and> min_investment b \<le> amt
    \<and> calculate_token_amounts (tokens b) amt (get_token_prices s) = Inr amounts
    \<and> config_item s = Some c
    \<and> (let p = (case portfolios s sender of None \<Rightarrow> empty_portfolio now | Some p \<Rightarrow> p) in
         unat (total_invested p) + unat amt < 2 ^ 128
       \<and> unat (total_current_value p) + unat amt < 2 ^ 128
       \<and> unat (basket_tvl b) + unat amt < 2 ^ 128
       \<and> unat (total_value_locked c) + unat amt < 2 ^ 128
       \<and> s' = s\<lparr>portfolios := (portfolios s)(sender \<mapsto>
                   p\<lparr>positions := positions p @ [new_position sender bname amt amounts (get_token_prices s) now auto],
                     total_invested := total_invested p + amt,
                     total_current_value := total_current_value p + amt,
                     investment_history := investment_history p @
                       [history_entry now Deposit amt bname (get_token_prices s)]\<rparr>),
                 baskets := (baskets s)(bname \<mapsto> b\<lparr>basket_tvl := basket_tvl b + amt\<rparr>),
                 config_item := Some (c\<lparr>total_value_locked := total_value_locked c + amt\<rparr>)\<rparr>))"
  by (auto simp: execute_invest_def Let_def store_access_defs word_add_checked_Inr not_less
           split: option.splits if_splits)

text \<open>
  Claim C5 (error). An investment into an unknown basket fails with \<open>NotFound\<close>,
  into an inactive basket with \<open>Basket is not active\<close>, and below the basket's
  minimum with \<open>Investment below minimum\<close>, in this order of precedence.
\<close>

theorem execute_invest_guards:
  "(baskets s bname = None \<longrightarrow>
      execute_invest s now sender bname amt auto = Inl (NotFound ''basket_config''))
   \<and> (baskets s bname = Some b \<longrightarrow> \<not> active b \<longrightarrow>
      execute_invest s now sender bname amt auto = Inl (GenericErr ''Basket is not active''))
   \<and> (baskets s bname = Some b \<longrightarrow> active b \<longrightarrow> amt < min_investment b \<longrightarrow>
      execute_invest s now sender bname amt auto = Inl (GenericErr ''Investment below minimum''))"
  by (simp add: execute_invest_def load_basket_def)

subsection \<open>Withdrawal\<close>

text \<open>
  \<open>generate_withdraw_messages\<close> walks the position's \<open>token_amounts\<close> map. For
  each held token it takes \<open>percentage\<close> percent, looks the basket up again, finds the
  token by symbol in the basket's current token list, and emits a bank send (Cosmos) or a
  bridge call (Ethereum); any other chain is an error. The source reads the store through
  a \<open>deps\<close> that is not in scope of the function; the model passes the store, the
  evident intent.
\<close>

fun withdraw_messages_loop ::
  "store \<Rightarrow> investment_position \<Rightarrow> u8 \<Rightarrow> uint128 hashmap \<Rightarrow> cosmos_msg list \<Rightarrow> cosmos_msg list result" where
  "withdraw_messages_loop s position percentage [] msgs = Inr msgs"
| "withdraw_messages_loop s position percentage ((token_symbol, amt) # rest) msgs =
     rbind (multiply_ratio amt (ucast percentage) 100) (\<lambda>withdraw_amount.
     rbind (load_basket s (basket_name position)) (\<lambda>basket.
     case find_token token_symbol (tokens basket) of
       None \<Rightarrow> Inl (GenericErr ''Token not found'')
     | Some t \<Rightarrow>
         (case chain (token t) of
            Cosmos \<Rightarrow> withdraw_messages_loop s position percentage rest
                        (msgs @ [BankSend (user position)
                                   [\<lparr>denom = token_symbol, coin_amount = withdraw_amount\<rparr>]])
          | Ethereum \<Rightarrow> withdraw_messages_loop s position percentage rest
                        (msgs @ [WasmExecute ''eth_bridge'' ''bridge_to_eth''
                                   [\<lparr>denom = token_symbol, coin_amount = withdraw_amount\<rparr>]])
          | _ \<Rightarrow> Inl (GenericErr ''Unsupported chain''))))"

definition generate_withdraw_messages ::
  "store \<Rightarrow> investment_position \<Rightarrow> uint128 hashmap \<Rightarrow> u8 \<Rightarrow> cosmos_msg list result" where
  "generate_withdraw_messages s position prices percentage =
     withdraw_messages_loop s position percentage (token_amounts position) []"

definition execute_withdraw ::
  "store \<Rightarrow> u64 \<Rightarrow> string \<Rightarrow> string \<Rightarrow> u8 \<Rightarrow> (store \<times> response) result" where
  "execute_withdraw s now sender bname percentage =
     (if percentage = 0 \<or> percentage > 100 then Inl (GenericErr ''Invalid withdrawal percentage'')
      else
      rbind (load_portfolio s sender) (\<lambda>portfolio.
      case position_of (\<lambda>p. basket_name p = bname) (positions portfolio) of
        None \<Rightarrow> Inl (GenericErr ''Position not found'')
      | Some idx \<Rightarrow>
        (let position = positions portfolio ! idx in
         rbind (multiply_ratio (current_value position) (ucast percentage) 100) (\<lambda>withdraw_amount.
         let prices = get_token_prices s in
         rbind (generate_withdraw_messages s position prices percentage) (\<lambda>msgs.
         rbind (word_sub_checked (current_value position) withdraw_amount) (\<lambda>cv.
         rbind (word_sub_checked (total_current_value portfolio) withdraw_amount) (\<lambda>tcv.
         let ps = (positions portfolio)[idx := position\<lparr>current_value := cv\<rparr>];
             ps' = (if percentage = 100 then vec_remove idx ps else ps);
             portfolio' = portfolio\<lparr>positions := ps', total_current_value := tcv,
                                    investment_history := investment_history portfolio @
                                      [history_entry now Withdraw withdraw_amount bname prices]\<rparr> in
         Inr (save_portfolio sender portfolio' s,
              add_attribute ''amount'' (u128_to_string withdraw_amount)
                (add_attribute ''action'' ''withdraw'' (add_messages msgs response_new))))))))))"

subsection \<open>Withdrawal: the transfer messages\<close>

definition msg_coins :: "cosmos_msg \<Rightarrow> coin list" where
  "msg_coins m = (case m of BankSend _ cs \<Rightarrow> cs | WasmExecute _ _ cs \<Rightarrow> cs | RebalanceTransfer _ _ \<Rightarrow> [])"

definition coin_total :: "string \<Rightarrow> cosmos_msg list \<Rightarrow> nat" where
  "coin_total k ms = sum_list (map (unat \<circ> coin_amount) (filter (\<lambda>c. denom c = k) (concat (map msg_coins ms))))"

definition withdraw_coin :: "u8 \<Rightarrow> string \<times> uint128 \<Rightarrow> coin" where
  "withdraw_coin pct = (\<lambda>(k, a). \<lparr>denom = k, coin_amount = of_nat (unat a * unat pct div 100)\<rparr>)"

definition routable :: "token_weight list \<Rightarrow> string \<Rightarrow> bool" where
  "routable ts k \<longleftrightarrow> (case find_token k ts of None \<Rightarrow> False | Some t \<Rightarrow> chain (token t) \<in> {Cosmos, Ethereum})"

lemma multiply_ratio_percent:
  fixes pct :: u8
  shows "pct \<le> 100 \<Longrightarrow> multiply_ratio a (ucast pct) 100 = Inr (of_nat (unat a * unat pct div 100))"
proof -
  assume "pct \<le> 100"
  then have "ucast pct \<le> (100::uint128)" by (simp add: word_le_nat_alt)
  from multiply_ratio_le [OF this] obtain r where "multiply_ratio a (ucast pct) 100 = Inr r"
    by auto
  then show ?thesis by (simp add: multiply_ratio_Inr)
qed

lemma percent_share_le:
  fixes pct :: u8
  assumes "pct \<le> 100"
  shows "unat x * unat pct div 100 \<le> unat x"
proof -
  have "unat pct \<le> 100" using assms by (simp add: word_le_nat_alt)
  then have "unat x * unat pct \<le> unat x * 100" by simp
  then have "unat x * unat pct div 100 \<le> unat x * 100 div 100" by (rule div_le_mono)
  then show ?thesis by simp
qed

lemma unat_percent_share:
  fixes pct :: u8 and x :: uint128
  assumes "pct \<le> 100"
  shows "unat (of_nat (unat x * unat pct div 100) :: uint128) = unat x * unat pct div 100"
proof -
  have "unat x * unat pct div 100 < 2 ^ 128"
    using percent_share_le [OF assms, of x] unat_u128_lt [of x] by linarith
  then show ?thesis by (simp add: unat_of_nat)
qed

lemma withdraw_messages_loop_coins:
  "pct \<le> 100 \<Longrightarrow> withdraw_messages_loop s pos pct amounts msgs = Inr msgs' \<Longrightarrow>
   \<exists>ms. msgs' = msgs @ ms \<and> concat (map msg_coins ms) = map (withdraw_coin pct) amounts"
proof (induction amounts arbitrary: msgs)
  case Nil
  then show ?case by simp
next
  case (Cons e amounts)
  obtain k a where e: "e = (k, a)" by fastforce
  have mr: "multiply_ratio a (ucast pct) 100 = Inr (of_nat (unat a * unat pct div 100))"
    using Cons.prems(1) by (rule multiply_ratio_percent)
  from Cons.prems(2) obtain b where b: "baskets s (basket_name pos) = Some b"
    by (auto simp: e mr load_basket_def split: option.splits)
  from Cons.prems(2) obtain t where t: "find_token k (tokens b) = Some t"
    by (auto simp: e mr b split: option.splits)
  define c where "c = \<lparr>denom = k, coin_amount = of_nat (unat a * unat pct div 100) :: uint128\<rparr>"
  have coin: "withdraw_coin pct e = c" by (simp add: e c_def withdraw_coin_def)
  show ?case
  proof (cases "chain (token t)")
    case Cosmos
    with Cons.prems(2) have "withdraw_messages_loop s pos pct amounts (msgs @ [BankSend (user pos) [c]]) = Inr msgs'"
      by (simp add: e mr b t c_def)
    from Cons.IH [OF Cons.prems(1) this] show ?thesis by (auto simp: coin msg_coins_def)
  next
    case Ethereum
    with Cons.prems(2) have "withdraw_messages_loop s pos pct amounts
                               (msgs @ [WasmExecute ''eth_bridge'' ''bridge_to_eth'' [c]]) = Inr msgs'"
      by (simp add: e mr b t c_def)
    from Cons.IH [OF Cons.prems(1) this] show ?thesis by (auto simp: coin msg_coins_def)
  next
    case Polygon
    with Cons.prems(2) show ?thesis by (simp add: e mr b t)
  next
    case Binance
    with Cons.prems(2) show ?thesis by (simp add: e mr b t)
  qed
qed

lemma withdraw_messages_loop_ok:
  assumes "pct \<le> 100" and "baskets s (basket_name pos) = Some b"
    and "\<forall>k\<in>fst ` set amounts. routable (tokens b) k"
  shows "\<exists>msgs'. withdraw_messages_loop s pos pct amounts msgs = Inr msgs'"
  using assms(3)
proof (induction amounts arbitrary: msgs)
  case Nil
  then show ?case by simp
next
  case (Cons e amounts)
  obtain k a where e: "e = (k, a)" by fastforce
  with Cons.prems obtain t where "find_token k (tokens b) = Some t"
    and "chain (token t) = Cosmos \<or> chain (token t) = Ethereum"
    by (auto simp: routable_def split: option.splits)
  with Cons.IH Cons.prems assms(1,2) show ?case
    by (auto simp: e multiply_ratio_percent)
qed

lemma withdraw_messages_loop_unroutable:
  assumes "pct \<le> 100" and "baskets s (basket_name pos) = Some b"
    and "\<exists>k\<in>fst ` set amounts. \<not> routable (tokens b) k"
  shows "withdraw_messages_loop s pos pct amounts msgs = Inl (GenericErr ''Token not found'')
       \<or> withdraw_messages_loop s pos pct amounts msgs = Inl (GenericErr ''Unsupported chain'')"
  using assms(3)
proof (induction amounts arbitrary: msgs)
  case Nil
  then show ?case by simp
next
  case (Cons e amounts)
  obtain k a where e: "e = (k, a)" by fastforce
  show ?case
  proof (cases "routable (tokens b) k")
    case True
    then obtain t where "find_token k (tokens b) = Some t"
      and "chain (token t) = Cosmos \<or> chain (token t) = Ethereum"
      by (auto simp: routable_def split: option.splits)
    moreover have "\<exists>k\<in>fst ` set amounts. \<not> routable (tokens b) k"
      using Cons.prems True e by auto
    then have IH: "\<And>m. withdraw_messages_loop s pos pct amounts m \<in>
                         {Inl (GenericErr ''Token not found''), Inl (GenericErr ''Unsupported chain'')}"
      using Cons.IH by blast
    ultimately show ?thesis
      using assms(1,2) IH by (force simp: e multiply_ratio_percent load_basket_def)
  next
    case False
    with assms(1,2) show ?thesis
      by (auto simp: e multiply_ratio_percent routable_def load_basket_def
               split: option.splits chain_type.splits)
  qed
qed

lemma withdraw_messages_loop_no_panic:
  "pct \<le> 100 \<Longrightarrow> withdraw_messages_loop s pos pct amounts msgs = Inl e \<Longrightarrow> e \<noteq> Panic m"
proof (induction amounts arbitrary: msgs)
  case Nil
  then show ?case by simp
next
  case (Cons x amounts)
  obtain k a where x: "x = (k, a)" by fastforce
  show ?case
    using Cons.prems Cons.IH
    by (auto simp: x multiply_ratio_percent load_basket_def split: option.splits chain_type.splits)
qed

subsection \<open>Withdrawal: behaviour\<close>

lemma execute_withdraw_InrE:
  assumes "execute_withdraw s now sender bname pct = Inr (s', r)"
  obtains p idx msgs where "0 < pct" "pct \<le> 100" "portfolios s sender = Some p"
    "position_of (\<lambda>q. basket_name q = bname) (positions p) = Some idx"
    "generate_withdraw_messages s (positions p ! idx) (get_token_prices s) pct = Inr msgs"
    "of_nat (unat (current_value (positions p ! idx)) * unat pct div 100) \<le> total_current_value p"
    "s' = save_portfolio sender
           (p\<lparr>positions :=
                (let w = of_nat (unat (current_value (positions p ! idx)) * unat pct div 100);
                     ps = (positions p)[idx := (positions p ! idx)\<lparr>current_value := current_value (positions p ! idx) - w\<rparr>]
                 in if pct = 100 then vec_remove idx ps else ps),
              total_current_value := total_current_value p - of_nat (unat (current_value (positions p ! idx)) * unat pct div 100),
              investment_history := investment_history p @
                [history_entry now Withdraw (of_nat (unat (current_value (positions p ! idx)) * unat pct div 100)) bname (get_token_prices s)]\<rparr>) s"
    "messages r = msgs"
proof -
  have pct: "0 < pct" "pct \<le> 100"
    using assms by (auto simp: execute_withdraw_def word_gt_0 not_less split: if_splits)
  show ?thesis
    using assms pct
    by (auto simp: execute_withdraw_def Let_def load_portfolio_def multiply_ratio_percent
                   word_sub_checked_Inr add_attribute_def add_messages_def response_new_def
             intro!: that split: option.splits if_splits)
qed

lemma withdraw_coin_100 [simp]: "withdraw_coin 100 (k, a) = \<lparr>denom = k, coin_amount = a\<rparr>"
  by (simp add: withdraw_coin_def)

text \<open>
  Claim C6 (error). A withdrawal percentage outside 1..100 fails with
  \<open>Invalid withdrawal percentage\<close> before anything is read; a sender without a
  portfolio gets \<open>NotFound\<close>; a portfolio without a position in the basket gives
  \<open>Position not found\<close>; and when a held token is no longer in the basket's token
  list, or lives on a chain other than Cosmos and Ethereum, the withdrawal fails with
  \<open>Token not found\<close> or \<open>Unsupported chain\<close>.
\<close>

theorem execute_withdraw_errors:
  "((pct = 0 \<or> 100 < pct) \<longrightarrow>
      execute_withdraw s now sender bname pct = Inl (GenericErr ''Invalid withdrawal percentage''))
   \<and> (0 < pct \<and> pct \<le> 100 \<and> portfolios s sender = None \<longrightarrow>
      execute_withdraw s now sender bname pct = Inl (NotFound ''user_portfolio''))
   \<and> (0 < pct \<and> pct \<le> 100 \<and> portfolios s sender = Some p \<and> (\<forall>q\<in>set (positions p). basket_name q \<noteq> bname) \<longrightarrow>
      execute_withdraw s now sender bname pct = Inl (GenericErr ''Position not found''))
   \<and> (0 < pct \<and> pct \<le> 100 \<and> portfolios s sender = Some p
      \<and> position_of (\<lambda>q. basket_name q = bname) (positions p) = Some idx
      \<and> baskets s (basket_name (positions p ! idx)) = Some b
      \<and> (\<exists>k\<in>fst ` set (token_amounts (positions p ! idx)). \<not> routable (tokens b) k) \<longrightarrow>
      execute_withdraw s now sender bname pct \<in>
        {Inl (GenericErr ''Token not found''), Inl (GenericErr ''Unsupported chain'')})"
proof (intro conjI impI)
  assume "pct = 0 \<or> 100 < pct"
  then show "execute_withdraw s now sender bname pct = Inl (GenericErr ''Invalid withdrawal percentage'')"
    by (auto simp: execute_withdraw_def)
next
  assume "0 < pct \<and> pct \<le> 100 \<and> portfolios s sender = None"
  then show "execute_withdraw s now sender bname pct = Inl (NotFound ''user_portfolio'')"
    by (auto simp: execute_withdraw_def load_portfolio_def)
next
  assume "0 < pct \<and> pct \<le> 100 \<and> portfolios s sender = Some p \<and> (\<forall>q\<in>set (positions p). basket_name q \<noteq> bname)"
  then show "execute_withdraw s now sender bname pct = Inl (GenericErr ''Position not found'')"
    by (auto simp: execute_withdraw_def load_portfolio_def position_of_None [THEN iffD2])
next
  assume a: "0 < pct \<and> pct \<le> 100 \<and> portfolios s sender = Some p
      \<and> position_of (\<lambda>q. basket_name q = bname) (positions p) = Some idx
      \<and> baskets s (basket_name (positions p ! idx)) = Some b
      \<and> (\<exists>k\<in>fst ` set (token_amounts (positions p ! idx)). \<not> routable (tokens b) k)"
  then have "withdraw_messages_loop s (positions p ! idx) pct (token_amounts (positions p ! idx)) [] \<in>
               {Inl (GenericErr ''Token not found''), Inl (GenericErr ''Unsupported chain'')}"
    using withdraw_messages_loop_unroutable [of pct s "positions p ! idx" b] by auto
  with a show "execute_withdraw s now sender bname pct \<in>
        {Inl (GenericErr ''Token not found''), Inl (GenericErr ''Unsupported chain'')}"
    by (auto simp: execute_withdraw_def load_portfolio_def multiply_ratio_percent
                   generate_withdraw_messages_def word_gt_0)
qed

text \<open>
  Claim C7 (functional). A successful withdrawal of 100 percent removes the first
  position of the basket from the sender's portfolio, lowers the portfolio's current
  value by the position's whole value, logs a \<open>Withdraw\<close> of that value, and emits
  exactly the position's token amounts: the coins of the messages, in order, are the
  entries of its token-amount map.
\<close>

theorem withdraw_all_liquidates:
  assumes "execute_withdraw s now sender bname 100 = Inr (s', r)"
  shows "\<exists>p idx. portfolios s sender = Some p
     \<and> position_of (\<lambda>q. basket_name q = bname) (positions p) = Some idx
     \<and> portfolios s' sender = Some (p\<lparr>positions := vec_remove idx (positions p),
          total_current_value := total_current_value p - current_value (positions p ! idx),
          investment_history := investment_history p @
            [history_entry now Withdraw (current_value (positions p ! idx)) bname (get_token_prices s)]\<rparr>)
     \<and> concat (map msg_coins (messages r)) =
         map (\<lambda>(k, a). \<lparr>denom = k, coin_amount = a\<rparr>) (token_amounts (positions p ! idx))"
  using assms
proof (rule execute_withdraw_InrE)
  fix p idx msgs
  assume p: "portfolios s sender = Some p"
    and idx: "position_of (\<lambda>q. basket_name q = bname) (positions p) = Some idx"
    and msgs: "generate_withdraw_messages s (positions p ! idx) (get_token_prices s) 100 = Inr msgs"
    and s': "s' = save_portfolio sender
           (p\<lparr>positions :=
                (let w = of_nat (unat (current_value (positions p ! idx)) * unat (100::u8) div 100);
                     ps = (positions p)[idx := (positions p ! idx)\<lparr>current_value := current_value (positions p ! idx) - w\<rparr>]
                 in if (100::u8) = 100 then vec_remove idx ps else ps),
              total_current_value := total_current_value p - of_nat (unat (current_value (positions p ! idx)) * unat (100::u8) div 100),
              investment_history := investment_history p @
                [history_entry now Withdraw (of_nat (unat (current_value (positions p ! idx)) * unat (100::u8) div 100)) bname (get_token_prices s)]\<rparr>) s"
    and r: "messages r = msgs"
  have coins: "concat (map msg_coins msgs) = map (withdraw_coin 100) (token_amounts (positions p ! idx))"
    using withdraw_messages_loop_coins [of 100] msgs by (fastforce simp: generate_withdraw_messages_def)
  have "map (withdraw_coin 100) (token_amounts (positions p ! idx)) =
        map (\<lambda>(k, a). \<lparr>denom = k, coin_amount = a\<rparr>) (token_amounts (positions p ! idx))"
    by (auto simp: withdraw_coin_def)
  with p idx s' r coins show ?thesis by (simp add: save_portfolio_def)
qed

text \<open>
  Claim C8 (functional; a defect of the code). A successful withdrawal of less than 100
  percent emits \<open>pct\<close> percent of every held token and lowers the position's value by
  \<open>pct\<close> percent, but leaves the position's token amounts as they were: the position
  is still found under the basket, at the same index, holding the same token amounts.
\<close>

theorem partial_withdraw_keeps_token_amounts:
  assumes "execute_withdraw s now sender bname pct = Inr (s', r)" and "pct < 100"
  shows "\<exists>p p' idx. portfolios s sender = Some p \<and> portfolios s' sender = Some p'
     \<and> position_of (\<lambda>q. basket_name q = bname) (positions p) = Some idx
     \<and> position_of (\<lambda>q. basket_name q = bname) (positions p') = Some idx
     \<and> token_amounts (positions p' ! idx) = token_amounts (positions p ! idx)
     \<and> unat (current_value (positions p' ! idx)) =
         unat (current_value (positions p ! idx)) - unat (current_value (positions p ! idx)) * unat pct div 100
     \<and> concat (map msg_coins (messages r)) = map (withdraw_coin pct) (token_amounts (positions p ! idx))"
  using assms(1)
proof (rule execute_withdraw_InrE)
  fix p idx msgs
  assume pct: "pct \<le> 100" and p: "portfolios s sender = Some p"
    and idx: "position_of (\<lambda>q. basket_name q = bname) (positions p) = Some idx"
    and msgs: "generate_withdraw_messages s (positions p ! idx) (get_token_prices s) pct = Inr msgs"
    and s': "s' = save_portfolio sender
           (p\<lparr>positions :=
                (let w = of_nat (unat (current_value (positions p ! idx)) * unat pct div 100);
                     ps = (positions p)[idx := (positions p ! idx)\<lparr>current_value := current_value (positions p ! idx) - w\<rparr>]
                 in if pct = 100 then vec_remove idx ps else ps),
              total_current_value := total_current_value p - of_nat (unat (current_value (positions p ! idx)) * unat pct div 100),
              investment_history := investment_history p @
                [history_entry now Withdraw (of_nat (unat (current_value (positions p ! idx)) * unat pct div 100)) bname (get_token_prices s)]\<rparr>) s"
    and r: "messages r = msgs"
  define pos where "pos = positions p ! idx"
  define w :: uint128 where "w = of_nat (unat (current_value pos) * unat pct div 100)"
  have len: "idx < length (positions p)" using position_of_Some [OF idx] by blast
  have uw: "unat w = unat (current_value pos) * unat pct div 100"
    unfolding w_def using pct by (rule unat_percent_share)
  have "w \<le> current_value pos"
    using uw percent_share_le [OF pct] by (simp add: word_le_nat_alt)
  then have cv: "unat (current_value pos - w) = unat (current_value pos) - unat w"
    by (rule unat_sub)
  define ps where "ps = (positions p)[idx := pos\<lparr>current_value := current_value pos - w\<rparr>]"
  have s'': "portfolios s' sender = Some (p\<lparr>positions := ps,
      total_current_value := total_current_value p - w,
      investment_history := investment_history p @ [history_entry now Withdraw w bname (get_token_prices s)]\<rparr>)"
    using s' assms(2) by (simp add: save_portfolio_def Let_def ps_def pos_def w_def)
  have "position_of (\<lambda>q. basket_name q = bname) ps = Some idx"
    using idx by (simp add: ps_def pos_def position_of_update)
  moreover have "ps ! idx = pos\<lparr>current_value := current_value pos - w\<rparr>"
    using len by (simp add: ps_def)
  moreover have "concat (map msg_coins msgs) = map (withdraw_coin pct) (token_amounts pos)"
    using withdraw_messages_loop_coins [OF pct] msgs by (fastforce simp: generate_withdraw_messages_def pos_def)
  ultimately show ?thesis
    using p idx s'' r cv uw by (auto simp: pos_def)
qed

subsection \<open>Auto-compound flag\<close>

definition execute_set_auto_compound ::
  "store \<Rightarrow> string \<Rightarrow> string \<Rightarrow> bool \<Rightarrow> (store \<times> response) result" where
  "execute_set_auto_compound s sender bname enabled =
     rbind (load_portfolio s sender) (\<lambda>portfolio.
     case position_of (\<lambda>p. basket_name p = bname) (positions portfolio) of
       None \<Rightarrow> Inl (GenericErr ''Position not found'')
     | Some idx \<Rightarrow>
         (let ps = (positions portfolio)[idx := (positions portfolio ! idx)\<lparr>auto_compound := enabled\<rparr>] in
          Inr (save_portfolio sender (portfolio\<lparr>positions := ps\<rparr>) s,
               add_attribute ''enabled'' (bool_to_string enabled)
                 (add_attribute ''basket'' bname
                   (add_attribute ''action'' ''set_auto_compound'' response_new)))))"

subsection \<open>Rebalance\<close>

text \<open>
  \<open>generate_rebalance_messages\<close> is called by \<open>execute_rebalance\<close> but not
  defined anywhere in the repository; it is modelled from the specification (section
  4.2, \<open>rebalanceDelta\<close>, and 4.3, \<open>rebalance\<close>): the targets are the split of the
  position's current value over the basket's current weights; every target token gets the
  signed delta \<open>target - held\<close>, every held token absent from the targets the delta
  \<open>- held\<close>; the position's token amounts become the targets.
\<close>

definition rebalance_deltas :: "uint128 hashmap \<Rightarrow> uint128 hashmap \<Rightarrow> (string \<times> int) list" where
  "rebalance_deltas current target =
     map (\<lambda>(k, v). (k, int (unat v) - int (case map_of current k of None \<Rightarrow> 0 | Some c \<Rightarrow> unat c))) target
     @ map (\<lambda>(k, c). (k, - int (unat c))) (filter (\<lambda>(k, c). map_of target k = None) current)"

definition generate_rebalance_messages ::
  "investment_position \<Rightarrow> token_weight list \<Rightarrow> uint128 hashmap \<Rightarrow>
   (cosmos_msg list \<times> investment_position) result" where
  "generate_rebalance_messages position basket_tokens prices =
     rbind (calculate_token_amounts basket_tokens (current_value position) prices) (\<lambda>target.
       Inr (map (\<lambda>(k, d). RebalanceTransfer k d) (rebalance_deltas (token_amounts position) target),
            position\<lparr>token_amounts := target\<rparr>))"

definition execute_rebalance ::
  "store \<Rightarrow> u64 \<Rightarrow> string \<Rightarrow> string \<Rightarrow> (store \<times> response) result" where
  "execute_rebalance s now sender bname =
     rbind (load_basket s bname) (\<lambda>basket.
     rbind (load_portfolio s sender) (\<lambda>portfolio.
     case position_of (\<lambda>p. basket_name p = bname) (positions portfolio) of
       None \<Rightarrow> Inl (GenericErr ''Position not found'')
     | Some idx \<Rightarrow>
       (let prices = get_token_prices s in
        rbind (generate_rebalance_messages (positions portfolio ! idx) (tokens basket) prices)
          (\<lambda>(msgs, position).
           let position' = position\<lparr>last_updated := now\<rparr>;
               portfolio' = portfolio\<lparr>positions := (positions portfolio)[idx := position'],
                                      investment_history := investment_history portfolio @
                                        [history_entry now Rebalance (current_value position') bname prices]\<rparr> in
           Inr (save_portfolio sender portfolio' s,
                add_attribute ''basket'' bname
                  (add_attribute ''action'' ''rebalance'' (add_messages msgs response_new)))))))"

end
