(* ===== verification/Rewards.thy ===== *)
theory Rewards
  imports Store
begin

text \<open>
  The reward accrual engine: \<open>calculate_rewards\<close> (\<^verbatim>\<open>contract.rs\<close> lines
  596--610) and \<open>execute_claim_rewards\<close> (463--487). The elapsed time since the last
  claim saturates at zero; below the lock period the reward is 0; otherwise it is
  \<open>total_current_value * (reward_rate * elapsed) / (365 * 24 * 60 * 60 * 100)\<close>,
  truncated, with a panicking \<open>Uint128\<close> product in the numerator. A claim of a zero
  reward is an error. \<open>create_reward_transfer_msg\<close> is called but not defined in
  the repository; it is modelled from the specification as a bank send of the reward
  token to the claimant.
\<close>

definition calculate_rewards :: "user_portfolio \<Rightarrow> config \<Rightarrow> u64 \<Rightarrow> uint128 result" where
  "calculate_rewards portfolio config current_time =
     (let time_elapsed = saturating_sub current_time (last_claim portfolio) in
      if time_elapsed < min_lock_period config then Inr 0
      else
        rbind (word_mul_checked (reward_rate config) (ucast time_elapsed)) (\<lambda>num.
          multiply_ratio (total_current_value portfolio) num (365 * 24 * 60 * 60 * 100)))"

definition create_reward_transfer_msg :: "string \<Rightarrow> uint128 \<Rightarrow> config \<Rightarrow> cosmos_msg result" where
  "create_reward_transfer_msg recipient rewards config =
     Inr (BankSend recipient [\<lparr>denom = reward_token config, coin_amount = rewards\<rparr>])"

definition execute_claim_rewards :: "store \<Rightarrow> u64 \<Rightarrow> string \<Rightarrow> (store \<times> response) result" where
  "execute_claim_rewards s now sender =
     rbind (load_config s) (\<lambda>config.
     rbind (load_portfolio s sender) (\<lambda>portfolio.
     rbind (calculate_rewards portfolio config now) (\<lambda>rewards.
     if rewards = 0 then Inl (GenericErr ''No rewards to claim'')
     else
       rbind (word_add_checked (rewards_earned portfolio) rewards) (\<lambda>earned.
       let s' = save_portfolio sender (portfolio\<lparr>rewards_earned := earned, last_claim := now\<rparr>) s in
       rbind (create_reward_transfer_msg sender rewards config) (\<lambda>transfer_msg.
       Inr (s', add_attribute ''amount'' (u128_to_string rewards)
                  (add_attribute ''action'' ''claim_rewards'' (add_messages [transfer_msg] response_new))))))))"

subsection \<open>Reward accrual and claiming\<close>

lemma calculate_rewards_locked:
  "unat now - unat (last_claim p) < unat (min_lock_period c) \<Longrightarrow> calculate_rewards p c now = Inr 0"
  by (simp add: calculate_rewards_def unat_saturating_sub word_less_nat_alt)

lemma calculate_rewards_unlocked:
  assumes "unat (min_lock_period c) \<le> unat now - unat (last_claim p)"
  shows "calculate_rewards p c now =
     (let num = reward_rate c * ucast (saturating_sub now (last_claim p)) in
      if unat (reward_rate c) * (unat now - unat (last_claim p)) < 2 ^ 128
      then multiply_ratio (total_current_value p) num 3153600000
      else Inl (Panic ''attempt to multiply with overflow''))"
  using assms
  by (simp add: calculate_rewards_def Let_def unat_saturating_sub word_less_nat_alt
                word_mul_checked_cases not_less)

text \<open>
  Claim C13 (functional). \<open>calculate_rewards\<close> on every input: with
  \<open>e\<close> the seconds since the last claim (0 if the clock is behind), the reward is 0
  below the lock period; otherwise the product \<open>reward_rate * e\<close> panics past 128
  bits, and else the reward is \<open>total_current_value * (reward_rate * e)\<close> divided by
  \<open>365 * 24 * 60 * 60 * 100\<close>, truncated, which panics past 128 bits.
\<close>

theorem calculate_rewards_result:
  "calculate_rewards p c now =
     (let e = unat now - unat (last_claim p) in
      if e < unat (min_lock_period c) then Inr 0
      else if 2 ^ 128 \<le> unat (reward_rate c) * e then Inl (Panic ''attempt to multiply with overflow'')
      else
        (let q = unat (total_current_value p) * (unat (reward_rate c) * e) div 3153600000 in
         if q < 2 ^ 128 then Inr (of_nat q) else Inl (Panic ''Multiplication overflow'')))"
proof (cases "unat now - unat (last_claim p) < unat (min_lock_period c)")
  case True
  then show ?thesis by (simp add: calculate_rewards_locked)
next
  case False
  define e where "e = unat now - unat (last_claim p)"
  define num :: uint128 where "num = reward_rate c * ucast (saturating_sub now (last_claim p))"
  have unlocked: "calculate_rewards p c now =
      (if unat (reward_rate c) * e < 2 ^ 128 then multiply_ratio (total_current_value p) num 3153600000
       else Inl (Panic ''attempt to multiply with overflow''))"
    using False by (simp add: calculate_rewards_unlocked e_def num_def)
  show ?thesis
  proof (cases "unat (reward_rate c) * e < 2 ^ 128")
    case True
    have "unat num = unat (reward_rate c) * e"
      using True by (simp add: num_def e_def unat_mult_lem [THEN iffD1] unat_saturating_sub)
    then show ?thesis
      using False True unlocked by (simp add: e_def multiply_ratio_def Let_def)
  next
    case overflow: False
    then show ?thesis using False unlocked by (simp add: e_def)
  qed
qed


lemma calculate_rewards_Inl:
  "calculate_rewards p c now = Inl e \<Longrightarrow> \<exists>m. e = Panic m"
  by (auto simp: calculate_rewards_def Let_def word_mul_checked_def multiply_ratio_def
           split: if_splits)

text \<open>
  Claim C16 (functional). A reward claim succeeds exactly when the config and the
  caller's portfolio exist, the reward is non-zero and adding it to
  \<open>rewards_earned\<close> does not overflow; it then adds the reward, sets
  \<open>last_claim\<close> to the block time, and answers with one bank send of the reward in
  the configured reward token to the caller.
\<close>

theorem claim_rewards_characterisation:
  "execute_claim_rewards s now sender = Inr (s', r) \<longleftrightarrow>
   (\<exists>c p rw. config_item s = Some c \<and> portfolios s sender = Some p
      \<and> calculate_rewards p c now = Inr rw \<and> rw \<noteq> 0
      \<and> unat (rewards_earned p) + unat rw < 2 ^ 128
      \<and> s' = s\<lparr>portfolios := (portfolios s)(sender \<mapsto>
               p\<lparr>rewards_earned := rewards_earned p + rw, last_claim := now\<rparr>)\<rparr>
      \<and> r = add_attribute ''amount'' (u128_to_string rw) (add_attribute ''action'' ''claim_rewards''
              (add_messages [BankSend sender [\<lparr>denom = reward_token c, coin_amount = rw\<rparr>]] response_new)))"
  by (auto simp: execute_claim_rewards_def Let_def save_portfolio_def create_reward_transfer_msg_def
                 word_add_checked_Inr)

text \<open>
  Claim C14 (error). For a caller with a portfolio, a claim fails with
  \<open>No rewards to claim\<close> exactly when \<open>calculate_rewards\<close> gives 0.
\<close>

theorem claim_rewards_fails_iff_zero:
  assumes "config_item s = Some c" and "portfolios s sender = Some p"
  shows "execute_claim_rewards s now sender = Inl (GenericErr ''No rewards to claim'') \<longleftrightarrow>
         calculate_rewards p c now = Inr 0"
  using assms calculate_rewards_Inl [of p c now]
  by (cases "calculate_rewards p c now")
     (auto simp: execute_claim_rewards_def Let_def store_access_defs create_reward_transfer_msg_def
                 word_add_checked_def)

text \<open>
  Claim C15 (error). A claim made before the lock period has elapsed since the last
  claim fails with \<open>No rewards to claim\<close>, whatever the portfolio's value.
\<close>

theorem claim_within_lock_fails:
  assumes "config_item s = Some c" and "portfolios s sender = Some p"
    and "unat now - unat (last_claim p) < unat (min_lock_period c)"
  shows "execute_claim_rewards s now sender = Inl (GenericErr ''No rewards to claim'')"
  using assms calculate_rewards_locked [OF assms(3)]
  by (simp add: execute_claim_rewards_def store_access_defs)

end
