(* ===== verification/Contract.thy ===== *)
theory Contract
  imports Baskets GlobalConfig Ledger Rewards
begin

text \<open>
  The operation dispatcher and the transaction semantics. \<open>execute\<close>
  (\<^verbatim>\<open>contract.rs\<close> lines 137--170) routes each \<open>ExecuteMsg\<close>
  (\<^verbatim>\<open>msg.rs\<close> lines 22--57) to its handler. The host runs one message at a time; a
  handler that fails (an error or a panic) commits nothing, one that succeeds commits its
  store. \<open>reachable\<close> is the set of stores the contract can be in: instantiated from
  an empty store, then any sequence of successful executions by any sender at any time,
  interleaved with arbitrary updates of the price feeds by the oracle.
\<close>

datatype execute_msg =
    CreateBasketMsg string "token_weight list" uint128
  | UpdateBasketMsg string "token_weight list" "uint128 option" bool
  | InvestMsg string uint128 bool
  | WithdrawMsg string u8
  | ClaimRewardsMsg
  | SetAutoCompoundMsg string bool
  | RebalanceMsg string
  | UpdateConfigMsg "uint128 option" "u64 option" "u64 option"

fun execute :: "store \<Rightarrow> u64 \<Rightarrow> string \<Rightarrow> execute_msg \<Rightarrow> (store \<times> response) result" where
  "execute s now sender (CreateBasketMsg bname ts m) = execute_create_basket s sender bname ts m"
| "execute s now sender (UpdateBasketMsg bname ts m act) = execute_update_basket s sender bname ts m act"
| "execute s now sender (InvestMsg bname amt auto) = execute_invest s now sender bname amt auto"
| "execute s now sender (WithdrawMsg bname p) = execute_withdraw s now sender bname p"
| "execute s now sender ClaimRewardsMsg = execute_claim_rewards s now sender"
| "execute s now sender (SetAutoCompoundMsg bname enabled) = execute_set_auto_compound s sender bname enabled"
| "execute s now sender (RebalanceMsg bname) = execute_rebalance s now sender bname"
| "execute s now sender (UpdateConfigMsg r p f) = execute_update_config s sender r p f"

text \<open>A sequence of calls, each committed before the next; the first failure stops it.\<close>

fun run :: "store \<Rightarrow> (u64 \<times> string \<times> execute_msg) list \<Rightarrow> (store \<times> response list) result" where
  "run s [] = Inr (s, [])"
| "run s ((now, sender, m) # calls) =
     rbind (execute s now sender m) (\<lambda>(s', r).
     rbind (run s' calls) (\<lambda>(s'', rs). Inr (s'', r # rs)))"

definition empty_store :: store where
  "empty_store = \<lparr>config_item = None, baskets = Map.empty, portfolios = Map.empty, price_feeds = []\<rparr>"

definition commit_tx :: "store \<Rightarrow> (store \<times> response) result \<Rightarrow> store" where
  "commit_tx s res = (case res of Inl e \<Rightarrow> s | Inr (s', r) \<Rightarrow> s')"

inductive reachable :: "store \<Rightarrow> bool" where
  instantiated: "instantiate empty_store sender msg = Inr (s, r) \<Longrightarrow> reachable s"
| executed: "reachable s \<Longrightarrow> execute s now sender m = Inr (s', r) \<Longrightarrow> reachable s'"
| price_update: "reachable s \<Longrightarrow> distinct (map fst feeds) \<Longrightarrow> reachable (s\<lparr>price_feeds := feeds\<rparr>)"

lemma run_reachable:
  "reachable s \<Longrightarrow> run s calls = Inr (s', rs) \<Longrightarrow> reachable s'"
proof (induction s calls arbitrary: rs rule: run.induct)
  case (1 s)
  then show ?case by simp
next
  case (2 s now sender m calls)
  then show ?case by (auto intro: reachable.executed split: prod.splits)
qed

section \<open>The portfolio-value invariant\<close>

text \<open>
  Every stored portfolio's \<open>total_current_value\<close> is the sum of its positions'
  \<open>current_value\<close>s (read as naturals, so the sum cannot wrap). Invest adds the amount
  to both; withdraw subtracts the same share from both and drops a position only once its
  value is 0; every other handler leaves both alone.
\<close>

definition portfolio_value_ok :: "user_portfolio \<Rightarrow> bool" where
  "portfolio_value_ok p \<longleftrightarrow>
     unat (total_current_value p) = sum_list (map (unat \<circ> current_value) (positions p))"

definition values_ok :: "store \<Rightarrow> bool" where
  "values_ok s \<longleftrightarrow> (\<forall>u p. portfolios s u = Some p \<longrightarrow> portfolio_value_ok p)"

lemma values_ok_save:
  "values_ok s \<Longrightarrow> portfolio_value_ok p \<Longrightarrow> values_ok (save_portfolio u p s)"
  by (simp add: values_ok_def save_portfolio_def)

lemma values_ok_portfolios_eq:
  "portfolios s' = portfolios s \<Longrightarrow> values_ok s \<Longrightarrow> values_ok s'"
  by (simp add: values_ok_def)

lemma values_ok_portfolio_or_new:
  "values_ok s \<Longrightarrow> portfolio_value_ok (portfolio_or_new s u now)"
  by (auto simp: values_ok_def portfolio_or_new_def portfolio_value_ok_def empty_portfolio_def
           split: option.splits)

lemma invest_values_ok:
  assumes "execute_invest s now sender bname amt auto = Inr (s', r)" and "values_ok s"
  shows "values_ok s'"
  using assms(1)
proof (rule execute_invest_InrE)
  fix b c amounts
  define p where "p = portfolio_or_new s sender now"
  assume ok: "unat (total_current_value (portfolio_or_new s sender now)) + unat amt < 2 ^ 128"
    and s': "s' = s\<lparr>portfolios := (portfolios s)(sender \<mapsto>
             (portfolio_or_new s sender now)\<lparr>
                positions := positions (portfolio_or_new s sender now) @
                  [new_position sender bname amt amounts (get_token_prices s) now auto],
                total_invested := total_invested (portfolio_or_new s sender now) + amt,
                total_current_value := total_current_value (portfolio_or_new s sender now) + amt,
                investment_history := investment_history (portfolio_or_new s sender now) @
                  [history_entry now Deposit amt bname (get_token_prices s)]\<rparr>),
            baskets := (baskets s)(bname \<mapsto> b\<lparr>basket_tvl := basket_tvl b + amt\<rparr>),
            config_item := Some (c\<lparr>total_value_locked := total_value_locked c + amt\<rparr>)\<rparr>"
  have pv: "portfolio_value_ok p" unfolding p_def using assms(2) by (rule values_ok_portfolio_or_new)
  have "unat (total_current_value p + amt) = unat (total_current_value p) + unat amt"
    using ok unfolding p_def by (rule unat_add_u128)
  with pv have "portfolio_value_ok (p\<lparr>
                positions := positions p @ [new_position sender bname amt amounts (get_token_prices s) now auto],
                total_invested := total_invested p + amt,
                total_current_value := total_current_value p + amt,
                investment_history := investment_history p @ [history_entry now Deposit amt bname (get_token_prices s)]\<rparr>)"
    by (simp add: portfolio_value_ok_def new_position_def)
  with assms(2) show "values_ok s'"
    by (simp add: s' values_ok_def p_def)
qed

lemma sum_values_update:
  fixes ps :: "investment_position list"
  assumes "i < length ps" and "w \<le> current_value (ps ! i)"
  shows "sum_list (map (unat \<circ> current_value) (ps[i := (ps ! i)\<lparr>current_value := current_value (ps ! i) - w\<rparr>]))
         = sum_list (map (unat \<circ> current_value) ps) - unat w"
proof -
  define f :: "investment_position \<Rightarrow> nat" where "f = unat \<circ> current_value"
  define y where "y = (ps ! i)\<lparr>current_value := current_value (ps ! i) - w\<rparr>"
  have "f (ps ! i) \<in> set (map f ps)" using assms(1) by simp
  then have le: "f (ps ! i) \<le> sum_list (map f ps)" by (simp add: member_le_sum_list)
  have fy: "f y = f (ps ! i) - unat w"
    using assms(2) by (simp add: f_def y_def unat_sub word_le_nat_alt)
  have wle: "unat w \<le> f (ps ! i)" using assms(2) by (simp add: f_def word_le_nat_alt)
  have "sum_list (map f (ps[i := y])) + f (ps ! i) = sum_list (map f ps) + f y"
    using assms(1) by (rule sum_list_list_update)
  with le fy wle have "sum_list (map f (ps[i := y])) = sum_list (map f ps) - unat w" by linarith
  then show ?thesis by (simp only: f_def y_def)
qed

lemma withdraw_values_ok:
  assumes "execute_withdraw s now sender bname pct = Inr (s', r)" and "values_ok s"
  shows "values_ok s'"
  using assms(1)
proof (rule execute_withdraw_InrE)
  fix p idx msgs
  assume pct: "pct \<le> 100" and p: "portfolios s sender = Some p"
    and idx: "position_of (\<lambda>q. basket_name q = bname) (positions p) = Some idx"
    and tcv: "of_nat (unat (current_value (positions p ! idx)) * unat pct div 100) \<le> total_current_value p"
    and s': "s' = save_portfolio sender
           (p\<lparr>positions :=
                (let w = of_nat (unat (current_value (positions p ! idx)) * unat pct div 100);
                     ps = (positions p)[idx := (positions p ! idx)\<lparr>current_value := current_value (positions p ! idx) - w\<rparr>]
                 in if pct = 100 then vec_remove idx ps else ps),
              total_current_value := total_current_value p - of_nat (unat (current_value (positions p ! idx)) * unat pct div 100),
              investment_history := investment_history p @
                [history_entry now Withdraw (of_nat (unat (current_value (positions p ! idx)) * unat pct div 100)) bname (get_token_prices s)]\<rparr>) s"
  define pos where "pos = positions p ! idx"
  define w :: uint128 where "w = of_nat (unat (current_value pos) * unat pct div 100)"
  define ps where "ps = (positions p)[idx := pos\<lparr>current_value := current_value pos - w\<rparr>]"
  have len: "idx < length (positions p)" using position_of_Some [OF idx] by blast
  have pv: "portfolio_value_ok p" using assms(2) p by (simp add: values_ok_def)
  have uw: "unat w = unat (current_value pos) * unat pct div 100"
    unfolding w_def using pct by (rule unat_percent_share)
  have wle: "w \<le> current_value pos"
    using uw percent_share_le [OF pct] by (simp add: word_le_nat_alt)
  have sps: "sum_list (map (unat \<circ> current_value) ps) = unat (total_current_value p) - unat w"
    using sum_values_update [OF len] wle pv by (simp add: ps_def pos_def portfolio_value_ok_def)
  have tcv': "unat (total_current_value p - w) = unat (total_current_value p) - unat w"
    using tcv by (simp add: w_def pos_def unat_sub)
  have ok: "unat (total_current_value p - w) =
            sum_list (map (unat \<circ> current_value) (if pct = 100 then vec_remove idx ps else ps))"
  proof (cases "pct = 100")
    case True
    then have "unat w = unat (current_value pos)" using uw by simp
    moreover have "sum_list (map (unat \<circ> current_value) (vec_remove idx (positions p))) =
                   sum_list (map (unat \<circ> current_value) (positions p)) - unat (current_value pos)"
      using len by (simp add: sum_list_vec_remove pos_def)
    ultimately show ?thesis
      using True pv by (simp add: ps_def tcv' portfolio_value_ok_def)
  next
    case False
    then show ?thesis by (simp add: tcv' sps)
  qed
  have "portfolio_value_ok (p\<lparr>positions := (if pct = 100 then vec_remove idx ps else ps),
                               total_current_value := total_current_value p - w,
                               investment_history := investment_history p @
                                 [history_entry now Withdraw w bname (get_token_prices s)]\<rparr>)"
    using ok by (simp add: portfolio_value_ok_def)
  moreover have "s' = save_portfolio sender
      (p\<lparr>positions := (if pct = 100 then vec_remove idx ps else ps),
          total_current_value := total_current_value p - w,
          investment_history := investment_history p @ [history_entry now Withdraw w bname (get_token_prices s)]\<rparr>) s"
    using s' by (simp only: Let_def ps_def pos_def w_def)
  ultimately show "values_ok s'" using assms(2) by (simp only: values_ok_save)
qed

lemma create_basket_portfolios:
  "execute_create_basket s sender bname ts m = Inr (s', r) \<Longrightarrow> portfolios s' = portfolios s"
  by (auto simp: execute_create_basket_def Let_def store_access_defs split: if_splits)

lemma update_basket_portfolios:
  "execute_update_basket s sender bname ts m act = Inr (s', r) \<Longrightarrow> portfolios s' = portfolios s"
  by (auto simp: execute_update_basket_def Let_def store_access_defs split: if_splits)

lemma update_config_portfolios:
  "execute_update_config s sender rt p f = Inr (s', r) \<Longrightarrow> portfolios s' = portfolios s"
  by (auto simp: execute_update_config_def Let_def store_access_defs split: if_splits)

lemma instantiate_portfolios:
  "instantiate s sender msg = Inr (s', r) \<Longrightarrow> portfolios s' = portfolios s"
  by (auto simp: instantiate_def Let_def store_access_defs)

lemma claim_values_ok:
  assumes "execute_claim_rewards s now sender = Inr (s', r)" and "values_ok s"
  shows "values_ok s'"
proof -
  from assms(1) obtain p earned where "portfolios s sender = Some p"
    and "s' = save_portfolio sender (p\<lparr>rewards_earned := earned, last_claim := now\<rparr>) s"
    by (auto simp: execute_claim_rewards_def Let_def create_reward_transfer_msg_def split: if_splits)
  with assms(2) show ?thesis
    by (auto simp: values_ok_def save_portfolio_def portfolio_value_ok_def)
qed

lemma set_auto_compound_values_ok:
  assumes "execute_set_auto_compound s sender bname e = Inr (s', r)" and "values_ok s"
  shows "values_ok s'"
proof -
  from assms(1) obtain p idx where p: "portfolios s sender = Some p"
    and idx: "position_of (\<lambda>q. basket_name q = bname) (positions p) = Some idx"
    and s': "s' = save_portfolio sender (p\<lparr>positions := (positions p)[idx :=
                   (positions p ! idx)\<lparr>auto_compound := e\<rparr>]\<rparr>) s"
    by (auto simp: execute_set_auto_compound_def Let_def split: option.splits)
  have "idx < length (positions p)" using position_of_Some [OF idx] by blast
  with assms(2) p show ?thesis
    by (auto simp: s' values_ok_def save_portfolio_def portfolio_value_ok_def sum_list_update_same)
qed

lemma execute_rebalance_InrE:
  assumes "execute_rebalance s now sender bname = Inr (s', r)"
  obtains p idx target where "portfolios s sender = Some p"
    "position_of (\<lambda>q. basket_name q = bname) (positions p) = Some idx"
    "s' = save_portfolio sender (p\<lparr>positions := (positions p)[idx :=
                   (positions p ! idx)\<lparr>token_amounts := target, last_updated := now\<rparr>],
                 investment_history := investment_history p @
                   [history_entry now Rebalance (current_value (positions p ! idx)) bname (get_token_prices s)]\<rparr>) s"
    "\<exists>b. baskets s bname = Some b
        \<and> calculate_token_amounts (tokens b) (current_value (positions p ! idx)) (get_token_prices s) = Inr target"
    "messages r = map (\<lambda>(k, d). RebalanceTransfer k d) (rebalance_deltas (token_amounts (positions p ! idx)) target)"
  using assms
  by (auto simp: execute_rebalance_def generate_rebalance_messages_def Let_def add_attribute_def
                 add_messages_def response_new_def split: option.splits)

lemma rebalance_values_ok:
  assumes "execute_rebalance s now sender bname = Inr (s', r)" and "values_ok s"
  shows "values_ok s'"
  using assms(1)
proof (rule execute_rebalance_InrE)
  fix p :: user_portfolio and idx target
  assume p: "portfolios s sender = Some p"
    and idx: "position_of (\<lambda>q. basket_name q = bname) (positions p) = Some idx"
    and s': "s' = save_portfolio sender (p\<lparr>positions := (positions p)[idx :=
                   (positions p ! idx)\<lparr>token_amounts := target, last_updated := now\<rparr>],
                 investment_history := investment_history p @
                   [history_entry now Rebalance (current_value (positions p ! idx)) bname (get_token_prices s)]\<rparr>) s"
  have "idx < length (positions p)" using position_of_Some [OF idx] by blast
  with assms(2) p show ?thesis
    by (auto simp: s' values_ok_def save_portfolio_def portfolio_value_ok_def sum_list_update_same)
qed

lemma execute_values_ok:
  "execute s now sender m = Inr (s', r) \<Longrightarrow> values_ok s \<Longrightarrow> values_ok s'"
  by (cases m)
     (auto intro: invest_values_ok withdraw_values_ok claim_values_ok set_auto_compound_values_ok
                  rebalance_values_ok values_ok_portfolios_eq
           dest: create_basket_portfolios update_basket_portfolios update_config_portfolios)

lemma reachable_values_ok: "reachable s \<Longrightarrow> values_ok s"
proof (induction rule: reachable.induct)
  case (instantiated sender msg s r)
  then have "portfolios s = Map.empty"
    by (simp add: instantiate_portfolios empty_store_def)
  then show ?case by (simp add: values_ok_def)
next
  case (executed s now sender m s' r)
  then show ?case using execute_values_ok by blast
next
  case (price_update s feeds)
  then show ?case by (simp add: values_ok_def)
qed

lemma withdraw_Inr_if:
  assumes "0 < pct" "pct \<le> 100" "portfolios s sender = Some p" "portfolio_value_ok p"
    "position_of (\<lambda>q. basket_name q = bname) (positions p) = Some idx"
    "generate_withdraw_messages s (positions p ! idx) (get_token_prices s) pct = Inr msgs"
  shows "\<exists>s' r. execute_withdraw s now sender bname pct = Inr (s', r)"
proof -
  define pos where "pos = positions p ! idx"
  define w :: uint128 where "w = of_nat (unat (current_value pos) * unat pct div 100)"
  have len: "idx < length (positions p)" using position_of_Some [OF assms(5)] by blast
  have uw: "unat w = unat (current_value pos) * unat pct div 100"
    unfolding w_def using assms(2) by (rule unat_percent_share)
  have wle: "unat w \<le> unat (current_value pos)"
    using uw percent_share_le [OF assms(2)] by simp
  have "unat (current_value pos) \<le> sum_list (map (unat \<circ> current_value) (positions p))"
    using len by (simp add: pos_def member_le_sum_list)
  then have "w \<le> total_current_value p"
    using wle assms(4) by (simp add: portfolio_value_ok_def word_le_nat_alt)
  moreover have "w \<le> current_value pos" using wle by (simp add: word_le_nat_alt)
  ultimately show ?thesis
    using assms by (auto simp: execute_withdraw_def load_portfolio_def multiply_ratio_percent
                               word_sub_checked_def Let_def pos_def w_def word_gt_0)
qed

section \<open>Properties of reachable stores\<close>

text \<open>
  Claim C10 (invariant). In every store the contract can reach, each portfolio's
  \<open>total_current_value\<close> equals the sum of its positions' current values.
\<close>

theorem reachable_portfolio_value:
  assumes "reachable s" and "portfolios s u = Some p"
  shows "unat (total_current_value p) = sum_list (map (unat \<circ> current_value) (positions p))"
  using reachable_values_ok [OF assms(1)] assms(2)
  by (simp add: values_ok_def portfolio_value_ok_def)

text \<open>
  Claim C11 (safety). In a reachable store a withdrawal never panics: the two
  \<open>Uint128\<close> subtractions of \<open>execute_withdraw\<close> (lines 397--398) cannot underflow and
  \<open>multiply_ratio\<close> by a percentage cannot fail, so every failure of a withdrawal is
  one of its reported errors.
\<close>

theorem withdraw_never_panics:
  assumes "reachable s"
  shows "execute_withdraw s now sender bname pct \<noteq> Inl (Panic msg)"
proof
  assume panic: "execute_withdraw s now sender bname pct = Inl (Panic msg)"
  have valid: "0 < pct" "pct \<le> 100"
    using panic by (auto simp: execute_withdraw_def word_gt_0 not_less split: if_splits)
  have ng: "(100 < pct) = False" using valid(2) by (simp add: not_less)
  obtain p where p: "portfolios s sender = Some p"
    using panic valid ng by (auto simp: execute_withdraw_def load_portfolio_def word_gt_0 split: option.splits)
  obtain idx where idx: "position_of (\<lambda>q. basket_name q = bname) (positions p) = Some idx"
    using panic valid ng p by (auto simp: execute_withdraw_def load_portfolio_def word_gt_0 split: option.splits)
  show False
  proof (cases "generate_withdraw_messages s (positions p ! idx) (get_token_prices s) pct")
    case (Inl e)
    then have "e \<noteq> Panic msg"
      using withdraw_messages_loop_no_panic valid(2) by (simp add: generate_withdraw_messages_def)
    moreover have "execute_withdraw s now sender bname pct = Inl e"
      using Inl valid p idx
      by (simp add: execute_withdraw_def multiply_ratio_percent load_portfolio_def Let_def word_gt_0 ng)
    ultimately show False using panic by simp
  next
    case (Inr msgs)
    have "portfolio_value_ok p"
      using reachable_values_ok [OF assms] p by (simp add: values_ok_def)
    then obtain s' r where "execute_withdraw s now sender bname pct = Inr (s', r)"
      using withdraw_Inr_if [OF valid p _ idx Inr] by blast
    with panic show False by simp
  qed
qed

text \<open>
  Claim C12 (liveness of a single call). In a reachable store, a withdrawal of 1 to 100
  percent of an existing position succeeds whenever its basket is stored and every token
  the position holds is in the basket's token list on a Cosmos or Ethereum chain.
\<close>

theorem withdraw_succeeds:
  assumes "reachable s" and "0 < pct" and "pct \<le> 100" and "portfolios s sender = Some p"
    and "position_of (\<lambda>q. basket_name q = bname) (positions p) = Some idx"
    and "baskets s bname = Some b"
    and "\<forall>k\<in>fst ` set (token_amounts (positions p ! idx)). routable (tokens b) k"
  shows "\<exists>s' r. execute_withdraw s now sender bname pct = Inr (s', r)"
proof -
  have "basket_name (positions p ! idx) = bname" using position_of_Some [OF assms(5)] by blast
  then obtain msgs where "generate_withdraw_messages s (positions p ! idx) (get_token_prices s) pct = Inr msgs"
    using withdraw_messages_loop_ok [OF assms(3) _ assms(7)] assms(6)
    by (fastforce simp: generate_withdraw_messages_def)
  moreover have "portfolio_value_ok p"
    using reachable_values_ok [OF assms(1)] assms(4) by (simp add: values_ok_def)
  ultimately show ?thesis using withdraw_Inr_if assms(2-5) by blast
qed

subsection \<open>Frame of the portfolio handlers\<close>

lemma portfolio_handlers_save:
  "execute_withdraw s now sender bname pct = Inr (s', r) \<Longrightarrow> \<exists>p. s' = save_portfolio sender p s"
  "execute_claim_rewards s now sender = Inr (s', r) \<Longrightarrow> \<exists>p. s' = save_portfolio sender p s"
  "execute_set_auto_compound s sender bname e = Inr (s', r) \<Longrightarrow> \<exists>p. s' = save_portfolio sender p s"
  "execute_rebalance s now sender bname = Inr (s', r) \<Longrightarrow> \<exists>p. s' = save_portfolio sender p s"
     apply (erule execute_withdraw_InrE, blast)
    apply (auto simp: execute_claim_rewards_def Let_def split: if_splits)[1]
   apply (auto simp: execute_set_auto_compound_def Let_def split: option.splits)[1]
  apply (auto simp: execute_rebalance_def Let_def split: option.splits prod.splits)
  done

lemma portfolio_handlers_frame:
  "execute_withdraw s now sender bname pct = Inr (s', r) \<Longrightarrow> baskets s' = baskets s \<and> config_item s' = config_item s"
  "execute_claim_rewards s now sender = Inr (s', r) \<Longrightarrow> baskets s' = baskets s \<and> config_item s' = config_item s"
  "execute_set_auto_compound s sender bname e = Inr (s', r) \<Longrightarrow> baskets s' = baskets s \<and> config_item s' = config_item s"
  "execute_rebalance s now sender bname = Inr (s', r) \<Longrightarrow> baskets s' = baskets s \<and> config_item s' = config_item s"
  by (auto dest!: portfolio_handlers_save)


subsection \<open>Price snapshots\<close>



end
