(* ===== verification/Governance.thy ===== *)
theory Governance
  imports Contract
begin

text \<open>
  Properties of the contract's administration and of its aggregate counters, over
  every successful call of the dispatcher and every reachable store: only the admin
  can create or update baskets or change the reward parameters; the admin, the
  reward token and \<open>total_users\<close> never change; the global TVL never decreases
  (withdrawals leave it alone, spec section 9) and always covers the sum of the baskets'
  TVLs. \<open>baskets_tvl\<close> is that sum, over the finitely many stored baskets, as a
  natural number; \<open>tvl_ok\<close> is the invariant proved by rule induction.
\<close>

definition baskets_tvl :: "store \<Rightarrow> nat" where
  "baskets_tvl s = (\<Sum>k\<in>dom (baskets s). unat (basket_tvl (the (baskets s k))))"

definition tvl_ok :: "store \<Rightarrow> bool" where
  "tvl_ok s \<longleftrightarrow> (\<exists>c. config_item s = Some c \<and> finite (dom (baskets s))
                   \<and> baskets_tvl s \<le> unat (total_value_locked c))"

section \<open>Steps of the dispatcher\<close>

lemma baskets_tvl_save:
  assumes "finite (dom (baskets s))"
  shows "baskets_tvl (s\<lparr>baskets := (baskets s)(k \<mapsto> b)\<rparr>) + (case baskets s k of None \<Rightarrow> 0 | Some b0 \<Rightarrow> unat (basket_tvl b0))
         = baskets_tvl s + unat (basket_tvl b)"
  using sum_map_update [OF assms, of "\<lambda>b. unat (basket_tvl b)" k b] by (simp add: baskets_tvl_def)

lemma tvl_ok_save_basket:
  assumes "tvl_ok s" and "baskets s k = Some b0" and "basket_tvl b = basket_tvl b0"
  shows "tvl_ok (save_basket k b s)"
  using assms baskets_tvl_save [of s k b] by (auto simp: tvl_ok_def save_basket_def)

lemma tvl_ok_create:
  assumes "tvl_ok s" and "basket_tvl b = 0"
  shows "tvl_ok (save_basket k b s)"
  using assms baskets_tvl_save [of s k b] by (auto simp: tvl_ok_def save_basket_def split: option.splits)

lemma tvl_ok_frame:
  "baskets s' = baskets s \<Longrightarrow> config_item s' = config_item s \<Longrightarrow> tvl_ok s \<Longrightarrow> tvl_ok s'"
  by (simp add: tvl_ok_def baskets_tvl_def)

lemma invest_tvl_ok:
  assumes "execute_invest s now sender bname amt auto = Inr (s', r)" and "tvl_ok s"
  shows "tvl_ok s'"
  using assms(1)
proof (rule execute_invest_InrE)
  fix b c amounts
  assume b: "baskets s bname = Some b" and c: "config_item s = Some c"
    and ovb: "unat (basket_tvl b) + unat amt < 2 ^ 128"
    and ovc: "unat (total_value_locked c) + unat amt < 2 ^ 128"
    and s': "s' = s\<lparr>portfolios := (portfolios s)(sender \<mapsto>
             (portfolio_or_new s sender now)\<lparr>
                positions := positions (portfolio_or_new s sender now) @
                  [new_position sender bname amt amounts (get_token_prices s) now auto],
                total_invested := total_invested (portfolio_or_new s sender now) + amt,
                total_current_value := total_current_value (portfolio_or_new s sender now) + amt,
                investment_history := investment_history (portfolio_or_new s sender now) @
                  [history_entry now Deposit amt bname (get_token_prices s)]\<rparr>),
            baskets := (baskets s)(bname \<mapsto> b\<lparr>basket_tvl := basket_tvl b + amt\<rparr>),
            config_item := Some (c\<lparr>total_value_locked := total_value_locked c + amt\<rparr>)\<rparr>"
  have fin: "finite (dom (baskets s))" and le: "baskets_tvl s \<le> unat (total_value_locked c)"
    using assms(2) c by (auto simp: tvl_ok_def)
  have "baskets_tvl (s\<lparr>baskets := (baskets s)(bname \<mapsto> b\<lparr>basket_tvl := basket_tvl b + amt\<rparr>)\<rparr>) + unat (basket_tvl b)
        = baskets_tvl s + (unat (basket_tvl b) + unat amt)"
    using baskets_tvl_save [OF fin, of bname "b\<lparr>basket_tvl := basket_tvl b + amt\<rparr>"] b unat_add_u128 [OF ovb]
    by simp
  then have "baskets_tvl s' = baskets_tvl s + unat amt" by (simp add: s' baskets_tvl_def)
  with le fin show "tvl_ok s'" by (simp add: s' tvl_ok_def unat_add_u128 [OF ovc])
qed

lemma execute_tvl_ok:
  assumes "execute s now sender m = Inr (s', r)" and "tvl_ok s"
  shows "tvl_ok s'"
proof (cases m)
  case (InvestMsg bname amt auto)
  then show ?thesis using assms invest_tvl_ok by simp
next
  case (CreateBasketMsg bname ts mi)
  then show ?thesis using assms by (auto elim!: create_basket_InrE intro: tvl_ok_create)
next
  case (UpdateBasketMsg bname ts mi act)
  then show ?thesis using assms by (auto elim!: update_basket_InrE intro: tvl_ok_save_basket)
next
  case (UpdateConfigMsg rt p f)
  then show ?thesis using assms
    by (auto elim!: update_config_InrE simp: tvl_ok_def baskets_tvl_def save_config_def)
next
  case (WithdrawMsg bname pct)
  then show ?thesis using assms portfolio_handlers_frame(1) tvl_ok_frame by auto
next
  case ClaimRewardsMsg
  then show ?thesis using assms portfolio_handlers_frame(2) tvl_ok_frame by auto
next
  case (SetAutoCompoundMsg bname e)
  then show ?thesis using assms portfolio_handlers_frame(3) tvl_ok_frame by auto
next
  case (RebalanceMsg bname)
  then show ?thesis using assms portfolio_handlers_frame(4) tvl_ok_frame by auto
qed

lemma execute_config_step:
  assumes "execute s now sender m = Inr (s', r)" and "config_item s = Some c"
  shows "\<exists>c'. config_item s' = Some c' \<and> admin c' = admin c \<and> reward_token c' = reward_token c
           \<and> total_users c' = total_users c \<and> unat (total_value_locked c) \<le> unat (total_value_locked c')"
proof (cases m)
  case (InvestMsg bname amt auto)
  with assms(1) have inv: "execute_invest s now sender bname amt auto = Inr (s', r)" by simp
  show ?thesis
  proof (rule execute_invest_InrE [OF inv])
    fix b c0 amounts
    assume c0: "config_item s = Some c0" and ov: "unat (total_value_locked c0) + unat amt < 2 ^ 128"
      and s': "s' = s\<lparr>portfolios := (portfolios s)(sender \<mapsto>
             (portfolio_or_new s sender now)\<lparr>
                positions := positions (portfolio_or_new s sender now) @
                  [new_position sender bname amt amounts (get_token_prices s) now auto],
                total_invested := total_invested (portfolio_or_new s sender now) + amt,
                total_current_value := total_current_value (portfolio_or_new s sender now) + amt,
                investment_history := investment_history (portfolio_or_new s sender now) @
                  [history_entry now Deposit amt bname (get_token_prices s)]\<rparr>),
            baskets := (baskets s)(bname \<mapsto> b\<lparr>basket_tvl := basket_tvl b + amt\<rparr>),
            config_item := Some (c0\<lparr>total_value_locked := total_value_locked c0 + amt\<rparr>)\<rparr>"
    have "c0 = c" using c0 assms(2) by simp
    then show ?thesis using s' unat_add_u128 [OF ov] by simp
  qed
next
  case (UpdateConfigMsg rt p f)
  then show ?thesis using assms
    by (auto simp: execute_update_config_def store_access_defs Let_def split: if_splits option.splits)
next
  case (CreateBasketMsg bname ts mi)
  then show ?thesis using assms create_basket_config by simp
next
  case (UpdateBasketMsg bname ts mi act)
  then show ?thesis using assms update_basket_config by simp
next
  case (WithdrawMsg bname pct)
  then show ?thesis using assms portfolio_handlers_frame(1) by simp
next
  case ClaimRewardsMsg
  then show ?thesis using assms portfolio_handlers_frame(2) by simp
next
  case (SetAutoCompoundMsg bname e)
  then show ?thesis using assms portfolio_handlers_frame(3) by simp
next
  case (RebalanceMsg bname)
  then show ?thesis using assms portfolio_handlers_frame(4) by simp
qed

text \<open>
  Claim C18 (error). A caller other than the stored admin cannot create a basket, update a basket or update the configuration: the first two fail with \<open>Unauthorized\<close>, the third with the generic error \<open>Unauthorized\<close>.
\<close>

theorem admin_only_operations:
  assumes "config_item s = Some c" and "sender \<noteq> admin c"
  shows "execute s now sender (CreateBasketMsg bname ts mi) = Inl Unauthorized
       \<and> execute s now sender (UpdateBasketMsg bname ts mo act) = Inl Unauthorized
       \<and> execute s now sender (UpdateConfigMsg rt p f) = Inl (GenericErr ''Unauthorized'')"
  using assms
  by (simp add: execute_create_basket_def execute_update_basket_def execute_update_config_def load_config_def)

text \<open>
  Claim C19 (safety). A successful call by anyone but the admin changes no basket definition and no configuration field other than the TVLs: every basket stored afterwards was stored before with the same name, tokens, minimum and flag, and the configuration differs at most in \<open>total_value_locked\<close>.
\<close>

theorem non_admin_preserves_definitions:
  assumes "execute s now sender m = Inr (s', r)" and "config_item s = Some c" and "sender \<noteq> admin c"
  shows "(\<exists>c'. config_item s' = Some c' \<and> c' = c\<lparr>total_value_locked := total_value_locked c'\<rparr>)
       \<and> (\<forall>k b'. baskets s' k = Some b' \<longrightarrow> (\<exists>b. baskets s k = Some b \<and> b' = b\<lparr>basket_tvl := basket_tvl b'\<rparr>))"
proof (cases m)
  case (InvestMsg bname amt auto)
  with assms(1) have inv: "execute_invest s now sender bname amt auto = Inr (s', r)" by simp
  show ?thesis
  proof (rule execute_invest_InrE [OF inv])
    fix b c0 amounts
    assume "baskets s bname = Some b" "config_item s = Some c0"
      and s': "s' = s\<lparr>portfolios := (portfolios s)(sender \<mapsto>
             (portfolio_or_new s sender now)\<lparr>
                positions := positions (portfolio_or_new s sender now) @
                  [new_position sender bname amt amounts (get_token_prices s) now auto],
                total_invested := total_invested (portfolio_or_new s sender now) + amt,
                total_current_value := total_current_value (portfolio_or_new s sender now) + amt,
                investment_history := investment_history (portfolio_or_new s sender now) @
                  [history_entry now Deposit amt bname (get_token_prices s)]\<rparr>),
            baskets := (baskets s)(bname \<mapsto> b\<lparr>basket_tvl := basket_tvl b + amt\<rparr>),
            config_item := Some (c0\<lparr>total_value_locked := total_value_locked c0 + amt\<rparr>)\<rparr>"
    then show ?thesis using assms(2) by (auto simp: s')
  qed
next
  case (CreateBasketMsg bname ts mi)
  then show ?thesis using assms by (auto elim: create_basket_InrE)
next
  case (UpdateBasketMsg bname ts mi act)
  then show ?thesis using assms by (auto elim: update_basket_InrE)
next
  case (UpdateConfigMsg rt p f)
  then show ?thesis using assms by (auto elim: update_config_InrE)
next
  case (WithdrawMsg bname pct)
  then show ?thesis using assms portfolio_handlers_frame(1) by auto
next
  case ClaimRewardsMsg
  then show ?thesis using assms portfolio_handlers_frame(2) by auto
next
  case (SetAutoCompoundMsg bname e)
  then show ?thesis using assms portfolio_handlers_frame(3) by auto
next
  case (RebalanceMsg bname)
  then show ?thesis using assms portfolio_handlers_frame(4) by auto
qed

section \<open>Reachable stores\<close>

lemma reachable_tvl_ok: "reachable s \<Longrightarrow> tvl_ok s"
proof (induction rule: reachable.induct)
  case (instantiated sender msg s r)
  then show ?case
    by (auto simp: instantiate_def save_config_def empty_store_def tvl_ok_def baskets_tvl_def)
next
  case (executed s now sender m s' r)
  then show ?case using execute_tvl_ok by blast
next
  case (price_update s feeds)
  then show ?case by (simp add: tvl_ok_def baskets_tvl_def)
qed

text \<open>
  Claim C20 (invariant). In every reachable store the configuration exists, finitely many baskets are stored, and the sum of their TVLs is at most the global TVL.
\<close>

theorem reachable_tvl_covers_baskets:
  assumes "reachable s"
  shows "\<exists>c. config_item s = Some c \<and> finite (dom (baskets s))
           \<and> (\<Sum>k\<in>dom (baskets s). unat (basket_tvl (the (baskets s k)))) \<le> unat (total_value_locked c)"
  using reachable_tvl_ok [OF assms] by (simp add: tvl_ok_def baskets_tvl_def)

text \<open>
  Claim C21 (invariant). In every reachable store the configuration exists and its
  \<open>total_users\<close> is 0: no handler ever counts a user.
\<close>

theorem reachable_total_users_zero: "reachable s \<Longrightarrow> \<exists>c. config_item s = Some c \<and> total_users c = 0"
proof (induction rule: reachable.induct)
  case (instantiated sender msg s r)
  then show ?case by (auto simp: instantiate_def save_config_def)
next
  case (executed s now sender m s' r)
  then show ?case using execute_config_step by fastforce
next
  case (price_update s feeds)
  then show ?case by simp
qed

text \<open>
  Claim C22 (safety). Along any sequence of committed calls, the admin and the reward token stay those of the starting configuration and the global TVL never decreases.
\<close>

theorem run_keeps_admin_and_tvl:
  assumes "run s calls = Inr (s', rs)" and "config_item s = Some c"
  shows "\<exists>c'. config_item s' = Some c' \<and> admin c' = admin c \<and> reward_token c' = reward_token c
           \<and> unat (total_value_locked c) \<le> unat (total_value_locked c')"
  using assms
proof (induction s calls arbitrary: c rs rule: run.induct)
  case (1 s)
  then show ?case by simp
next
  case (2 s now sender m calls)
  from "2.prems"(1) obtain s1 r1 rs1 where e: "execute s now sender m = Inr (s1, r1)"
    and rest: "run s1 calls = Inr (s', rs1)"
    by (auto split: prod.splits)
  obtain c1 where c1: "config_item s1 = Some c1" "admin c1 = admin c" "reward_token c1 = reward_token c"
    "unat (total_value_locked c) \<le> unat (total_value_locked c1)"
    using execute_config_step [OF e "2.prems"(2)] by blast
  show ?case using "2.IH" [OF rest c1(1)] c1 by auto
qed

end
