(* ===== verification/Queries.thy ===== *)
theory Queries
  imports Contract "HOL-Library.Sublist"
begin

text \<open>
  The read side of the contract: \<open>QueryMsg\<close> (\<^verbatim>\<open>msg.rs\<close> lines 60--81) and the
  query functions of \<^verbatim>\<open>contract.rs\<close> (lines 613--658). Each loads one record and
  returns it or a projection of it; a missing record is \<open>NotFound\<close>. The history
  query keeps the entries whose timestamp lies in the optional window, in stored order;
  the performance query lists \<open>(basket_name, performance)\<close> of the positions,
  optionally of one basket. The \<open>query\<close> entry point that would route a
  \<open>QueryMsg\<close> to these functions is commented out in the source, so no query is
  reachable from outside; the functions are modelled as written.
\<close>

datatype query_msg =
    GetConfig
  | GetBasket string
  | GetPortfolio string
  | GetInvestmentHistory string "u64 option" "u64 option"
  | GetPerformanceMetrics string "string option"
  | GetRewards string

definition query_config :: "store \<Rightarrow> config result" where
  "query_config s = load_config s"

definition query_basket :: "store \<Rightarrow> string \<Rightarrow> basket_config result" where
  "query_basket s bname = load_basket s bname"

definition query_portfolio :: "store \<Rightarrow> string \<Rightarrow> user_portfolio result" where
  "query_portfolio s addr = load_portfolio s addr"

definition in_window :: "u64 option \<Rightarrow> u64 option \<Rightarrow> investment_history \<Rightarrow> bool" where
  "in_window from_ts to_ts h \<longleftrightarrow>
     (case from_ts of None \<Rightarrow> True | Some f \<Rightarrow> f \<le> timestamp h)
     \<and> (case to_ts of None \<Rightarrow> True | Some t \<Rightarrow> timestamp h \<le> t)"

definition query_investment_history ::
  "store \<Rightarrow> string \<Rightarrow> u64 option \<Rightarrow> u64 option \<Rightarrow> investment_history list result" where
  "query_investment_history s addr from_ts to_ts =
     rbind (load_portfolio s addr) (\<lambda>portfolio.
       Inr (filter (in_window from_ts to_ts) (investment_history portfolio)))"

definition query_performance_metrics ::
  "store \<Rightarrow> string \<Rightarrow> string option \<Rightarrow> (string \<times> int) list result" where
  "query_performance_metrics s addr bname =
     rbind (load_portfolio s addr) (\<lambda>portfolio.
       Inr (map (\<lambda>p. (basket_name p, performance p))
              (filter (\<lambda>p. case bname of None \<Rightarrow> True | Some b \<Rightarrow> basket_name p = b) (positions portfolio))))"




text \<open>
  Claim C28 (functional). After a successful investment at time \<open>now\<close>, the history
  query for the window \<open>[now, now]\<close> ends with the deposit just made, and the
  performance query for the basket ends with the new position at performance 0.
\<close>

theorem invest_visible_in_queries:
  assumes "execute_invest s now sender bname amt auto = Inr (s', r)"
  shows "\<exists>hs ms. query_investment_history s' sender (Some now) (Some now) =
                  Inr (hs @ [history_entry now Deposit amt bname (get_token_prices s)])
        \<and> query_performance_metrics s' sender (Some bname) = Inr (ms @ [(bname, 0)])"
  using assms(1)
proof (rule execute_invest_InrE)
  fix b c amounts
  assume s': "s' = s\<lparr>portfolios := (portfolios s)(sender \<mapsto>
             (portfolio_or_new s sender now)\<lparr>
                positions := positions (portfolio_or_new s sender now) @
                  [new_position sender bname amt amounts (get_token_prices s) now auto],
                total_invested := total_invested (portfolio_or_new s sender now) + amt,
                total_current_value := total_current_value (portfolio_or_new s sender now) + amt,
                investment_history := investment_history (portfolio_or_new s sender now) @
                  [history_entry now Deposit amt bname (get_token_prices s)]\<rparr>),
            baskets := (baskets s)(bname \<mapsto> b\<lparr>basket_tvl := basket_tvl b + amt\<rparr>),
            config_item := Some (c\<lparr>total_value_locked := total_value_locked c + amt\<rparr>)\<rparr>"
  show ?thesis
    by (simp add: s' query_investment_history_def query_performance_metrics_def in_window_def
                  history_entry_def new_position_def)
qed


end
