(* ===== verification/LedgerSpec.thy ===== *)
theory LedgerSpec
  imports Contract
begin

text \<open>
  An abstract specification of the portfolio ledger (specification section 4.3): per
  user, the amount invested and the current value, as natural numbers. A deposit
  raises both by the amount; a withdrawal lowers the current value by at most its
  value and leaves the invested amount alone; nothing else changes them.
  \<open>ledger_view\<close> reads this view off a store (a user without portfolio holds
  nothing). The refinement lemmas show that every committed call of the dispatcher is
  one abstract step; an invariant of the abstract ledger, that no user's current value
  exceeds what they invested, then holds in every reachable store.
\<close>

type_synonym ledger = "string \<Rightarrow> nat \<times> nat"

inductive ledger_step :: "ledger \<Rightarrow> ledger \<Rightarrow> bool" where
  deposit: "ledger_step v (v(u := (fst (v u) + a, snd (v u) + a)))"
| withdraw: "w \<le> snd (v u) \<Longrightarrow> ledger_step v (v(u := (fst (v u), snd (v u) - w)))"
| stutter: "ledger_step v v"

definition ledger_view :: "store \<Rightarrow> ledger" where
  "ledger_view s u = (case portfolios s u of None \<Rightarrow> (0, 0)
                       | Some p \<Rightarrow> (unat (total_invested p), unat (total_current_value p)))"

definition ledger_ok :: "ledger \<Rightarrow> bool" where
  "ledger_ok v \<longleftrightarrow> (\<forall>u. snd (v u) \<le> fst (v u))"

lemma ledger_step_ok: "ledger_step v v' \<Longrightarrow> ledger_ok v \<Longrightarrow> ledger_ok v'"
proof (induction rule: ledger_step.induct)
  case (withdraw w v u)
  then show ?case by (auto simp: ledger_ok_def intro: le_trans [OF diff_le_self])
qed (auto simp: ledger_ok_def)

lemma ledger_view_save:
  "ledger_view (save_portfolio u p s) = (ledger_view s)(u := (unat (total_invested p), unat (total_current_value p)))"
  by (auto simp: ledger_view_def save_portfolio_def)

lemma ledger_view_portfolios_eq: "portfolios s' = portfolios s \<Longrightarrow> ledger_view s' = ledger_view s"
  by (rule ext) (simp add: ledger_view_def)

lemma ledger_step_same:
  assumes "portfolios s u = Some p" and "total_invested p' = total_invested p"
    and "total_current_value p' = total_current_value p"
  shows "ledger_step (ledger_view s) (ledger_view (save_portfolio u p' s))"
proof -
  have "ledger_view (save_portfolio u p' s) = ledger_view s"
    using assms by (auto simp: ledger_view_save ledger_view_def)
  then show ?thesis by (simp add: ledger_step.stutter)
qed

lemma ledger_view_portfolio_or_new:
  "ledger_view s u = (unat (total_invested (portfolio_or_new s u now)), unat (total_current_value (portfolio_or_new s u now)))"
  by (simp add: ledger_view_def portfolio_or_new_def empty_portfolio_def split: option.splits)

lemma invest_ledger_step:
  assumes "execute_invest s now sender bname amt auto = Inr (s', r)"
  shows "ledger_step (ledger_view s) (ledger_view s')"
  using assms
proof (rule execute_invest_InrE)
  fix b c amounts
  define p where "p = portfolio_or_new s sender now"
  assume oi: "unat (total_invested (portfolio_or_new s sender now)) + unat amt < 2 ^ 128"
    and ov: "unat (total_current_value (portfolio_or_new s sender now)) + unat amt < 2 ^ 128"
    and s': "s' = s\<lparr>portfolios := (portfolios s)(sender \<mapsto>
             (portfolio_or_new s sender now)\<lparr>
                positions := positions (portfolio_or_new s sender now) @
                  [new_position sender bname amt amounts (get_token_prices s) now auto],
                total_invested := total_invested (portfolio_or_new s sender now) + amt,
                total_current_value := total_current_value (portfolio_or_new s sender now) + amt,
                investment_history := investment_history (portfolio_or_new s sender now) @
                  [history_entry now Deposit amt bname (get_token_prices s)]\<rparr>),
            baskets := (baskets s)(bname \<mapsto> b\<lparr>basket_tvl := basket_tvl b + amt\<rparr>),
            config_item := Some (c\<lparr>total_value_locked := total_value_locked c + amt\<rparr>)\<rparr>"
  have v: "ledger_view s sender = (unat (total_invested p), unat (total_current_value p))"
    unfolding p_def by (rule ledger_view_portfolio_or_new)
  have "ledger_view s' = (ledger_view s)(sender := (unat (total_invested p) + unat amt,
                                                   unat (total_current_value p) + unat amt))"
    using oi ov by (auto simp: s' p_def ledger_view_def unat_add_u128)
  then show "ledger_step (ledger_view s) (ledger_view s')"
    using ledger_step.deposit [of "ledger_view s" sender "unat amt"] v by simp
qed

lemma withdraw_ledger_step:
  assumes "execute_withdraw s now sender bname pct = Inr (s', r)"
  shows "ledger_step (ledger_view s) (ledger_view s')"
  using assms
proof (rule execute_withdraw_InrE)
  fix p :: user_portfolio and idx msgs
  define w :: uint128 where "w = of_nat (unat (current_value (positions p ! idx)) * unat pct div 100)"
  assume p: "portfolios s sender = Some p"
    and le: "of_nat (unat (current_value (positions p ! idx)) * unat pct div 100) \<le> total_current_value p"
    and s': "s' = save_portfolio sender
           (p\<lparr>positions :=
                (let w = of_nat (unat (current_value (positions p ! idx)) * unat pct div 100);
                     ps = (positions p)[idx := (positions p ! idx)\<lparr>current_value := current_value (positions p ! idx) - w\<rparr>]
                 in if pct = 100 then vec_remove idx ps else ps),
              total_current_value := total_current_value p - of_nat (unat (current_value (positions p ! idx)) * unat pct div 100),
              investment_history := investment_history p @
                [history_entry now Withdraw (of_nat (unat (current_value (positions p ! idx)) * unat pct div 100)) bname (get_token_prices s)]\<rparr>) s"
  have wle: "unat w \<le> unat (total_current_value p)" using le by (simp add: w_def word_le_nat_alt)
  have "ledger_view s' = (ledger_view s)(sender := (fst (ledger_view s sender), snd (ledger_view s sender) - unat w))"
    using le p by (simp add: s' ledger_view_save ledger_view_def w_def unat_sub)
  moreover have "unat w \<le> snd (ledger_view s sender)" using wle p by (simp add: ledger_view_def)
  ultimately show "ledger_step (ledger_view s) (ledger_view s')"
    using ledger_step.withdraw [of "unat w" "ledger_view s" sender] by simp
qed


lemma claim_ledger_step:
  assumes "execute_claim_rewards s now sender = Inr (s', r)"
  shows "ledger_step (ledger_view s) (ledger_view s')"
proof -
  from assms obtain p earned where p: "portfolios s sender = Some p"
    and s': "s' = save_portfolio sender (p\<lparr>rewards_earned := earned, last_claim := now\<rparr>) s"
    by (auto simp: execute_claim_rewards_def Let_def create_reward_transfer_msg_def split: if_splits)
  show ?thesis unfolding s' by (rule ledger_step_same [OF p]) simp_all
qed

lemma set_auto_compound_ledger_step:
  assumes "execute_set_auto_compound s sender bname e = Inr (s', r)"
  shows "ledger_step (ledger_view s) (ledger_view s')"
proof -
  from assms obtain p ps where p: "portfolios s sender = Some p"
    and s': "s' = save_portfolio sender (p\<lparr>positions := ps\<rparr>) s"
    by (auto simp: execute_set_auto_compound_def Let_def split: option.splits)
  show ?thesis unfolding s' by (rule ledger_step_same [OF p]) simp_all
qed

lemma rebalance_ledger_step:
  assumes "execute_rebalance s now sender bname = Inr (s', r)"
  shows "ledger_step (ledger_view s) (ledger_view s')"
  using assms
proof (rule execute_rebalance_InrE)
  fix p :: user_portfolio and idx target
  assume p: "portfolios s sender = Some p"
    and s': "s' = save_portfolio sender (p\<lparr>positions := (positions p)[idx :=
                   (positions p ! idx)\<lparr>token_amounts := target, last_updated := now\<rparr>],
                 investment_history := investment_history p @
                   [history_entry now Rebalance (current_value (positions p ! idx)) bname (get_token_prices s)]\<rparr>) s"
  show ?thesis unfolding s' by (rule ledger_step_same [OF p]) simp_all
qed

lemma execute_ledger_step:
  assumes "execute s now sender m = Inr (s', r)"
  shows "ledger_step (ledger_view s) (ledger_view s')"
proof (cases m)
  case (CreateBasketMsg bname ts mi)
  with assms have "execute_create_basket s sender bname ts mi = Inr (s', r)" by simp
  then have "ledger_view s' = ledger_view s" by (rule ledger_view_portfolios_eq [OF create_basket_portfolios])
  then show ?thesis using ledger_step.stutter by metis
next
  case (UpdateBasketMsg bname ts mi act)
  with assms have "execute_update_basket s sender bname ts mi act = Inr (s', r)" by simp
  then have "ledger_view s' = ledger_view s" by (rule ledger_view_portfolios_eq [OF update_basket_portfolios])
  then show ?thesis using ledger_step.stutter by metis
next
  case (UpdateConfigMsg rt p f)
  with assms have "execute_update_config s sender rt p f = Inr (s', r)" by simp
  then have "ledger_view s' = ledger_view s" by (rule ledger_view_portfolios_eq [OF update_config_portfolios])
  then show ?thesis using ledger_step.stutter by metis
next
  case (InvestMsg bname amt auto)
  with assms have "execute_invest s now sender bname amt auto = Inr (s', r)" by simp
  then show ?thesis by (rule invest_ledger_step)
next
  case (WithdrawMsg bname pct)
  with assms have "execute_withdraw s now sender bname pct = Inr (s', r)" by simp
  then show ?thesis by (rule withdraw_ledger_step)
next
  case ClaimRewardsMsg
  with assms have "execute_claim_rewards s now sender = Inr (s', r)" by simp
  then show ?thesis by (rule claim_ledger_step)
next
  case (SetAutoCompoundMsg bname e)
  with assms have "execute_set_auto_compound s sender bname e = Inr (s', r)" by simp
  then show ?thesis by (rule set_auto_compound_ledger_step)
next
  case (RebalanceMsg bname)
  with assms have "execute_rebalance s now sender bname = Inr (s', r)" by simp
  then show ?thesis by (rule rebalance_ledger_step)
qed

text \<open>
  Claim C30 (refinement). Every sequence of committed calls is simulated by a sequence
  of abstract ledger steps: the view of the final store is reached from the view of the
  first by deposits, withdrawals of at most the current value, and stuttering.
\<close>

theorem run_refines_ledger:
  "run s calls = Inr (s', rs) \<Longrightarrow> ledger_step\<^sup>*\<^sup>* (ledger_view s) (ledger_view s')"
proof (induction s calls arbitrary: rs rule: run.induct)
  case (1 s)
  then show ?case by simp
next
  case (2 s now sender m calls)
  from "2.prems" obtain s1 r1 rs1 where e: "execute s now sender m = Inr (s1, r1)"
    and rest: "run s1 calls = Inr (s', rs1)"
    by (auto split: prod.splits)
  show ?case using execute_ledger_step [OF e] "2.IH" [OF rest] by (rule converse_rtranclp_into_rtranclp)
qed

lemma reachable_ledger_ok: "reachable s \<Longrightarrow> ledger_ok (ledger_view s)"
proof (induction rule: reachable.induct)
  case (instantiated sender msg s r)
  then have "portfolios s = Map.empty" by (simp add: instantiate_portfolios empty_store_def)
  then show ?case by (simp add: ledger_ok_def ledger_view_def)
next
  case (executed s now sender m s' r)
  then show ?case using execute_ledger_step ledger_step_ok by blast
next
  case (price_update s feeds)
  then show ?case by (simp add: ledger_view_def)
qed

text \<open>
  Claim C31 (invariant, transferred from the abstract ledger). In every reachable
  store no portfolio is worth more than was invested in it.
\<close>

theorem reachable_value_le_invested:
  assumes "reachable s" and "portfolios s u = Some p"
  shows "total_current_value p \<le> total_invested p"
  using reachable_ledger_ok [OF assms(1)] assms(2)
  by (auto simp: ledger_ok_def ledger_view_def word_le_nat_alt dest: spec [of _ u])

end
