(* ===== verification/Counter.thy ===== *)
theory Counter
  imports Store
begin

text \<open>
  The counter left over from the CosmWasm project template: the \<open>State\<close> item
  (\<^verbatim>\<open>state.rs\<close> lines 9--15) with an \<open>i32\<close> count and an owner, the handlers
  \<open>execute::increment\<close> and \<open>execute::reset\<close> and the query \<open>query::count\<close>
  (\<^verbatim>\<open>contract.rs\<close> lines 261--299), and \<open>GetCountResponse\<close> (\<^verbatim>\<open>msg.rs\<close>
  lines 83--87). No entry point dispatches to them. \<open>Item::update\<close> loads the
  item (\<open>NotFound\<close> when absent), applies the closure and saves its result; an error
  of the closure aborts the update. The count is a 32-bit word read as signed
  (\<open>sint\<close>); \<open>+= 1\<close> panics at \<open>i32::MAX\<close>, the build checking overflow.
\<close>

record counter_state =
  state_count :: "32 word"
  state_owner :: string

record get_count_response =
  resp_count :: "32 word"

definition state_update ::
  "counter_state option \<Rightarrow> (counter_state \<Rightarrow> counter_state result) \<Rightarrow> counter_state option result" where
  "state_update item f =
     (case item of None \<Rightarrow> Inl (NotFound ''state'')
      | Some st \<Rightarrow> rbind (f st) (\<lambda>st'. Inr (Some st')))"

definition i32_add_checked :: "32 word \<Rightarrow> 32 word \<Rightarrow> 32 word result" where
  "i32_add_checked a b =
     (if - (2 ^ 31) \<le> sint a + sint b \<and> sint a + sint b < 2 ^ 31 then Inr (a + b)
      else Inl (Panic ''attempt to add with overflow''))"

definition counter_increment :: "counter_state option \<Rightarrow> (counter_state option \<times> response) result" where
  "counter_increment item =
     rbind (state_update item (\<lambda>st. rbind (i32_add_checked (state_count st) 1)
                                       (\<lambda>c. Inr (st\<lparr>state_count := c\<rparr>)))) (\<lambda>item'.
     Inr (item', add_attribute ''action'' ''increment'' response_new))"

definition counter_reset ::
  "counter_state option \<Rightarrow> string \<Rightarrow> 32 word \<Rightarrow> (counter_state option \<times> response) result" where
  "counter_reset item sender c =
     rbind (state_update item (\<lambda>st. if sender \<noteq> state_owner st then Inl Unauthorized
                                   else Inr (st\<lparr>state_count := c\<rparr>))) (\<lambda>item'.
     Inr (item', add_attribute ''action'' ''reset'' response_new))"

definition query_count :: "counter_state option \<Rightarrow> get_count_response result" where
  "query_count item =
     (case item of None \<Rightarrow> Inl (NotFound ''state'') | Some st \<Rightarrow> Inr \<lparr>resp_count = state_count st\<rparr>)"

lemma i32_add_checked_sint:
  "i32_add_checked a b = Inr c \<Longrightarrow> sint c = sint a + sint b"
  by (auto simp: i32_add_checked_def sint_word_ariths signed_take_bit_int_eq_self split: if_splits)

lemma i32_add_one:
  "i32_add_checked a 1 =
     (if sint a = 2 ^ 31 - 1 then Inl (Panic ''attempt to add with overflow'') else Inr (a + 1))"
  using sint_ge [of a] sint_lt [of a] by (auto simp: i32_add_checked_def)

text \<open>
  Claim C33 (bounds). Incrementing a stored counter panics exactly at \<open>i32::MAX\<close>;
  otherwise it stores the count plus one, which read as a signed number is one more,
  and keeps the owner.
\<close>

theorem counter_increment_result:
  "counter_increment (Some st) =
     (if sint (state_count st) = 2 ^ 31 - 1 then Inl (Panic ''attempt to add with overflow'')
      else Inr (Some (st\<lparr>state_count := state_count st + 1\<rparr>),
                add_attribute ''action'' ''increment'' response_new))
   \<and> (\<forall>st' r. counter_increment (Some st) = Inr (Some st', r) \<longrightarrow>
        sint (state_count st') = sint (state_count st) + 1 \<and> state_owner st' = state_owner st)"
proof -
  have r: "counter_increment (Some st) =
     (if sint (state_count st) = 2 ^ 31 - 1 then Inl (Panic ''attempt to add with overflow'')
      else Inr (Some (st\<lparr>state_count := state_count st + 1\<rparr>),
                add_attribute ''action'' ''increment'' response_new))"
    by (simp add: counter_increment_def state_update_def i32_add_one)
  have "sint (state_count st) \<noteq> 2 ^ 31 - 1 \<Longrightarrow> sint (state_count st + 1) = sint (state_count st) + 1"
    using i32_add_checked_sint [of "state_count st" 1 "state_count st + 1"] by (simp add: i32_add_one)
  with r show ?thesis by auto
qed

text \<open>
  Claim C34 (error). Only the owner can reset the counter: anyone else gets
  \<open>Unauthorized\<close> and nothing is saved; the owner's reset stores the new count,
  which the count query then answers.
\<close>

theorem counter_reset_owner_only:
  "(sender \<noteq> state_owner st \<longrightarrow> counter_reset (Some st) sender c = Inl Unauthorized)
   \<and> (sender = state_owner st \<longrightarrow>
        (\<exists>r. counter_reset (Some st) sender c = Inr (Some (st\<lparr>state_count := c\<rparr>), r))
        \<and> query_count (Some (st\<lparr>state_count := c\<rparr>)) = Inr \<lparr>resp_count = c\<rparr>)"
  by (simp add: counter_reset_def state_update_def query_count_def)

theorem counter_increment_result_witness:
  "counter_increment (Some \<lparr>state_count = 41, state_owner = ''admin''\<rparr>) =
     Inr (Some \<lparr>state_count = 42, state_owner = ''admin''\<rparr>, add_attribute ''action'' ''increment'' response_new)
   \<and> counter_increment (Some \<lparr>state_count = 2147483647, state_owner = ''admin''\<rparr>) =
     Inl (Panic ''attempt to add with overflow'')"
  using counter_increment_result [of "\<lparr>state_count = 41, state_owner = ''admin''\<rparr>"]
        counter_increment_result [of "\<lparr>state_count = 2147483647, state_owner = ''admin''\<rparr>"]
  by simp

theorem counter_reset_owner_only_witness:
  "counter_reset (Some \<lparr>state_count = 41, state_owner = ''admin''\<rparr>) ''bob'' 0 = Inl Unauthorized
   \<and> query_count (Some \<lparr>state_count = 0, state_owner = ''admin''\<rparr>) = Inr \<lparr>resp_count = 0\<rparr>"
  using counter_reset_owner_only [of "''bob''" "\<lparr>state_count = 41, state_owner = ''admin''\<rparr>" 0]
        counter_reset_owner_only [of "''admin''" "\<lparr>state_count = 41, state_owner = ''admin''\<rparr>" 0]
  by simp

end
