(* ===== verification/StoreWf.thy ===== *)
theory StoreWf
  imports Contract
begin

text \<open>
  The well-formedness of the store, the typing discipline the code keeps but storage
  does not enforce: \<open>BASKETS\<close> maps a name to a basket of that name, and
  \<open>PORTFOLIOS\<close> maps an address to a portfolio whose positions are that address's
  (\<open>InvestmentPosition::user\<close>) and hold each token under one key
  (\<open>token_amounts\<close> is a \<open>HashMap\<close>). Each handler preserves it; rule induction over
  \<open>reachable\<close> gives it for every reachable store.
\<close>

definition position_ok :: "string \<Rightarrow> investment_position \<Rightarrow> bool" where
  "position_ok u q \<longleftrightarrow> user q = u \<and> distinct (map fst (token_amounts q))"

definition store_wf :: "store \<Rightarrow> bool" where
  "store_wf s \<longleftrightarrow> (\<forall>k b. baskets s k = Some b \<longrightarrow> name b = k)
                 \<and> (\<forall>u p. portfolios s u = Some p \<longrightarrow> list_all (position_ok u) (positions p))"

section \<open>Preservation by the handlers\<close>

lemma store_wf_save_portfolio:
  "store_wf s \<Longrightarrow> list_all (position_ok u) (positions p) \<Longrightarrow> store_wf (save_portfolio u p s)"
  by (simp add: store_wf_def save_portfolio_def)

lemma store_wf_save_basket:
  "store_wf s \<Longrightarrow> name b = k \<Longrightarrow> store_wf (save_basket k b s)"
  by (simp add: store_wf_def save_basket_def)

lemma store_wf_owner:
  "store_wf s \<Longrightarrow> portfolios s u = Some p \<Longrightarrow> list_all (position_ok u) (positions p)"
  by (simp add: store_wf_def)

lemma store_wf_update_position:
  assumes "store_wf s" and "portfolios s u = Some p" and "user x = user (positions p ! i)"
    and "distinct (map fst (token_amounts (positions p ! i))) \<Longrightarrow> distinct (map fst (token_amounts x))"
    and "i < length (positions p)"
  shows "list_all (position_ok u) ((positions p)[i := x])"
proof -
  have all: "list_all (position_ok u) (positions p)" using store_wf_owner [OF assms(1,2)] .
  then have "position_ok u (positions p ! i)" using assms(5) by (simp add: list_all_length)
  with assms(3,4) have "position_ok u x" by (simp add: position_ok_def)
  with all show ?thesis by (simp add: list_all_update)
qed

lemma invest_store_wf:
  assumes "execute_invest s now sender bname amt auto = Inr (s', r)" and "store_wf s"
  shows "store_wf s'"
  using assms(1)
proof (rule execute_invest_InrE)
  fix b c amounts
  assume b: "baskets s bname = Some b"
    and am: "calculate_token_amounts (tokens b) amt (get_token_prices s) = Inr amounts"
    and s': "s' = s\<lparr>portfolios := (portfolios s)(sender \<mapsto>
             (portfolio_or_new s sender now)\<lparr>
                positions := positions (portfolio_or_new s sender now) @
                  [new_position sender bname amt amounts (get_token_prices s) now auto],
                total_invested := total_invested (portfolio_or_new s sender now) + amt,
                total_current_value := total_current_value (portfolio_or_new s sender now) + amt,
                investment_history := investment_history (portfolio_or_new s sender now) @
                  [history_entry now Deposit amt bname (get_token_prices s)]\<rparr>),
            baskets := (baskets s)(bname \<mapsto> b\<lparr>basket_tvl := basket_tvl b + amt\<rparr>),
            config_item := Some (c\<lparr>total_value_locked := total_value_locked c + amt\<rparr>)\<rparr>"
  have old: "list_all (position_ok sender) (positions (portfolio_or_new s sender now))"
    using assms(2) by (auto simp: portfolio_or_new_def empty_portfolio_def store_wf_def split: option.splits)
  have new: "position_ok sender (new_position sender bname amt amounts (get_token_prices s) now auto)"
    using calculate_token_amounts_distinct [OF am] by (simp add: position_ok_def new_position_def)
  have "name b = bname" using assms(2) b by (simp add: store_wf_def)
  with old new assms(2) show "store_wf s'"
    by (simp add: s' store_wf_def)
qed

lemma withdraw_store_wf:
  assumes "execute_withdraw s now sender bname pct = Inr (s', r)" and "store_wf s"
  shows "store_wf s'"
  using assms(1)
proof (rule execute_withdraw_InrE)
  fix p :: user_portfolio and idx msgs
  assume p: "portfolios s sender = Some p"
    and idx: "position_of (\<lambda>q. basket_name q = bname) (positions p) = Some idx"
    and s': "s' = save_portfolio sender
           (p\<lparr>positions :=
                (let w = of_nat (unat (current_value (positions p ! idx)) * unat pct div 100);
                     ps = (positions p)[idx := (positions p ! idx)\<lparr>current_value := current_value (positions p ! idx) - w\<rparr>]
                 in if pct = 100 then vec_remove idx ps else ps),
              total_current_value := total_current_value p - of_nat (unat (current_value (positions p ! idx)) * unat pct div 100),
              investment_history := investment_history p @
                [history_entry now Withdraw (of_nat (unat (current_value (positions p ! idx)) * unat pct div 100)) bname (get_token_prices s)]\<rparr>) s"
  have len: "idx < length (positions p)" using position_of_Some [OF idx] by blast
  define ps where "ps = (positions p)[idx := (positions p ! idx)\<lparr>current_value :=
                    current_value (positions p ! idx) - of_nat (unat (current_value (positions p ! idx)) * unat pct div 100)\<rparr>]"
  have "list_all (position_ok sender) ps"
    unfolding ps_def by (rule store_wf_update_position [OF assms(2) p _ _ len]) simp_all
  then have all: "list_all (position_ok sender) (if pct = 100 then vec_remove idx ps else ps)"
    by (simp add: list_all_vec_remove)
  show "store_wf s'"
    unfolding s' Let_def ps_def [symmetric]
    by (rule store_wf_save_portfolio [OF assms(2)]) (simp add: all del: list_all_iff)
qed

lemma claim_store_wf:
  assumes "execute_claim_rewards s now sender = Inr (s', r)" and "store_wf s"
  shows "store_wf s'"
proof -
  from assms(1) obtain p earned where p: "portfolios s sender = Some p"
    and s': "s' = save_portfolio sender (p\<lparr>rewards_earned := earned, last_claim := now\<rparr>) s"
    by (auto simp: execute_claim_rewards_def Let_def create_reward_transfer_msg_def split: if_splits)
  show ?thesis unfolding s'
    by (rule store_wf_save_portfolio [OF assms(2)]) (simp add: store_wf_owner [OF assms(2) p] del: list_all_iff)
qed

lemma set_auto_compound_store_wf:
  assumes "execute_set_auto_compound s sender bname e = Inr (s', r)" and "store_wf s"
  shows "store_wf s'"
proof -
  from assms(1) obtain p idx where p: "portfolios s sender = Some p"
    and idx: "position_of (\<lambda>q. basket_name q = bname) (positions p) = Some idx"
    and s': "s' = save_portfolio sender (p\<lparr>positions := (positions p)[idx :=
                   (positions p ! idx)\<lparr>auto_compound := e\<rparr>]\<rparr>) s"
    by (auto simp: execute_set_auto_compound_def Let_def split: option.splits)
  have len: "idx < length (positions p)" using position_of_Some [OF idx] by blast
  have l: "list_all (position_ok sender) ((positions p)[idx := (positions p ! idx)\<lparr>auto_compound := e\<rparr>])"
    by (rule store_wf_update_position [OF assms(2) p _ _ len]) simp_all
  show ?thesis unfolding s'
    by (rule store_wf_save_portfolio [OF assms(2)]) (simp add: l del: list_all_iff)
qed

lemma rebalance_store_wf:
  assumes "execute_rebalance s now sender bname = Inr (s', r)" and "store_wf s"
  shows "store_wf s'"
  using assms(1)
proof (rule execute_rebalance_InrE)
  fix p :: user_portfolio and idx target
  assume p: "portfolios s sender = Some p"
    and idx: "position_of (\<lambda>q. basket_name q = bname) (positions p) = Some idx"
    and s': "s' = save_portfolio sender (p\<lparr>positions := (positions p)[idx :=
                   (positions p ! idx)\<lparr>token_amounts := target, last_updated := now\<rparr>],
                 investment_history := investment_history p @
                   [history_entry now Rebalance (current_value (positions p ! idx)) bname (get_token_prices s)]\<rparr>) s"
    and tg: "\<exists>b. baskets s bname = Some b
        \<and> calculate_token_amounts (tokens b) (current_value (positions p ! idx)) (get_token_prices s) = Inr target"
  have len: "idx < length (positions p)" using position_of_Some [OF idx] by blast
  obtain b :: basket_config where "calculate_token_amounts (tokens b) (current_value (positions p ! idx)) (get_token_prices s) = Inr target"
    using tg by blast
  then have "distinct (map fst target)" by (rule calculate_token_amounts_distinct)
  then have l: "list_all (position_ok sender)
      ((positions p)[idx := (positions p ! idx)\<lparr>token_amounts := target, last_updated := now\<rparr>])"
    by (intro store_wf_update_position [OF assms(2) p _ _ len]) simp_all
  show ?thesis unfolding s'
    by (rule store_wf_save_portfolio [OF assms(2)]) (simp add: l del: list_all_iff)
qed

lemma execute_store_wf:
  assumes "execute s now sender m = Inr (s', r)" and "store_wf s"
  shows "store_wf s'"
proof (cases m)
  case (CreateBasketMsg bname ts mi)
  with assms(1) have "execute_create_basket s sender bname ts mi = Inr (s', r)" by simp
  then show ?thesis
  proof (rule create_basket_InrE)
    show "s' = save_basket bname \<lparr>name = bname, tokens = ts, min_investment = mi, basket_tvl = 0, active = True\<rparr> s
          \<Longrightarrow> store_wf s'"
      using assms(2) by (simp add: store_wf_save_basket)
  qed
next
  case (UpdateBasketMsg bname ts mi act)
  with assms(1) have "execute_update_basket s sender bname ts mi act = Inr (s', r)" by simp
  then show ?thesis
  proof (rule update_basket_InrE)
    fix c b
    assume b: "baskets s bname = Some b"
      and s': "s' = save_basket bname (b\<lparr>tokens := ts, min_investment := (case mi of None \<Rightarrow> min_investment b | Some v \<Rightarrow> v),
                                  active := act\<rparr>) s"
    have "name b = bname" using assms(2) b by (simp add: store_wf_def)
    then show "store_wf s'" unfolding s' by (intro store_wf_save_basket [OF assms(2)]) simp
  qed
next
  case (UpdateConfigMsg rt p f)
  with assms(1) have "execute_update_config s sender rt p f = Inr (s', r)" by simp
  then have "portfolios s' = portfolios s \<and> baskets s' = baskets s"
    by (rule update_config_InrE) (simp add: save_config_def)
  with assms(2) show ?thesis by (simp add: store_wf_def)
next
  case (InvestMsg bname amt auto)
  with assms(1) have "execute_invest s now sender bname amt auto = Inr (s', r)" by simp
  then show ?thesis using assms(2) by (rule invest_store_wf)
next
  case (WithdrawMsg bname pct)
  with assms(1) have "execute_withdraw s now sender bname pct = Inr (s', r)" by simp
  then show ?thesis using assms(2) by (rule withdraw_store_wf)
next
  case ClaimRewardsMsg
  with assms(1) have "execute_claim_rewards s now sender = Inr (s', r)" by simp
  then show ?thesis using assms(2) by (rule claim_store_wf)
next
  case (SetAutoCompoundMsg bname e)
  with assms(1) have "execute_set_auto_compound s sender bname e = Inr (s', r)" by simp
  then show ?thesis using assms(2) by (rule set_auto_compound_store_wf)
next
  case (RebalanceMsg bname)
  with assms(1) have "execute_rebalance s now sender bname = Inr (s', r)" by simp
  then show ?thesis using assms(2) by (rule rebalance_store_wf)
qed

lemma reachable_store_wf_inv: "reachable s \<Longrightarrow> store_wf s"
proof (induction rule: reachable.induct)
  case (instantiated sender msg s r)
  then show ?case by (auto simp: instantiate_def save_config_def empty_store_def store_wf_def)
next
  case (executed s now sender m s' r)
  then show ?case by (blast intro: execute_store_wf)
next
  case (price_update s feeds)
  then show ?case by (simp add: store_wf_def)
qed

text \<open>
  Claim C35 (type). Every reachable store is well formed: each basket is stored under
  its own name, and every position of a portfolio belongs to the portfolio's owner and
  holds each token under one key only.
\<close>

theorem reachable_store_wf:
  assumes "reachable s"
  shows "(\<forall>k b. baskets s k = Some b \<longrightarrow> name b = k)
       \<and> (\<forall>u p. portfolios s u = Some p \<longrightarrow>
            list_all (\<lambda>q. user q = u \<and> distinct (map fst (token_amounts q))) (positions p))"
  using reachable_store_wf_inv [OF assms] by (simp add: store_wf_def position_ok_def [abs_def])

end
