(* ===== verification/Positions.thy ===== *)
theory Positions
  imports StoreWf
begin

text \<open>
  The two handlers that change one position in place: \<open>execute_rebalance\<close> and
  \<open>execute_set_auto_compound\<close> (\<^verbatim>\<open>contract.rs\<close> lines 489--542, modelled in
  \<open>Ledger\<close>). \<open>held m k\<close> is the amount of token \<open>k\<close> a token-amount map
  holds (0 when absent); \<open>transfer_total k ms\<close> is the signed amount of \<open>k\<close> that
  the rebalance transfers of a response move. The rebalance transfers are the deltas
  of specification section 4.2 (\<open>generate_rebalance_messages\<close> is not defined in the
  repository); the lemmas show that they move the old holdings exactly onto the new
  ones, and that a second rebalance moves nothing.
\<close>

definition held :: "uint128 hashmap \<Rightarrow> string \<Rightarrow> int" where
  "held m k = (case map_of m k of None \<Rightarrow> 0 | Some v \<Rightarrow> int (unat v))"

definition transfer_total :: "string \<Rightarrow> cosmos_msg list \<Rightarrow> int" where
  "transfer_total k ms =
     sum_list (map (\<lambda>m. case m of RebalanceTransfer k' d \<Rightarrow> if k' = k then d else 0 | _ \<Rightarrow> 0) ms)"

lemma transfer_total_deltas:
  "transfer_total k (map (\<lambda>(k', d). RebalanceTransfer k' d) ds) =
   sum_list (map (\<lambda>(k', d). if k' = k then d else 0) ds)"
  by (induction ds) (auto simp: transfer_total_def)

lemma map_of_filter_none:
  "map_of (filter (\<lambda>(k', c). map_of t k' = None) xs) k = (if map_of t k = None then map_of xs k else None)"
  by (induction xs) auto

lemma rebalance_deltas_conserve:
  assumes "distinct (map fst cur)" and "distinct (map fst tgt)"
  shows "held cur k + transfer_total k (map (\<lambda>(k', d). RebalanceTransfer k' d) (rebalance_deltas cur tgt))
         = held tgt k"
proof -
  define A where "A = sum_list (map (\<lambda>(k', v). if k' = k
      then int (unat v) - int (case map_of cur k' of None \<Rightarrow> 0 | Some c \<Rightarrow> unat c) else 0) tgt)"
  define B where "B = sum_list (map (\<lambda>(k', c). if k' = k then - int (unat c) else 0)
                                   (filter (\<lambda>(k', c). map_of tgt k' = None) cur))"
  have d2: "distinct (map fst (filter (\<lambda>(k', c). map_of tgt k' = None) cur))"
    using assms(1) by (simp add: distinct_map_filter)
  have "transfer_total k (map (\<lambda>(k', d). RebalanceTransfer k' d) (rebalance_deltas cur tgt)) = A + B"
    unfolding transfer_total_deltas rebalance_deltas_def A_def B_def
    by (simp add: comp_def split_def cong: if_cong)
  moreover have "A = (case map_of tgt k of None \<Rightarrow> 0 | Some v \<Rightarrow> int (unat v) - held cur k)"
    unfolding A_def
    using sum_list_keyed [OF assms(2), of k "\<lambda>k' v. int (unat v) - int (case map_of cur k' of None \<Rightarrow> 0 | Some c \<Rightarrow> unat c)"]
    by (simp add: held_def split: option.splits)
  moreover have "B = (if map_of tgt k = None then - held cur k else 0)"
    unfolding B_def using sum_list_keyed [OF d2, of k "\<lambda>k' c. - int (unat c)"]
    by (simp add: map_of_filter_none held_def split: option.splits)
  ultimately show ?thesis by (auto simp: held_def split: option.splits)
qed


text \<open>
  Claim C37 (functional). In a reachable store, a successful rebalance replaces the
  position's token amounts by the split of its unchanged current value over the
  basket's current weights, and its transfers account for the change exactly: for every
  token, the amount held before plus the signed amount transferred is the amount held
  after.
\<close>

theorem rebalance_conserves_holdings:
  assumes "reachable s" and "execute_rebalance s now sender bname = Inr (s', r)"
  shows "\<exists>p p' idx b. portfolios s sender = Some p \<and> portfolios s' sender = Some p'
     \<and> position_of (\<lambda>q. basket_name q = bname) (positions p) = Some idx
     \<and> baskets s bname = Some b
     \<and> calculate_token_amounts (tokens b) (current_value (positions p ! idx)) (get_token_prices s)
         = Inr (token_amounts (positions p' ! idx))
     \<and> current_value (positions p' ! idx) = current_value (positions p ! idx)
     \<and> (\<forall>k. held (token_amounts (positions p ! idx)) k + transfer_total k (messages r)
             = held (token_amounts (positions p' ! idx)) k)"
  using assms(2)
proof (rule execute_rebalance_InrE)
  fix p :: user_portfolio and idx target
  assume p: "portfolios s sender = Some p"
    and idx: "position_of (\<lambda>q. basket_name q = bname) (positions p) = Some idx"
    and s': "s' = save_portfolio sender (p\<lparr>positions := (positions p)[idx :=
                   (positions p ! idx)\<lparr>token_amounts := target, last_updated := now\<rparr>],
                 investment_history := investment_history p @
                   [history_entry now Rebalance (current_value (positions p ! idx)) bname (get_token_prices s)]\<rparr>) s"
    and tg: "\<exists>b. baskets s bname = Some b
        \<and> calculate_token_amounts (tokens b) (current_value (positions p ! idx)) (get_token_prices s) = Inr target"
    and msgs: "messages r = map (\<lambda>(k, d). RebalanceTransfer k d) (rebalance_deltas (token_amounts (positions p ! idx)) target)"
  obtain b :: basket_config where b: "baskets s bname = Some b"
    and c: "calculate_token_amounts (tokens b) (current_value (positions p ! idx)) (get_token_prices s) = Inr target"
    using tg by blast
  have len: "idx < length (positions p)" using position_of_Some [OF idx] by blast
  have "list_all (position_ok sender) (positions p)"
    using store_wf_owner [OF reachable_store_wf_inv [OF assms(1)] p] .
  then have dcur: "distinct (map fst (token_amounts (positions p ! idx)))"
    using len by (simp add: list_all_length position_ok_def)
  have dtgt: "distinct (map fst target)" using c by (rule calculate_token_amounts_distinct)
  define p' where "p' = p\<lparr>positions := (positions p)[idx :=
                   (positions p ! idx)\<lparr>token_amounts := target, last_updated := now\<rparr>],
                 investment_history := investment_history p @
                   [history_entry now Rebalance (current_value (positions p ! idx)) bname (get_token_prices s)]\<rparr>"
  have p': "portfolios s' sender = Some p'" by (simp add: s' p'_def save_portfolio_def)
  have at: "positions p' ! idx = (positions p ! idx)\<lparr>token_amounts := target, last_updated := now\<rparr>"
    using len by (simp add: p'_def)
  show ?thesis
    using p p' idx b c at msgs rebalance_deltas_conserve [OF dcur dtgt] by auto
qed

text \<open>
  Claim C38 (error). A rebalance looks up the basket before the portfolio: an unknown
  basket fails with \<open>NotFound\<close> for the basket whether or not the caller has a
  portfolio; then a caller without portfolio gets \<open>NotFound\<close> for the portfolio, and
  one without a position in the basket gets \<open>Position not found\<close>.
\<close>

theorem rebalance_errors:
  "(baskets s bname = None \<longrightarrow>
      execute_rebalance s now sender bname = Inl (NotFound ''basket_config''))
   \<and> (baskets s bname \<noteq> None \<longrightarrow> portfolios s sender = None \<longrightarrow>
      execute_rebalance s now sender bname = Inl (NotFound ''user_portfolio''))
   \<and> (baskets s bname \<noteq> None \<longrightarrow> portfolios s sender = Some p \<longrightarrow>
      list_all (\<lambda>q. basket_name q \<noteq> bname) (positions p) \<longrightarrow>
      execute_rebalance s now sender bname = Inl (GenericErr ''Position not found''))"
  by (auto simp: execute_rebalance_def store_access_defs list_all_iff position_of_None [THEN iffD2])


text \<open>
  Claim C39 (functional). Right after a successful rebalance, rebalancing the same
  position again succeeds and transfers nothing of any token.
\<close>

theorem rebalance_idempotent:
  assumes "execute_rebalance s now sender bname = Inr (s1, r1)"
  shows "\<exists>s2 r2. execute_rebalance s1 now' sender bname = Inr (s2, r2)
           \<and> (\<forall>k. transfer_total k (messages r2) = 0)"
  using assms
proof (rule execute_rebalance_InrE)
  fix p :: user_portfolio and idx target
  assume p: "portfolios s sender = Some p"
    and idx: "position_of (\<lambda>q. basket_name q = bname) (positions p) = Some idx"
    and s1: "s1 = save_portfolio sender (p\<lparr>positions := (positions p)[idx :=
                   (positions p ! idx)\<lparr>token_amounts := target, last_updated := now\<rparr>],
                 investment_history := investment_history p @
                   [history_entry now Rebalance (current_value (positions p ! idx)) bname (get_token_prices s)]\<rparr>) s"
    and tg: "\<exists>b. baskets s bname = Some b
        \<and> calculate_token_amounts (tokens b) (current_value (positions p ! idx)) (get_token_prices s) = Inr target"
  obtain b :: basket_config where b: "baskets s bname = Some b"
    and c: "calculate_token_amounts (tokens b) (current_value (positions p ! idx)) (get_token_prices s) = Inr target"
    using tg by blast
  have len: "idx < length (positions p)" using position_of_Some [OF idx] by blast
  define ps1 where "ps1 = (positions p)[idx := (positions p ! idx)\<lparr>token_amounts := target, last_updated := now\<rparr>]"
  have idx1: "position_of (\<lambda>q. basket_name q = bname) ps1 = Some idx"
    unfolding ps1_def using idx by (simp add: position_of_update)
  have at: "ps1 ! idx = (positions p ! idx)\<lparr>token_amounts := target, last_updated := now\<rparr>"
    using len by (simp add: ps1_def)
  have prices: "get_token_prices s1 = get_token_prices s"
    by (simp add: s1 get_token_prices_def save_portfolio_def)
  have "baskets s1 bname = Some b" using b by (simp add: s1)
  moreover have "portfolios s1 sender = Some (p\<lparr>positions := ps1,
                 investment_history := investment_history p @
                   [history_entry now Rebalance (current_value (positions p ! idx)) bname (get_token_prices s)]\<rparr>)"
    by (simp add: s1 ps1_def save_portfolio_def)
  ultimately obtain s2 r2 where e: "execute_rebalance s1 now' sender bname = Inr (s2, r2)"
    and m: "messages r2 = map (\<lambda>(k, d). RebalanceTransfer k d) (rebalance_deltas target target)"
    using idx1 at c prices
    by (simp add: execute_rebalance_def generate_rebalance_messages_def Let_def add_attribute_def
                  add_messages_def response_new_def)
  have d: "distinct (map fst target)" using c by (rule calculate_token_amounts_distinct)
  have "\<forall>k. transfer_total k (messages r2) = 0"
    using rebalance_deltas_conserve [OF d d] m by simp
  with e show ?thesis by blast
qed

text \<open>
  Claim C40 (safety). A successful \<open>SetAutoCompound\<close> sets the flag of the first
  position of the basket and changes nothing else: no other position, no other field
  of any position or of the portfolio, no other portfolio, no basket, not the config.
\<close>

theorem set_auto_compound_only_flag:
  assumes "execute_set_auto_compound s sender bname e = Inr (s', r)"
  shows "\<exists>p p' idx. portfolios s sender = Some p \<and> portfolios s' sender = Some p'
     \<and> position_of (\<lambda>q. basket_name q = bname) (positions p) = Some idx
     \<and> auto_compound (positions p' ! idx) = e
     \<and> map (\<lambda>q. q\<lparr>auto_compound := False\<rparr>) (positions p') = map (\<lambda>q. q\<lparr>auto_compound := False\<rparr>) (positions p)
     \<and> (\<forall>j. j \<noteq> idx \<longrightarrow> positions p' ! j = positions p ! j)
     \<and> p'\<lparr>positions := []\<rparr> = p\<lparr>positions := []\<rparr>
     \<and> baskets s' = baskets s \<and> config_item s' = config_item s
     \<and> (\<forall>u. u \<noteq> sender \<longrightarrow> portfolios s' u = portfolios s u)"
proof -
  from assms obtain p idx where p: "portfolios s sender = Some p"
    and idx: "position_of (\<lambda>q. basket_name q = bname) (positions p) = Some idx"
    and s': "s' = save_portfolio sender (p\<lparr>positions := (positions p)[idx :=
                   (positions p ! idx)\<lparr>auto_compound := e\<rparr>]\<rparr>) s"
    by (auto simp: execute_set_auto_compound_def Let_def split: option.splits)
  have len: "idx < length (positions p)" using position_of_Some [OF idx] by blast
  have "map (\<lambda>q. q\<lparr>auto_compound := False\<rparr>) ((positions p)[idx := (positions p ! idx)\<lparr>auto_compound := e\<rparr>])
        = map (\<lambda>q. q\<lparr>auto_compound := False\<rparr>) (positions p)"
    using len by (simp add: map_update list_update_same_conv)
  with p idx len show ?thesis by (simp add: s' save_portfolio_def)
qed

end
