(* ===== verification/LegacyState.thy ===== *)
theory LegacyState
  imports Store
begin

text \<open>
  The older state types of \<^verbatim>\<open>state.rs\<close> (lines 17--69), which no handler uses:
  an \<open>InvestmentPosition\<close> without the \<open>auto_compound\<close> flag, a
  \<open>UserPortfolio\<close> of such positions, a \<open>RewardConfig\<close> item, and the storage
  items \<open>PORTFOLIOS\<close>, \<open>REWARD_CONFIG\<close> and \<open>PRICE_FEEDS\<close>.
  \<open>InvestmentHistory\<close> and \<open>InvestmentAction\<close> are field for field those of
  \<^verbatim>\<open>contract.rs\<close> and are the \<open>investment_history\<close> and
  \<open>investment_action\<close> of \<open>Store\<close>. Field names carry a \<open>legacy_\<close> prefix, as
  the records of \<open>Store\<close> already use the source's names.

  The two \<open>PORTFOLIOS\<close> maps share the storage namespace \<open>"portfolios"\<close>. A
  load through the \<^verbatim>\<open>state.rs\<close> item of a portfolio saved by the contract decodes
  the JSON with the older type; serde ignores the unknown field
  \<open>auto_compound\<close>, so the load succeeds and yields \<open>legacy_view_portfolio\<close> of
  the stored portfolio, which forgets every position's flag.
\<close>

record legacy_position =
  legacy_user :: string
  legacy_basket_name :: string
  legacy_initial_investment :: uint128
  legacy_current_value :: uint128
  legacy_token_amounts :: "uint128 hashmap"
  legacy_entry_price :: "uint128 hashmap"
  legacy_last_updated :: u64
  legacy_pnl :: int
  legacy_performance :: int

record legacy_portfolio =
  legacy_total_invested :: uint128
  legacy_total_current_value :: uint128
  legacy_total_pnl :: int
  legacy_positions :: "legacy_position list"
  legacy_investment_history :: "investment_history list"
  legacy_rewards_earned :: uint128
  legacy_last_claim :: u64

record reward_config =
  rc_reward_token :: string
  rc_reward_rate :: uint128
  rc_min_lock_period :: u64
  rc_compound_frequency :: u64

record legacy_store =
  legacy_portfolios :: "string \<rightharpoonup> legacy_portfolio"
  reward_config_item :: "reward_config option"
  legacy_price_feeds :: "uint128 hashmap"

definition legacy_view_position :: "investment_position \<Rightarrow> legacy_position" where
  "legacy_view_position q =
     \<lparr>legacy_user = user q, legacy_basket_name = basket_name q,
      legacy_initial_investment = initial_investment q, legacy_current_value = current_value q,
      legacy_token_amounts = token_amounts q, legacy_entry_price = entry_price q,
      legacy_last_updated = last_updated q, legacy_pnl = pnl q, legacy_performance = performance q\<rparr>"

definition legacy_view_portfolio :: "user_portfolio \<Rightarrow> legacy_portfolio" where
  "legacy_view_portfolio p =
     \<lparr>legacy_total_invested = total_invested p, legacy_total_current_value = total_current_value p,
      legacy_total_pnl = total_pnl p, legacy_positions = map legacy_view_position (positions p),
      legacy_investment_history = investment_history p, legacy_rewards_earned = rewards_earned p,
      legacy_last_claim = last_claim p\<rparr>"

definition legacy_load_portfolio :: "store \<Rightarrow> string \<Rightarrow> legacy_portfolio result" where
  "legacy_load_portfolio s k =
     (case portfolios s k of None \<Rightarrow> Inl (NotFound ''user_portfolio'')
      | Some p \<Rightarrow> Inr (legacy_view_portfolio p))"

lemma legacy_view_position_eq:
  "legacy_view_position q = legacy_view_position q' \<longleftrightarrow> q\<lparr>auto_compound := False\<rparr> = q'\<lparr>auto_compound := False\<rparr>"
  by (cases q, cases q') (simp add: legacy_view_position_def)

lemma legacy_view_forgets_flag:
  "legacy_view_portfolio (p\<lparr>positions := map (\<lambda>q. q\<lparr>auto_compound := b\<rparr>) (positions p)\<rparr>) = legacy_view_portfolio p"
  by (simp add: legacy_view_portfolio_def legacy_view_position_def comp_def)

end
