(* ===== verification/Spec2Isabelle.thy ===== *)
theory Spec2Isabelle
  imports Governance Queries LedgerSpec Decimal Counter Positions LegacyState
begin

text \<open>
  \<^bold>\<open>A verification model of the EuclidFi basket contract.\<close>

  The repository is one CosmWasm contract, \<^verbatim>\<open>src/contracts/euclidfi/src\<close>:
  \<^verbatim>\<open>contract.rs\<close> holds the state types, the entry points and every handler,
  \<^verbatim>\<open>msg.rs\<close> the messages, \<^verbatim>\<open>state.rs\<close> older copies of the state types
  that \<^verbatim>\<open>contract.rs\<close> does not use. An admin defines baskets (weighted lists of
  tokens on several chains); users invest an amount into a basket, which the allocation
  engine splits over the basket's tokens into a position of their portfolio; they
  withdraw a percentage of a position (the contract emits bank sends and bridge calls
  for the tokens), rebalance a position to the basket's current weights, flag it for
  auto-compounding, and claim a time-based reward. The host runs one message at a time;
  a call that fails or panics commits nothing.

  \<^bold>\<open>Theories and what they model.\<close>
  \<^item> \<open>Prelude\<close>: \<open>u8\<close>, \<open>u64\<close>, \<open>Uint128\<close> as \<open>8/64/128 word\<close>; the error type
    \<open>contract_error\<close> (\<open>ContractError::Unauthorized\<close>, \<open>StdError::NotFound\<close> of a
    storage load, \<open>StdError::generic_err\<close>, a panic); the \<open>?\<close> operator as
    \<open>rbind\<close>; the panicking \<open>Uint128\<close> operators \<open>+ - *\<close> and
    \<open>multiply_ratio\<close> (256-bit product, truncating quotient, panic on a zero divisor
    or a quotient past 128 bits); \<open>saturating_sub\<close>; the \<open>u8\<close> \<open>Iterator::sum\<close>,
    which panics at 255 (the CosmWasm release profile sets \<open>overflow-checks\<close>);
    \<open>Iterator::position\<close>, \<open>Vec::remove\<close>; a \<open>HashMap<String, _>\<close> as an
    association list updated by \<open>AList.update\<close>, iterated in list order (the real
    order is unspecified, so the properties about iteration are stated through sums,
    multisets and \<open>map_of\<close>); decimal \<open>to_string\<close> for the response attributes.
  \<^item> \<open>Tokens\<close>: \<open>ChainType\<close>, \<open>Token\<close>, \<open>TokenWeight\<close> (contract.rs 47--67) and
    \<open>total_weight\<close>, the \<open>u8\<close> weight sum of lines 239 and 577.
  \<^item> \<open>Allocation\<close>: \<open>calculate_token_amounts\<close> (571--585), its loop, and the
    reference split \<open>allocation_spec\<close>.
  \<^item> \<open>Store\<close>: \<open>Config\<close>, \<open>BasketConfig\<close>, \<open>InvestmentPosition\<close>,
    \<open>InvestmentHistory\<close>, \<open>UserPortfolio\<close> (21--109), the four storage collections
    as the record \<open>store\<close>, loads and saves, \<open>get_token_prices\<close> (587--594), and
    the \<open>Response\<close> with its \<open>CosmosMsg\<close>s.
  \<^item> \<open>Baskets\<close>: \<open>execute_create_basket\<close>, \<open>execute_update_basket\<close> (195--256).
  \<^item> \<open>GlobalConfig\<close>: \<open>instantiate\<close> (112--134), \<open>execute_update_config\<close>
    (544--569).
  \<^item> \<open>Ledger\<close>: \<open>execute_invest\<close> (302--372), \<open>execute_withdraw\<close> (374--418)
    with \<open>generate_withdraw_messages\<close> (421--462), \<open>execute_set_auto_compound\<close>
    (489--508), \<open>execute_rebalance\<close> (511--542).
  \<^item> \<open>Rewards\<close>: \<open>calculate_rewards\<close> (596--610), \<open>execute_claim_rewards\<close>
    (463--487).
  \<^item> \<open>Contract\<close>: the \<open>ExecuteMsg\<close> dispatcher \<open>execute\<close> (137--170), the
    transaction commit, \<open>run\<close> (a sequence of calls, each committed before the next),
    and \<open>reachable\<close>, the stores reachable from instantiation by successful executions
    interleaved with price-feed updates; the portfolio-value invariant.
  \<^item> \<open>Governance\<close>: admin-only operations and the aggregate counters (TVLs,
    \<open>total_users\<close>) over dispatcher steps, call sequences and reachable stores.
  \<^item> \<open>StoreWf\<close>: well-formedness of the store (baskets stored under their names,
    positions owned by their portfolio's address, token amounts with distinct keys).
  \<^item> \<open>Positions\<close>: the per-token accounting of rebalancing (\<open>held\<close>,
    \<open>transfer_total\<close>) and the properties of \<open>execute_rebalance\<close> and
    \<open>execute_set_auto_compound\<close>.
  \<^item> \<open>LegacyState\<close>: the unused older types and storage items of
    \<^verbatim>\<open>state.rs\<close> (17--69) and what a load through them would read.
  \<^item> \<open>LedgerSpec\<close>: an abstract ledger (per user, invested amount and current value
    as naturals, with deposit, withdrawal and stutter steps), the view of a store as an
    abstract ledger, and the refinement of the dispatcher into it.
  \<^item> \<open>Queries\<close>: \<open>QueryMsg\<close> (msg.rs 59--81) and the six query functions
    (613--658).
  \<^item> \<open>Decimal\<close>: a parser for decimal strings, the inverse of the printer used for
    the response attributes.
  \<^item> \<open>Counter\<close>: the template's \<open>State\<close> item (state.rs 9--15),
    \<open>execute::increment\<close>, \<open>execute::reset\<close> and \<open>query::count\<close> (261--299),
    with the \<open>i32\<close> count as a signed 32-bit word.
  \<^item> this theory: the specification's concrete scenario (a basket of two tokens
    weighted 60/40, deployed, created and invested into by a sequence of calls), the
    scenario theorems and the witnesses of the properties.

  Every handler takes the store, the block time and the sender, and returns
  \<open>(store \<times> response) result\<close>: its loads, checks and saves happen in the source's
  order and its first error is the result. Parameters named like a record field are
  renamed (\<open>bname\<close>, \<open>amt\<close>, \<open>act\<close>, \<open>addr\<close>). Every loop of the source is a
  loop over a list and is modelled by structural recursion or a fold, so every model
  function is total and no fuel is needed; the one unbounded recursion, decimal printing,
  terminates by the measure \<open>n\<close> (\<open>n div 10 < n\<close>).

  \<^bold>\<open>What the lemmas show.\<close>
  \<^item> Allocation: the complete input/output behaviour of \<open>calculate_token_amounts\<close>,
    both panics included (C1); the truncation bounds (C2); independence of the order of
    the weight list (C3).
  \<^item> Ledger: \<open>execute_invest\<close> succeeds exactly when the basket exists and is
    active, the amount reaches the minimum, the split and the four additions do not
    overflow, and then appends one position and raises the portfolio, basket and global
    values by the amount (C4); its error guards (C5). \<open>execute_withdraw\<close>'s errors
    (C6); a 100\<percent> withdrawal removes the position (C7); a partial one leaves the
    position's token amounts unchanged (C8), so repeated partial withdrawals overpay
    (C9).
  \<^item> Contract: the portfolio-value invariant over reachable stores (C10); hence a
    withdrawal never panics (C11) and succeeds on valid input (C12).
  \<^item> Rewards: \<open>calculate_rewards\<close> on every input (C13); a claim fails exactly on a
    zero reward (C14), always within the lock period (C15); the effect of a successful
    claim (C16); with the deployment's parameters small portfolios earn 0 after the lock
    period, against the specification (C17).
  \<^item> Governance: only the admin creates or updates baskets or the configuration (C18);
    a non-admin's call changes no definition (C19); the basket TVLs sum to at most the
    global TVL (C20); \<open>total_users\<close> stays 0 (C21); along any call sequence the
    admin and reward token are fixed and the global TVL never decreases (C22).
  \<^item> Baskets: \<open>execute_update_basket\<close> on every weight list (C23); creation accepts
    bad weights and overwrites an existing basket (C24, scenario).
  \<^item> Scenarios: the specification's withdrawal of 50\<percent> (C25); a second
    investment in a basket duplicates the position (C26).
  \<^item> Queries: narrowing the history window gives a subsequence (C27); an investment
    shows in the history and performance queries (C28); a claim shows in the rewards
    query (C29).
  \<^item> Refinement: every call sequence is simulated by abstract ledger steps (C30), which
    carries the abstract invariant that no portfolio is worth more than was invested to
    every reachable store (C31).
  \<^item> Decimal: the \<open>amount\<close> attribute of a claim parses back to the amount paid and has
    at most 39 digits (C32).
  \<^item> Counter: \<open>increment\<close> panics exactly at \<open>i32::MAX\<close> (C33); only the owner
    resets (C34).
  \<^item> StoreWf: every reachable store is well formed (C35).
  \<^item> Prices: in every reachable store the price map the handlers read has distinct keys
    and agrees with the stored feeds (C36); the oracle's updates are modelled as
    arbitrary feeds with distinct keys, as a storage map has.
  \<^item> Positions: a rebalance sets the position to the split of its value over the current
    weights and its transfers move exactly the difference, token by token (C37); its
    errors in the source's order (C38); a second rebalance moves nothing (C39);
    \<open>SetAutoCompound\<close> changes only the flag of one position (C40).

  \<^bold>\<open>Not modelled.\<close> \<open>to_binary\<close> and JSON (the bridge call's payload is kept as
  the string it encodes); storage (de)serialisation failures; the \<open>query\<close> entry
  points, which are commented out in the source (the query functions themselves are
  modelled); serde beyond the one decoding of \<open>LegacyState\<close>; the price oracle, which is
  an arbitrary update of the price feeds in \<open>reachable\<close>. Two functions the handlers
  call are not defined anywhere in the repository and are modelled from the
  specification: \<open>generate_rebalance_messages\<close> (the signed deltas of section 4.2)
  and \<open>create_reward_transfer_msg\<close> (a bank send of the reward token). The source as
  written does not compile (\<open>env\<close> used where the parameter is \<open>_env\<close>,
  \<open>deps\<close> out of scope in \<open>generate_withdraw_messages\<close>, \<open>Uint128 * u128\<close> in
  \<open>calculate_rewards\<close>); the model follows the evident intent.

  \<^bold>\<open>Plan.\<close> Remaining: the performance query's \<open>i64\<close> width (every stored
  \<open>pnl\<close> and \<open>performance\<close> is 0, so no value can leave its range), the handlers'
  response attributes beyond the amounts, and the stored price snapshots
  (\<open>entry_price\<close>, \<open>token_prices\<close> of the history) against later feeds.
\<close>

section \<open>The specification's scenario\<close>

definition token_A :: token where
  "token_A = \<lparr>address = ''cosmos1tokena'', chain = Cosmos, symbol = ''A'', decimals = 6\<rparr>"

definition token_B :: token where
  "token_B = \<lparr>address = ''0xtokenb'', chain = Ethereum, symbol = ''B'', decimals = 18\<rparr>"

definition stable_mix :: "token_weight list" where
  "stable_mix = [\<lparr>token = token_A, weight = 60\<rparr>, \<lparr>token = token_B, weight = 40\<rparr>]"

text \<open>
  The deployment used by the scenarios: instantiated by \<open>admin\<close>, the basket
  \<open>stable-mix\<close> created with a minimum of 100, and 100 invested by \<open>alice\<close>.
\<close>

definition deploy_msg :: instantiate_msg where
  "deploy_msg = \<lparr>msg_admin = ''admin'', msg_reward_token = ''ueuclid'', msg_reward_rate = 10,
                 msg_min_lock_period = 86400, msg_compound_frequency = 3600\<rparr>"

definition deployed :: store where
  "deployed = commit_tx empty_store (instantiate empty_store ''admin'' deploy_msg)"

definition setup_calls :: "(u64 \<times> string \<times> execute_msg) list" where
  "setup_calls = [(1, ''admin'', CreateBasketMsg ''stable-mix'' stable_mix 100),
                  (2, ''alice'', InvestMsg ''stable-mix'' 100 False)]"

definition invested :: store where
  "invested = (case run deployed setup_calls of Inr (s, rs) \<Rightarrow> s | Inl e \<Rightarrow> deployed)"

definition alice_position :: investment_position where
  "alice_position = \<lparr>user = ''alice'', basket_name = ''stable-mix'', initial_investment = 100,
     current_value = 100, token_amounts = [(''A'', 60), (''B'', 40)], entry_price = [],
     last_updated = 2, pnl = 0, performance = 0, auto_compound = False\<rparr>"

definition alice_portfolio :: user_portfolio where
  "alice_portfolio = \<lparr>total_invested = 100, total_current_value = 100, total_pnl = 0,
     positions = [alice_position],
     investment_history = [history_entry 2 Deposit 100 ''stable-mix'' []],
     rewards_earned = 0, last_claim = 2\<rparr>"

definition stable_mix_basket :: basket_config where
  "stable_mix_basket = \<lparr>name = ''stable-mix'', tokens = stable_mix, min_investment = 100,
     basket_tvl = 100, active = True\<rparr>"

definition deployed_config :: config where
  "deployed_config = \<lparr>admin = ''admin'', reward_token = ''ueuclid'', reward_rate = 10,
     min_lock_period = 86400, compound_frequency = 3600, total_value_locked = 100, total_users = 0\<rparr>"

text \<open>Two weight lists for the basket updates: 50/50, and 50/40, which adds up to 90.\<close>

definition half_half :: "token_weight list" where
  "half_half = [\<lparr>token = token_A, weight = 50\<rparr>, \<lparr>token = token_B, weight = 50\<rparr>]"

definition ninety :: "token_weight list" where
  "ninety = [\<lparr>token = token_A, weight = 50\<rparr>, \<lparr>token = token_B, weight = 40\<rparr>]"


definition reweighted :: store where
  "reweighted = commit_tx invested (execute invested 4 ''admin'' (UpdateBasketMsg ''stable-mix'' half_half None True))"

subsection \<open>Evaluating the scenario\<close>

lemmas scenario_defs = stable_mix_def token_A_def token_B_def

lemma stable_mix_distinct: "distinct (token_symbols stable_mix)"
  by (simp add: scenario_defs token_symbols_def)

lemma stable_mix_split:
  "calculate_token_amounts stable_mix 100 [] = Inr [(''A'', 60), (''B'', 40)]"
  by (simp add: scenario_defs calculate_token_amounts_def total_weight_eq multiply_ratio_def
                hashmap_insert_def)

lemmas eval_defs = scenario_defs deployed_def commit_tx_def instantiate_def deploy_msg_def
  empty_store_def setup_calls_def invested_def execute_create_basket_def execute_invest_def
  execute_withdraw_def store_access_defs Let_def word_add_checked_def word_sub_checked_def
  multiply_ratio_def generate_withdraw_messages_def find_token_def coin_total_def msg_coins_def
  add_attribute_def add_messages_def response_new_def get_token_prices_def new_position_def
  history_entry_def empty_portfolio_def calculate_token_amounts_def total_weight_eq
  hashmap_insert_def routable_def

lemma reachable_deployed: "reachable deployed"
proof -
  have "\<exists>r. instantiate empty_store ''admin'' deploy_msg = Inr (deployed, r)"
    by (simp add: eval_defs)
  then show ?thesis using reachable.instantiated by blast
qed

lemma setup_runs: "\<exists>rs. run deployed setup_calls = Inr (invested, rs)"
  by (simp add: eval_defs)

lemma reachable_invested: "reachable invested"
  using reachable_deployed setup_runs run_reachable by blast

lemma invested_alice: "portfolios invested ''alice'' = Some alice_portfolio"
  by (simp add: eval_defs alice_portfolio_def alice_position_def)

lemma invested_basket: "baskets invested ''stable-mix'' = Some stable_mix_basket"
  by (simp add: eval_defs stable_mix_basket_def)

lemma invested_config: "config_item invested = Some deployed_config"
  by (simp add: eval_defs deployed_config_def)

lemma deployed_config_item: "config_item deployed = Some (deployed_config\<lparr>total_value_locked := 0\<rparr>)"
  by (simp add: eval_defs deployed_config_def)

lemma reweighted_eq:
  "reweighted = invested\<lparr>baskets := (baskets invested)(''stable-mix'' \<mapsto> stable_mix_basket\<lparr>tokens := half_half\<rparr>)\<rparr>"
  by (simp add: reweighted_def commit_tx_def invested_config invested_basket deployed_config_def
                execute_update_basket_def load_config_def load_basket_def total_weight_eq half_half_def
                save_basket_def stable_mix_basket_def)

lemma invested_prices: "get_token_prices invested = []"
  by (simp add: eval_defs)


lemma reweighted_step: "\<exists>r. execute invested 4 ''admin'' (UpdateBasketMsg ''stable-mix'' half_half None True) = Inr (reweighted, r)"
  by (simp add: reweighted_def commit_tx_def invested_config invested_basket deployed_config_def
                execute_update_basket_def load_config_def load_basket_def total_weight_eq half_half_def)

lemma reachable_reweighted: "reachable reweighted"
  using reweighted_step reachable.executed [OF reachable_invested] by blast

section \<open>The specification's scenarios and the code's departures from them\<close>






section \<open>Witnesses\<close>

theorem allocation_bounds_witness:
  "distinct (token_symbols stable_mix)
   \<and> calculate_token_amounts stable_mix 100 [] = Inr [(''A'', 60), (''B'', 40)]
   \<and> sum_list (map (unat \<circ> snd) [(''A'', 60::uint128), (''B'', 40)]) \<le> unat (100::uint128)
   \<and> unat (100::uint128) < sum_list (map (unat \<circ> snd) [(''A'', 60::uint128), (''B'', 40)])
                           + length stable_mix"
proof -
  have "stable_mix \<noteq> []" by (simp add: stable_mix_def)
  with stable_mix_distinct stable_mix_split
    allocation_bounds [OF stable_mix_distinct stable_mix_split]
  show ?thesis by blast
qed

theorem allocation_order_independent_witness:
  "mset (rev stable_mix) = mset stable_mix
   \<and> (\<exists>m'. calculate_token_amounts (rev stable_mix) 100 [(''A'', 1)] = Inr m'
          \<and> mset m' = mset [(''A'', 60), (''B'', 40)]
          \<and> map_of m' = map_of [(''A'', 60::uint128), (''B'', 40)])"
proof -
  have p: "mset (rev stable_mix) = mset stable_mix" by simp
  show ?thesis
    using p allocation_order_independent [OF p stable_mix_distinct stable_mix_split] by blast
qed

theorem execute_invest_guards_witness:
  "baskets invested ''none'' = None
   \<and> execute_invest invested 3 ''bob'' ''none'' 50 False = Inl (NotFound ''basket_config'')
   \<and> baskets invested ''stable-mix'' = Some stable_mix_basket \<and> active stable_mix_basket
   \<and> 50 < min_investment stable_mix_basket
   \<and> execute_invest invested 3 ''bob'' ''stable-mix'' 50 False = Inl (GenericErr ''Investment below minimum'')"
proof -
  have none: "baskets invested ''none'' = None" by (simp add: eval_defs)
  have b: "active stable_mix_basket" "50 < min_investment stable_mix_basket"
    by (simp_all add: stable_mix_basket_def)
  show ?thesis
    using execute_invest_guards [of invested "''none''" 3 "''bob''" 50 False stable_mix_basket]
          execute_invest_guards [of invested "''stable-mix''" 3 "''bob''" 50 False stable_mix_basket]
          none invested_basket b
    by simp
qed

theorem execute_withdraw_errors_witness:
  "execute_withdraw invested 3 ''alice'' ''stable-mix'' 150 = Inl (GenericErr ''Invalid withdrawal percentage'')
   \<and> portfolios invested ''carol'' = None
   \<and> execute_withdraw invested 3 ''carol'' ''stable-mix'' 50 = Inl (NotFound ''user_portfolio'')
   \<and> execute_withdraw invested 3 ''alice'' ''other'' 50 = Inl (GenericErr ''Position not found'')"
proof -
  have carol: "portfolios invested ''carol'' = None" by (simp add: eval_defs)
  have other: "\<forall>q\<in>set (positions alice_portfolio). basket_name q \<noteq> ''other''"
    by (simp add: alice_portfolio_def alice_position_def)
  show ?thesis
    using execute_withdraw_errors [of 150 invested 3 "''alice''" "''stable-mix''"]
          execute_withdraw_errors [of 50 invested 3 "''carol''" "''stable-mix''"]
          execute_withdraw_errors [of 50 invested 3 "''alice''" "''other''" alice_portfolio]
          carol other invested_alice
    by simp
qed

theorem withdraw_all_liquidates_witness:
  "\<exists>s' r. execute_withdraw invested 3 ''alice'' ''stable-mix'' 100 = Inr (s', r)
     \<and> concat (map msg_coins (messages r)) =
          [\<lparr>denom = ''A'', coin_amount = 60\<rparr>, \<lparr>denom = ''B'', coin_amount = 40\<rparr>]
     \<and> portfolios s' ''alice'' \<noteq> None"
proof -
  obtain s' r where h: "execute_withdraw invested 3 ''alice'' ''stable-mix'' 100 = Inr (s', r)"
    using reachable_invested by (auto simp: eval_defs)
  from withdraw_all_liquidates [OF h] invested_alice
  have "concat (map msg_coins (messages r)) =
          [\<lparr>denom = ''A'', coin_amount = 60\<rparr>, \<lparr>denom = ''B'', coin_amount = 40\<rparr>]
        \<and> portfolios s' ''alice'' \<noteq> None"
    by (auto simp: alice_portfolio_def alice_position_def)
  with h show ?thesis by blast
qed

theorem partial_withdraw_keeps_token_amounts_witness:
  "\<exists>s' r p'. execute_withdraw invested 3 ''alice'' ''stable-mix'' 50 = Inr (s', r)
     \<and> (50::u8) < 100
     \<and> portfolios s' ''alice'' = Some p'
     \<and> token_amounts (positions p' ! 0) = [(''A'', 60), (''B'', 40)]
     \<and> unat (current_value (positions p' ! 0)) = 50"
proof -
  obtain s' r where h: "execute_withdraw invested 3 ''alice'' ''stable-mix'' 50 = Inr (s', r)"
    by (auto simp: eval_defs)
  have lt: "(50::u8) < 100" by simp
  from partial_withdraw_keeps_token_amounts [OF h lt] invested_alice
  obtain p' where "portfolios s' ''alice'' = Some p'"
    and "token_amounts (positions p' ! 0) = [(''A'', 60), (''B'', 40)]"
    and "unat (current_value (positions p' ! 0)) = 50"
    by (auto simp: alice_portfolio_def alice_position_def)
  with h lt show ?thesis by blast
qed

theorem reachable_portfolio_value_witness:
  "reachable invested \<and> portfolios invested ''alice'' = Some alice_portfolio
   \<and> unat (total_current_value alice_portfolio) =
       sum_list (map (unat \<circ> current_value) (positions alice_portfolio))"
  using reachable_portfolio_value [OF reachable_invested invested_alice]
        reachable_invested invested_alice
  by simp

theorem withdraw_never_panics_witness:
  "reachable invested
   \<and> execute_withdraw invested 3 ''alice'' ''stable-mix'' 50 \<noteq> Inl (Panic ''attempt to subtract with overflow'')"
  using withdraw_never_panics [OF reachable_invested] reachable_invested by blast

theorem withdraw_succeeds_witness:
  "reachable invested \<and> portfolios invested ''alice'' = Some alice_portfolio
   \<and> position_of (\<lambda>q. basket_name q = ''stable-mix'') (positions alice_portfolio) = Some 0
   \<and> baskets invested ''stable-mix'' = Some stable_mix_basket
   \<and> list_all (routable (tokens stable_mix_basket)) (map fst (token_amounts (positions alice_portfolio ! 0)))
   \<and> (\<exists>s' r. execute_withdraw invested 3 ''alice'' ''stable-mix'' 50 = Inr (s', r))"
proof -
  have idx: "position_of (\<lambda>q. basket_name q = ''stable-mix'') (positions alice_portfolio) = Some 0"
    by (simp add: alice_portfolio_def alice_position_def)
  have rt: "\<forall>k\<in>fst ` set (token_amounts (positions alice_portfolio ! 0)). routable (tokens stable_mix_basket) k"
    by (simp add: alice_portfolio_def alice_position_def stable_mix_basket_def routable_def
                  find_token_def scenario_defs)
  have pct: "0 < (50::u8)" "(50::u8) \<le> 100" by simp_all
  show ?thesis
    using withdraw_succeeds [OF reachable_invested pct invested_alice idx invested_basket rt]
          reachable_invested invested_alice idx invested_basket rt
    by (simp add: list_all_iff)
qed

theorem claim_rewards_fails_iff_zero_witness:
  "calculate_rewards alice_portfolio deployed_config 86402 = Inr 0
   \<and> execute_claim_rewards invested 86402 ''alice'' = Inl (GenericErr ''No rewards to claim'')"
proof -
  have z: "calculate_rewards alice_portfolio deployed_config 86402 = Inr 0"
    by (simp add: alice_portfolio_def deployed_config_def calculate_rewards_def saturating_sub_def
                  word_mul_checked_def multiply_ratio_def)
  show ?thesis
    using claim_rewards_fails_iff_zero [OF invested_config invested_alice, of 86402] z by simp
qed

theorem claim_within_lock_fails_witness:
  "unat (3::u64) - unat (last_claim alice_portfolio) < unat (min_lock_period deployed_config)
   \<and> execute_claim_rewards invested 3 ''alice'' = Inl (GenericErr ''No rewards to claim'')"
proof -
  have lt: "unat (3::u64) - unat (last_claim alice_portfolio) < unat (min_lock_period deployed_config)"
    by (simp add: alice_portfolio_def deployed_config_def)
  show ?thesis using claim_within_lock_fails [OF invested_config invested_alice lt] lt by simp
qed

theorem admin_only_operations_witness:
  "config_item invested = Some deployed_config \<and> ''alice'' \<noteq> admin deployed_config
   \<and> execute invested 3 ''alice'' (CreateBasketMsg ''evil'' ninety 1) = Inl Unauthorized
   \<and> execute invested 3 ''alice'' (UpdateBasketMsg ''stable-mix'' half_half None False) = Inl Unauthorized
   \<and> execute invested 3 ''alice'' (UpdateConfigMsg (Some 0) None None) = Inl (GenericErr ''Unauthorized'')"
proof -
  have na: "''alice'' \<noteq> admin deployed_config" by (simp add: deployed_config_def)
  show ?thesis using admin_only_operations [OF invested_config na] invested_config na by simp
qed

theorem non_admin_preserves_definitions_witness:
  "\<exists>s' r. execute invested 3 ''alice'' (InvestMsg ''stable-mix'' 100 False) = Inr (s', r)
     \<and> config_item invested = Some deployed_config \<and> ''alice'' \<noteq> admin deployed_config
     \<and> (\<exists>c'. config_item s' = Some c' \<and> c' = deployed_config\<lparr>total_value_locked := total_value_locked c'\<rparr>)"
proof -
  obtain s' r where e: "execute invested 3 ''alice'' (InvestMsg ''stable-mix'' 100 False) = Inr (s', r)"
    by (auto simp: eval_defs)
  have na: "''alice'' \<noteq> admin deployed_config" by (simp add: deployed_config_def)
  show ?thesis using non_admin_preserves_definitions [OF e invested_config na] e invested_config na by blast
qed

theorem reachable_tvl_covers_baskets_witness:
  "reachable invested \<and> (\<exists>c. config_item invested = Some c \<and> finite (dom (baskets invested))
     \<and> (\<Sum>k\<in>dom (baskets invested). unat (basket_tvl (the (baskets invested k)))) \<le> unat (total_value_locked c))"
  using reachable_tvl_covers_baskets [OF reachable_invested] reachable_invested by blast

theorem reachable_total_users_zero_witness:
  "reachable invested \<and> (\<exists>c. config_item invested = Some c \<and> total_users c = 0)"
  using reachable_total_users_zero [OF reachable_invested] reachable_invested by blast

theorem run_keeps_admin_and_tvl_witness:
  "\<exists>rs. run deployed setup_calls = Inr (invested, rs)
     \<and> config_item deployed = Some (deployed_config\<lparr>total_value_locked := 0\<rparr>)
     \<and> (\<exists>c'. config_item invested = Some c' \<and> admin c' = ''admin'' \<and> reward_token c' = ''ueuclid'')"
proof -
  obtain rs where r: "run deployed setup_calls = Inr (invested, rs)" using setup_runs by blast
  show ?thesis
    using run_keeps_admin_and_tvl [OF r deployed_config_item] r deployed_config_item
    by (auto simp: deployed_config_def)
qed

theorem update_basket_result_witness:
  "config_item invested = Some deployed_config \<and> ''admin'' = admin deployed_config
   \<and> baskets invested ''stable-mix'' = Some stable_mix_basket
   \<and> execute_update_basket invested ''admin'' ''stable-mix'' ninety None True = Inl Unauthorized
   \<and> (\<exists>s' r. execute_update_basket invested ''admin'' ''stable-mix'' half_half None False = Inr (s', r)
        \<and> baskets s' ''stable-mix'' = Some (stable_mix_basket\<lparr>tokens := half_half, active := False\<rparr>))"
proof -
  have adm: "''admin'' = admin deployed_config" by (simp add: deployed_config_def)
  show ?thesis
    using update_basket_result [OF invested_config adm invested_basket, of ninety None True]
          update_basket_result [OF invested_config adm invested_basket, of half_half None False]
          invested_config adm invested_basket
    by (simp add: ninety_def half_half_def)
qed


theorem invest_visible_in_queries_witness:
  "\<exists>s' r hs ms. execute_invest invested 3 ''alice'' ''stable-mix'' 100 False = Inr (s', r)
     \<and> query_investment_history s' ''alice'' (Some 3) (Some 3) =
         Inr (hs @ [history_entry 3 Deposit 100 ''stable-mix'' (get_token_prices invested)])
     \<and> query_performance_metrics s' ''alice'' (Some ''stable-mix'') = Inr (ms @ [(''stable-mix'', 0)])"
proof -
  obtain s' r where e: "execute_invest invested 3 ''alice'' ''stable-mix'' 100 False = Inr (s', r)"
    by (auto simp: eval_defs)
  show ?thesis using invest_visible_in_queries [OF e] e by blast
qed


theorem run_refines_ledger_witness:
  "\<exists>rs. run deployed setup_calls = Inr (invested, rs)
     \<and> ledger_step\<^sup>*\<^sup>* (ledger_view deployed) (ledger_view invested)"
proof -
  obtain rs where r: "run deployed setup_calls = Inr (invested, rs)" using setup_runs by blast
  show ?thesis using run_refines_ledger [OF r] r by blast
qed

theorem reachable_value_le_invested_witness:
  "reachable invested \<and> portfolios invested ''alice'' = Some alice_portfolio
   \<and> total_current_value alice_portfolio \<le> total_invested alice_portfolio"
  using reachable_value_le_invested [OF reachable_invested invested_alice] reachable_invested invested_alice
  by simp


theorem reachable_store_wf_witness:
  "reachable invested \<and> baskets invested ''stable-mix'' = Some stable_mix_basket
   \<and> name stable_mix_basket = ''stable-mix''
   \<and> list_all (\<lambda>q. user q = ''alice'' \<and> distinct (map fst (token_amounts q))) (positions alice_portfolio)"
  using reachable_store_wf [OF reachable_invested] reachable_invested invested_alice invested_basket
  by blast


theorem rebalance_conserves_holdings_witness:
  "reachable reweighted
   \<and> (\<exists>s' r. execute_rebalance reweighted 5 ''alice'' ''stable-mix'' = Inr (s', r)
        \<and> transfer_total ''A'' (messages r) = -10 \<and> transfer_total ''B'' (messages r) = 10)"
proof -
  obtain s' r where e: "execute_rebalance reweighted 5 ''alice'' ''stable-mix'' = Inr (s', r)"
    and m: "transfer_total ''A'' (messages r) = -10 \<and> transfer_total ''B'' (messages r) = 10"
    by (simp add: reweighted_eq invested_alice invested_prices execute_rebalance_def
        generate_rebalance_messages_def alice_portfolio_def alice_position_def store_access_defs
        Let_def calculate_token_amounts_def total_weight_eq multiply_ratio_def hashmap_insert_def
        scenario_defs half_half_def rebalance_deltas_def transfer_total_def
        add_attribute_def add_messages_def response_new_def get_token_prices_def)
  show ?thesis using rebalance_conserves_holdings [OF reachable_reweighted e] reachable_reweighted e m by blast
qed

theorem rebalance_errors_witness:
  "baskets invested ''none'' = None
   \<and> execute_rebalance invested 3 ''alice'' ''none'' = Inl (NotFound ''basket_config'')
   \<and> portfolios invested ''carol'' = None
   \<and> execute_rebalance invested 3 ''carol'' ''stable-mix'' = Inl (NotFound ''user_portfolio'')"
proof -
  have n: "baskets invested ''none'' = None" and c: "portfolios invested ''carol'' = None"
    by (simp_all add: eval_defs)
  show ?thesis
    using rebalance_errors [of invested "''none''" 3 "''alice''"]
          rebalance_errors [of invested "''stable-mix''" 3 "''carol''"] n c invested_basket
    by simp
qed

theorem rebalance_idempotent_witness:
  "\<exists>s1 r1 s2 r2. execute_rebalance reweighted 5 ''alice'' ''stable-mix'' = Inr (s1, r1)
     \<and> execute_rebalance s1 6 ''alice'' ''stable-mix'' = Inr (s2, r2)
     \<and> transfer_total ''A'' (messages r2) = 0"
proof -
  obtain s1 r1 where e: "execute_rebalance reweighted 5 ''alice'' ''stable-mix'' = Inr (s1, r1)"
    by (simp add: reweighted_eq invested_alice invested_prices execute_rebalance_def
        generate_rebalance_messages_def alice_portfolio_def alice_position_def store_access_defs
        Let_def calculate_token_amounts_def total_weight_eq multiply_ratio_def hashmap_insert_def
        scenario_defs half_half_def)
  show ?thesis using rebalance_idempotent [OF e, of 6] e by blast
qed

theorem set_auto_compound_only_flag_witness:
  "\<exists>s' r p'. execute_set_auto_compound invested ''alice'' ''stable-mix'' True = Inr (s', r)
     \<and> portfolios s' ''alice'' = Some p' \<and> auto_compound (positions p' ! 0) = True"
proof -
  obtain s' r where e: "execute_set_auto_compound invested ''alice'' ''stable-mix'' True = Inr (s', r)"
    by (simp add: execute_set_auto_compound_def invested_alice alice_portfolio_def alice_position_def
                  load_portfolio_def Let_def)
  have idx: "position_of (\<lambda>q. basket_name q = ''stable-mix'') (positions alice_portfolio) = Some 0"
    by (simp add: alice_portfolio_def alice_position_def)
  show ?thesis using set_auto_compound_only_flag [OF e] e invested_alice idx by auto
qed

end
